theory Spec2Isabelle
  imports Main "HOL-Library.Word"
begin

unbundle bit_operations_syntax

chapter \<open>The encrypted chat-history store of blinkey-ide\<close>

text \<open>
  The development embeds the chat persistence code of the repository:
  \<^item> \<^verbatim>\<open>chat-encryption.ts\<close>: \<open>deriveKey\<close>, \<open>encryptChatData\<close>, \<open>decryptChatData\<close>,
    \<open>isEncrypted\<close> (AES-256-GCM under a PBKDF2 key);
  \<^item> \<^verbatim>\<open>chat-encoding.ts\<close> (the file \<^verbatim>\<open>unnamed/part_000\<close>): \<open>encodeChatData\<close>,
    \<open>decodeChatData\<close>, \<open>isEncoded\<close> (base64);
  \<^item> \<^verbatim>\<open>chat-history-service-impl.ts\<close>, the store over the encrypting codec, and the second
    copy of that class inside \<^verbatim>\<open>arduino-ide-electron-main.js\<close>, the store over the base64
    codec.

  JavaScript strings are sequences of UTF-16 code units, buffers are sequences of bytes.
  The library functions the code calls (\<open>Buffer\<close>, \<open>node:crypto\<close>, \<open>String.prototype\<close>) are
  modelled from their specifications: ECMAScript, the WHATWG encoding standard, RFC 4648,
  FIPS 180-4, RFC 2104, RFC 8018, FIPS 197 and NIST SP 800-38D.
\<close>

section \<open>JavaScript strings\<close>

type_synonym byte = "8 word"
type_synonym code_unit = "16 word"
type_synonym jsstring = "code_unit list"

text \<open>An ASCII literal as a JavaScript string.\<close>

definition js :: "string \<Rightarrow> jsstring" where
  "js s = map (\<lambda>c. of_nat (of_char c)) s"

text \<open>
  \<open>WhiteSpace\<close> and \<open>LineTerminator\<close> of ECMAScript: what \<open>String.prototype.trim\<close> strips
  and what \<open>\s\<close> matches in a regular expression.
\<close>

definition isWhiteSpace :: "code_unit \<Rightarrow> bool" where
  "isWhiteSpace c =
     (c \<in> set [0x09, 0x0A, 0x0B, 0x0C, 0x0D, 0x20, 0xA0, 0x1680, 0x2028, 0x2029,
                0x202F, 0x205F, 0x3000, 0xFEFF]
      \<or> (0x2000 \<le> c \<and> c \<le> 0x200A))"

definition trim :: "jsstring \<Rightarrow> jsstring" where
  "trim s = rev (dropWhile isWhiteSpace (rev (dropWhile isWhiteSpace s)))"

definition startsWith :: "jsstring \<Rightarrow> jsstring \<Rightarrow> bool" where
  "startsWith s p = (take (length p) s = p)"

text \<open>\<open>s.substring(i, j)\<close> for \<open>0 \<le> i \<le> j\<close>.\<close>

definition substring :: "jsstring \<Rightarrow> nat \<Rightarrow> nat \<Rightarrow> jsstring" where
  "substring s i j = take (j - i) (drop i s)"

text \<open>\<open>s.split(sep)\<close> for a separator of one code unit: never empty, \<open>''.split(':')\<close> is \<open>['']\<close>.\<close>

fun split :: "code_unit \<Rightarrow> jsstring \<Rightarrow> jsstring list" where
  "split sep [] = [[]]"
| "split sep (c # cs) =
     (if c = sep then [] # split sep cs
      else (case split sep cs of p # ps \<Rightarrow> (c # p) # ps | [] \<Rightarrow> [[c]]))"

text \<open>\<open>s.includes(p)\<close>.\<close>

fun includes_str :: "jsstring \<Rightarrow> jsstring \<Rightarrow> bool" where
  "includes_str [] p = (p = [])"
| "includes_str (c # cs) p = (startsWith (c # cs) p \<or> includes_str cs p)"

text \<open>
  \<open>s.split(/[.!?]\s/)\<close>: the pieces between the non-overlapping matches, found left to
  right, of a sentence terminator followed by one white space unit.
\<close>

definition isTerminator :: "code_unit \<Rightarrow> bool" where
  "isTerminator c = (c = 0x2E \<or> c = 0x21 \<or> c = 0x3F)"

fun split_sentences :: "jsstring \<Rightarrow> jsstring list" where
  "split_sentences [] = [[]]"
| "split_sentences [c] = [[c]]"
| "split_sentences (c # d # cs) =
     (if isTerminator c \<and> isWhiteSpace d then [] # split_sentences cs
      else (case split_sentences (d # cs) of p # ps \<Rightarrow> (c # p) # ps | [] \<Rightarrow> [[c]]))"

section \<open>UTF-8\<close>

text \<open>
  \<open>Buffer.from(s, 'utf8')\<close>: the code points of the string (a surrogate pair is one code
  point, a lone surrogate is replaced by U+FFFD), each written in one to four bytes.
\<close>

definition isHighSurrogate :: "code_unit \<Rightarrow> bool" where
  "isHighSurrogate c = (0xD800 \<le> c \<and> c \<le> 0xDBFF)"

definition isLowSurrogate :: "code_unit \<Rightarrow> bool" where
  "isLowSurrogate c = (0xDC00 \<le> c \<and> c \<le> 0xDFFF)"

definition loneUnit :: "code_unit \<Rightarrow> nat" where
  "loneUnit c = (if isHighSurrogate c \<or> isLowSurrogate c then 0xFFFD else unat c)"

definition pairPoint :: "code_unit \<Rightarrow> code_unit \<Rightarrow> nat" where
  "pairPoint c d = 0x10000 + (unat c - 0xD800) * 0x400 + (unat d - 0xDC00)"

fun code_points :: "jsstring \<Rightarrow> nat list" where
  "code_points [] = []"
| "code_points [c] = [loneUnit c]"
| "code_points (c # d # r) =
     (if isHighSurrogate c \<and> isLowSurrogate d then pairPoint c d # code_points r
      else loneUnit c # code_points (d # r))"

definition utf8_bytes :: "nat \<Rightarrow> byte list" where
  "utf8_bytes n =
     (if n < 0x80 then [of_nat n]
      else if n < 0x800 then [of_nat (0xC0 + n div 64), of_nat (0x80 + n mod 64)]
      else if n < 0x10000 then
        [of_nat (0xE0 + n div 4096), of_nat (0x80 + n div 64 mod 64), of_nat (0x80 + n mod 64)]
      else
        [of_nat (0xF0 + n div 262144), of_nat (0x80 + n div 4096 mod 64),
         of_nat (0x80 + n div 64 mod 64), of_nat (0x80 + n mod 64)])"

definition utf8_encode :: "jsstring \<Rightarrow> byte list" where
  "utf8_encode s = concat (map utf8_bytes (code_points s))"

text \<open>
  \<open>buf.toString('utf8')\<close>: the decoder of the WHATWG encoding standard. \<open>utf8_step b bs\<close>
  decodes the sequence that starts with the byte \<open>b\<close> and returns its code point with the
  number of bytes of \<open>bs\<close> it consumed; an ill-formed sequence gives U+FFFD for its maximal
  well-formed prefix.
\<close>

definition inRange :: "nat \<Rightarrow> nat \<Rightarrow> byte \<Rightarrow> bool" where
  "inRange lo hi b = (lo \<le> unat b \<and> unat b \<le> hi)"

definition tail6 :: "byte \<Rightarrow> nat" where
  "tail6 b = unat b - 0x80"

definition utf8_step :: "byte \<Rightarrow> byte list \<Rightarrow> nat \<times> nat" where
  "utf8_step b bs =
     (let n = unat b in
      if n < 0x80 then (n, 0)
      else if 0xC2 \<le> n \<and> n \<le> 0xDF then
        (case bs of
           [] \<Rightarrow> (0xFFFD, 0)
         | b1 # r1 \<Rightarrow>
             if inRange 0x80 0xBF b1 then ((n - 0xC0) * 64 + tail6 b1, 1) else (0xFFFD, 0))
      else if 0xE0 \<le> n \<and> n \<le> 0xEF then
        (case bs of
           [] \<Rightarrow> (0xFFFD, 0)
         | b1 # r1 \<Rightarrow>
             if inRange (if n = 0xE0 then 0xA0 else 0x80) (if n = 0xED then 0x9F else 0xBF) b1
             then
               (case r1 of
                  [] \<Rightarrow> (0xFFFD, 1)
                | b2 # r2 \<Rightarrow>
                    if inRange 0x80 0xBF b2
                    then ((n - 0xE0) * 4096 + tail6 b1 * 64 + tail6 b2, 2)
                    else (0xFFFD, 1))
             else (0xFFFD, 0))
      else if 0xF0 \<le> n \<and> n \<le> 0xF4 then
        (case bs of
           [] \<Rightarrow> (0xFFFD, 0)
         | b1 # r1 \<Rightarrow>
             if inRange (if n = 0xF0 then 0x90 else 0x80) (if n = 0xF4 then 0x8F else 0xBF) b1
             then
               (case r1 of
                  [] \<Rightarrow> (0xFFFD, 1)
                | b2 # r2 \<Rightarrow>
                    if inRange 0x80 0xBF b2
                    then
                      (case r2 of
                         [] \<Rightarrow> (0xFFFD, 2)
                       | b3 # r3 \<Rightarrow>
                           if inRange 0x80 0xBF b3
                           then ((n - 0xF0) * 262144 + tail6 b1 * 4096 + tail6 b2 * 64 + tail6 b3, 3)
                           else (0xFFFD, 2))
                    else (0xFFFD, 1))
             else (0xFFFD, 0))
      else (0xFFFD, 0))"

fun utf8_code_points :: "byte list \<Rightarrow> nat list" where
  "utf8_code_points [] = []"
| "utf8_code_points (b # bs) =
     (case utf8_step b bs of (cp, k) \<Rightarrow> cp # utf8_code_points (drop k bs))"

definition utf16_units :: "nat \<Rightarrow> jsstring" where
  "utf16_units n =
     (if n < 0x10000 then [of_nat n]
      else [of_nat (0xD800 + (n - 0x10000) div 0x400), of_nat (0xDC00 + (n - 0x10000) mod 0x400)])"

definition utf8_decode :: "byte list \<Rightarrow> jsstring" where
  "utf8_decode bs = concat (map utf16_units (utf8_code_points bs))"

text \<open>\<open>String.prototype.isWellFormed\<close>: no lone surrogate. These are the strings UTF-8 can carry.\<close>

fun isWellFormed :: "jsstring \<Rightarrow> bool" where
  "isWellFormed [] = True"
| "isWellFormed [c] = (\<not> isHighSurrogate c \<and> \<not> isLowSurrogate c)"
| "isWellFormed (c # d # r) =
     (if isHighSurrogate c then isLowSurrogate d \<and> isWellFormed r
      else \<not> isLowSurrogate c \<and> isWellFormed (d # r))"

definition isScalar :: "nat \<Rightarrow> bool" where
  "isScalar n = (n < 0x110000 \<and> \<not> (0xD800 \<le> n \<and> n \<le> 0xDFFF))"

section \<open>Base64\<close>

text \<open>
  \<open>buf.toString('base64')\<close> is the padded encoding of RFC 4648. \<open>Buffer.from(s, 'base64')\<close>
  is Node's forgiving decoder: each code unit is narrowed to eight bits, a unit outside
  the alphabet (the URL-safe \<open>-\<close> and \<open>_\<close> are inside) is skipped, decoding stops at the
  first \<open>=\<close>, and a trailing group of two or three sextets gives one or two bytes. It
  never throws.
\<close>

definition base64_alphabet :: jsstring where
  "base64_alphabet = js ''ABCDEFGHIJKLMNOPQRSTUVWXYZabcdefghijklmnopqrstuvwxyz0123456789+/''"

definition base64_char :: "byte \<Rightarrow> code_unit" where
  "base64_char s = base64_alphabet ! unat s"

definition unbase64 :: "byte \<Rightarrow> byte option" where
  "unbase64 c =
     (if 0x41 \<le> c \<and> c \<le> 0x5A then Some (c - 0x41)
      else if 0x61 \<le> c \<and> c \<le> 0x7A then Some (c - 0x61 + 26)
      else if 0x30 \<le> c \<and> c \<le> 0x39 then Some (c - 0x30 + 52)
      else if c = 0x2B \<or> c = 0x2D then Some 62
      else if c = 0x2F \<or> c = 0x5F then Some 63
      else None)"

fun base64_encode :: "byte list \<Rightarrow> jsstring" where
  "base64_encode (a # b # c # r) =
     [base64_char (drop_bit 2 a),
      base64_char (push_bit 4 (a AND 3) OR drop_bit 4 b),
      base64_char (push_bit 2 (b AND 15) OR drop_bit 6 c),
      base64_char (c AND 63)] @ base64_encode r"
| "base64_encode [a, b] =
     [base64_char (drop_bit 2 a),
      base64_char (push_bit 4 (a AND 3) OR drop_bit 4 b),
      base64_char (push_bit 2 (b AND 15)), 0x3D]"
| "base64_encode [a] =
     [base64_char (drop_bit 2 a), base64_char (push_bit 4 (a AND 3)), 0x3D, 0x3D]"
| "base64_encode [] = []"

fun base64_sextets :: "jsstring \<Rightarrow> byte list" where
  "base64_sextets [] = []"
| "base64_sextets (u # us) =
     (case unbase64 (ucast u) of
        Some s \<Rightarrow> s # base64_sextets us
      | None \<Rightarrow> if (ucast u :: byte) = 0x3D then [] else base64_sextets us)"

fun base64_groups :: "byte list \<Rightarrow> byte list" where
  "base64_groups (h0 # h1 # h2 # h3 # r) =
     [push_bit 2 (h0 AND 63) OR drop_bit 4 (h1 AND 48),
      push_bit 4 (h1 AND 15) OR drop_bit 2 (h2 AND 60),
      push_bit 6 (h2 AND 3) OR (h3 AND 63)] @ base64_groups r"
| "base64_groups [h0, h1, h2] =
     [push_bit 2 (h0 AND 63) OR drop_bit 4 (h1 AND 48),
      push_bit 4 (h1 AND 15) OR drop_bit 2 (h2 AND 60)]"
| "base64_groups [h0, h1] = [push_bit 2 (h0 AND 63) OR drop_bit 4 (h1 AND 48)]"
| "base64_groups [h0] = []"
| "base64_groups [] = []"

definition base64_decode :: "jsstring \<Rightarrow> byte list" where
  "base64_decode s = base64_groups (base64_sextets s)"

section \<open>The primitives of \<open>node:crypto\<close>\<close>

definition be_bytes :: "nat \<Rightarrow> 'a::len word \<Rightarrow> byte list" where
  "be_bytes n w = map (\<lambda>i. ucast (drop_bit (8 * (n - 1 - i)) w)) [0..<n]"

definition be_word :: "byte list \<Rightarrow> 'a::len word" where
  "be_word bs = foldl (\<lambda>acc b. push_bit 8 acc OR ucast b) 0 bs"

definition xor_bytes :: "byte list \<Rightarrow> byte list \<Rightarrow> byte list" where
  "xor_bytes xs ys = map2 (XOR) xs ys"

definition chunks :: "nat \<Rightarrow> 'a list \<Rightarrow> 'a list list" where
  "chunks n xs = map (\<lambda>i. take n (drop (n * i) xs)) [0..<length xs div n]"

subsection \<open>SHA-256 (FIPS 180-4)\<close>

text \<open>
  The round constants are the first thirty-two bits of the fractional parts of the cube
  roots of the first sixty-four primes: the floor of the cube root of \<open>p * 2^96\<close>, modulo
  \<open>2^32\<close>.
\<close>

definition is_prime :: "nat \<Rightarrow> bool" where
  "is_prime n = (1 < n \<and> list_all (\<lambda>d. n mod d \<noteq> 0) [2..<n])"

definition floor_root :: "nat \<Rightarrow> int \<Rightarrow> int" where
  "floor_root k n = fold (\<lambda>i r. if (r + 2 ^ i) ^ k \<le> n then r + 2 ^ i else r) (rev [0..<40]) 0"

definition sha256_K :: "32 word list" where
  "sha256_K = map (\<lambda>p. of_int (floor_root 3 (int p * 2 ^ 96))) (filter is_prime [2..<312])"

type_synonym sha256_state =
  "32 word \<times> 32 word \<times> 32 word \<times> 32 word \<times> 32 word \<times> 32 word \<times> 32 word \<times> 32 word"

definition sha256_H0 :: sha256_state where
  "sha256_H0 = (0x6a09e667, 0xbb67ae85, 0x3c6ef372, 0xa54ff53a,
                0x510e527f, 0x9b05688c, 0x1f83d9ab, 0x5be0cd19)"

definition Ch :: "32 word \<Rightarrow> 32 word \<Rightarrow> 32 word \<Rightarrow> 32 word" where
  "Ch x y z = (x AND y) XOR (NOT x AND z)"

definition Maj :: "32 word \<Rightarrow> 32 word \<Rightarrow> 32 word \<Rightarrow> 32 word" where
  "Maj x y z = (x AND y) XOR (x AND z) XOR (y AND z)"

definition Sigma0 :: "32 word \<Rightarrow> 32 word" where
  "Sigma0 x = word_rotr 2 x XOR word_rotr 13 x XOR word_rotr 22 x"

definition Sigma1 :: "32 word \<Rightarrow> 32 word" where
  "Sigma1 x = word_rotr 6 x XOR word_rotr 11 x XOR word_rotr 25 x"

definition sigma0 :: "32 word \<Rightarrow> 32 word" where
  "sigma0 x = word_rotr 7 x XOR word_rotr 18 x XOR drop_bit 3 x"

definition sigma1 :: "32 word \<Rightarrow> 32 word" where
  "sigma1 x = word_rotr 17 x XOR word_rotr 19 x XOR drop_bit 10 x"

definition sha256_pad :: "byte list \<Rightarrow> byte list" where
  "sha256_pad m =
     m @ [0x80] @ replicate ((119 - length m mod 64) mod 64) 0
       @ be_bytes 8 (of_nat (8 * length m) :: 64 word)"

definition sha256_schedule :: "byte list \<Rightarrow> 32 word list" where
  "sha256_schedule blk =
     fold (\<lambda>t w. w @ [sigma1 (w ! (t - 2)) + w ! (t - 7) + sigma0 (w ! (t - 15)) + w ! (t - 16)])
       [16..<64] (map be_word (chunks 4 blk))"

definition sha256_round :: "32 word \<times> 32 word \<Rightarrow> sha256_state \<Rightarrow> sha256_state" where
  "sha256_round kw s =
     (case s of (a, b, c, d, e, f, g, h) \<Rightarrow>
        let t1 = h + Sigma1 e + Ch e f g + fst kw + snd kw;
            t2 = Sigma0 a + Maj a b c
        in (t1 + t2, a, b, c, d + t1, e, f, g))"

definition sha256_compress :: "byte list \<Rightarrow> sha256_state \<Rightarrow> sha256_state" where
  "sha256_compress blk s =
     (case s of (a, b, c, d, e, f, g, h) \<Rightarrow>
      case fold sha256_round (zip sha256_K (sha256_schedule blk)) s of
        (a', b', c', d', e', f', g', h') \<Rightarrow>
          (a + a', b + b', c + c', d + d', e + e', f + f', g + g', h + h'))"

definition sha256 :: "byte list \<Rightarrow> byte list" where
  "sha256 m =
     (case fold sha256_compress (chunks 64 (sha256_pad m)) sha256_H0 of
        (a, b, c, d, e, f, g, h) \<Rightarrow> concat (map (be_bytes 4) [a, b, c, d, e, f, g, h]))"

subsection \<open>HMAC (RFC 2104) and PBKDF2 (RFC 8018)\<close>

text \<open>The key of HMAC is hashed when longer than a block and then padded with zero bytes to the block size.\<close>

definition hmac_key :: "byte list \<Rightarrow> byte list" where
  "hmac_key k =
     (let k' = (if 64 < length k then sha256 k else k) in k' @ replicate (64 - length k') 0)"

definition hmac_sha256 :: "byte list \<Rightarrow> byte list \<Rightarrow> byte list" where
  "hmac_sha256 k m =
     sha256 (map (\<lambda>b. b XOR 0x5C) (hmac_key k) @ sha256 (map (\<lambda>b. b XOR 0x36) (hmac_key k) @ m))"

fun pbkdf2_iter :: "byte list \<Rightarrow> nat \<Rightarrow> byte list \<Rightarrow> byte list \<Rightarrow> byte list" where
  "pbkdf2_iter p 0 u acc = acc"
| "pbkdf2_iter p (Suc n) u acc =
     (let u' = hmac_sha256 p u in pbkdf2_iter p n u' (xor_bytes acc u'))"

definition pbkdf2_F :: "byte list \<Rightarrow> byte list \<Rightarrow> nat \<Rightarrow> nat \<Rightarrow> byte list" where
  "pbkdf2_F p s c i =
     (let u1 = hmac_sha256 p (s @ be_bytes 4 (of_nat i :: 32 word)) in pbkdf2_iter p (c - 1) u1 u1)"

definition pbkdf2_hmac_sha256 :: "byte list \<Rightarrow> byte list \<Rightarrow> nat \<Rightarrow> nat \<Rightarrow> byte list" where
  "pbkdf2_hmac_sha256 p s c dkLen =
     take dkLen (concat (map (pbkdf2_F p s c) [1..<Suc ((dkLen + 31) div 32)]))"

subsection \<open>AES-256 (FIPS 197)\<close>

text \<open>
  The state is the list of its sixteen bytes, column by column. The S-box is the inverse in
  GF(2^8) followed by the affine map; the key schedule is a list of sixty words of four bytes.
\<close>

definition xtime :: "byte \<Rightarrow> byte" where
  "xtime b = (if bit b 7 then push_bit 1 b XOR 0x1B else push_bit 1 b)"

definition gf_mul :: "byte \<Rightarrow> byte \<Rightarrow> byte" where
  "gf_mul a b =
     fst (fold (\<lambda>i (acc, x). (if bit b i then acc XOR x else acc, xtime x)) [0..<8] (0, a))"

definition gf_inv :: "byte \<Rightarrow> byte" where
  "gf_inv x =
     (let x2 = gf_mul x x; x4 = gf_mul x2 x2; x8 = gf_mul x4 x4; x16 = gf_mul x8 x8;
          x32 = gf_mul x16 x16; x64 = gf_mul x32 x32; x128 = gf_mul x64 x64
      in gf_mul x2 (gf_mul x4 (gf_mul x8 (gf_mul x16 (gf_mul x32 (gf_mul x64 x128))))))"

definition aes_sbox :: "byte \<Rightarrow> byte" where
  "aes_sbox x =
     (let b = gf_inv x
      in b XOR word_rotl 1 b XOR word_rotl 2 b XOR word_rotl 3 b XOR word_rotl 4 b XOR 0x63)"

definition SubWord :: "byte list \<Rightarrow> byte list" where
  "SubWord w = map aes_sbox w"

definition RotWord :: "byte list \<Rightarrow> byte list" where
  "RotWord w = rotate1 w"

definition Rcon :: "nat \<Rightarrow> byte list" where
  "Rcon j = [(xtime ^^ (j - 1)) 1, 0, 0, 0]"

definition KeyExpansion :: "byte list \<Rightarrow> byte list list" where
  "KeyExpansion key =
     fold (\<lambda>i w.
            let temp = w ! (i - 1);
                temp' = (if i mod 8 = 0 then xor_bytes (SubWord (RotWord temp)) (Rcon (i div 8))
                         else if i mod 8 = 4 then SubWord temp
                         else temp)
            in w @ [xor_bytes (w ! (i - 8)) temp'])
       [8..<60] (chunks 4 key)"

definition round_key :: "byte list list \<Rightarrow> nat \<Rightarrow> byte list" where
  "round_key w r = map (\<lambda>i. w ! (4 * r + i div 4) ! (i mod 4)) [0..<16]"

definition AddRoundKey :: "byte list \<Rightarrow> byte list \<Rightarrow> byte list" where
  "AddRoundKey rk st = xor_bytes st rk"

definition SubBytes :: "byte list \<Rightarrow> byte list" where
  "SubBytes st = map aes_sbox st"

definition ShiftRows :: "byte list \<Rightarrow> byte list" where
  "ShiftRows st = map (\<lambda>i. st ! (4 * ((i div 4 + i mod 4) mod 4) + i mod 4)) [0..<16]"

definition mix_column :: "byte \<Rightarrow> byte \<Rightarrow> byte \<Rightarrow> byte \<Rightarrow> byte list" where
  "mix_column s0 s1 s2 s3 =
     [gf_mul 2 s0 XOR gf_mul 3 s1 XOR s2 XOR s3,
      s0 XOR gf_mul 2 s1 XOR gf_mul 3 s2 XOR s3,
      s0 XOR s1 XOR gf_mul 2 s2 XOR gf_mul 3 s3,
      gf_mul 3 s0 XOR s1 XOR s2 XOR gf_mul 2 s3]"

definition MixColumns :: "byte list \<Rightarrow> byte list" where
  "MixColumns st =
     concat (map (\<lambda>c. mix_column (st ! (4 * c)) (st ! (4 * c + 1)) (st ! (4 * c + 2)) (st ! (4 * c + 3)))
       [0..<4])"

definition aes256_encrypt_block :: "byte list \<Rightarrow> byte list \<Rightarrow> byte list" where
  "aes256_encrypt_block key blk =
     (let w = KeyExpansion key;
          st = fold (\<lambda>r st. AddRoundKey (round_key w r) (MixColumns (ShiftRows (SubBytes st))))
                 [1..<14] (AddRoundKey (round_key w 0) blk)
      in AddRoundKey (round_key w 14) (ShiftRows (SubBytes st)))"

subsection \<open>GCM (NIST SP 800-38D)\<close>

text \<open>
  A block is a 128-bit word, read big-endian. \<open>gcm_crypt\<close> is the counter mode that both
  encrypts and decrypts, \<open>gcm_tag\<close> the full 16-byte tag over a ciphertext with no
  associated data.
\<close>

definition gf128_mul :: "128 word \<Rightarrow> 128 word \<Rightarrow> 128 word" where
  "gf128_mul x y =
     fst (fold (\<lambda>i (z, v).
                 (if bit x (127 - i) then z XOR v else z,
                  if bit v 0 then drop_bit 1 v XOR push_bit 120 0xE1 else drop_bit 1 v))
            [0..<128] (0, y))"

definition ghash :: "128 word \<Rightarrow> byte list \<Rightarrow> 128 word" where
  "ghash h bs = fold (\<lambda>blk y. gf128_mul (y XOR be_word blk) h) (chunks 16 bs) 0"

definition pad16 :: "byte list \<Rightarrow> byte list" where
  "pad16 bs = bs @ replicate ((16 - length bs mod 16) mod 16) 0"

definition bit_length64 :: "byte list \<Rightarrow> byte list" where
  "bit_length64 bs = be_bytes 8 (of_nat (8 * length bs) :: 64 word)"

definition gcm_j0 :: "128 word \<Rightarrow> byte list \<Rightarrow> 128 word" where
  "gcm_j0 h iv =
     (if length iv = 12 then be_word (iv @ [0, 0, 0, 1])
      else ghash h (pad16 iv @ replicate 8 0 @ bit_length64 iv))"

definition inc32 :: "128 word \<Rightarrow> 128 word" where
  "inc32 x = (x AND NOT (mask 32)) OR ((x + 1) AND mask 32)"

function gctr :: "byte list \<Rightarrow> 128 word \<Rightarrow> byte list \<Rightarrow> byte list" where
  "gctr key cb xs =
     (if xs = [] then []
      else xor_bytes (take 16 xs) (aes256_encrypt_block key (be_bytes 16 cb))
             @ gctr key (inc32 cb) (drop 16 xs))"
  by pat_completeness auto
termination
  by (relation "measure (\<lambda>(key, cb, xs). length xs)") auto

declare gctr.simps [simp del]

definition gcm_hash_key :: "byte list \<Rightarrow> 128 word" where
  "gcm_hash_key key = be_word (aes256_encrypt_block key (replicate 16 0))"

definition gcm_tag :: "byte list \<Rightarrow> byte list \<Rightarrow> byte list \<Rightarrow> byte list" where
  "gcm_tag key iv ct =
     (let h = gcm_hash_key key;
          s = ghash h (pad16 ct @ bit_length64 [] @ bit_length64 ct)
      in gctr key (gcm_j0 h iv) (be_bytes 16 s))"

definition gcm_crypt :: "byte list \<Rightarrow> byte list \<Rightarrow> byte list \<Rightarrow> byte list" where
  "gcm_crypt key iv xs = gctr key (inc32 (gcm_j0 (gcm_hash_key key) iv)) xs"

section \<open>Thrown values\<close>

text \<open>
  What the code throws and catches, each an instance of \<open>Error\<close>: a plain \<open>Error\<close> with its
  message (the errors of \<open>node:crypto\<close> are of this kind), an error of \<open>node:fs\<close> with its
  string \<open>code\<close> and its message, the \<open>SyntaxError\<close> of \<open>JSON.parse\<close>, the \<open>TypeError\<close> of
  a method call on a value that has no such method, and an \<open>ApplicationError\<close> of
  \<open>ChatHistoryError\<close> with its numeric code, its message and its datum (a thread id, a path
  or a project root).
\<close>

datatype exn =
    Error jsstring
  | ErrnoException jsstring jsstring
  | SyntaxError jsstring
  | TypeError jsstring
  | ApplicationError nat jsstring jsstring

fun message :: "exn \<Rightarrow> jsstring" where
  "message (Error m) = m"
| "message (ErrnoException c m) = m"
| "message (SyntaxError m) = m"
| "message (TypeError m) = m"
| "message (ApplicationError c m d) = m"

text \<open>\<open>(error as NodeJS.ErrnoException).code === 'ENOENT'\<close>\<close>

fun isENOENT :: "exn \<Rightarrow> bool" where
  "isENOENT (ErrnoException c m) = (c = js ''ENOENT'')"
| "isENOENT e = False"

text \<open>\<open>String(n)\<close> for a natural number.\<close>

fun decimal :: "nat \<Rightarrow> jsstring" where
  "decimal n = (if n < 10 then [of_nat (48 + n)] else decimal (n div 10) @ [of_nat (48 + n mod 10)])"

declare decimal.simps [simp del]

definition NotFound :: "jsstring \<Rightarrow> jsstring \<Rightarrow> exn" where
  "NotFound msg threadId = ApplicationError 7001 msg threadId"

definition InvalidProjectRoot :: "jsstring \<Rightarrow> jsstring \<Rightarrow> exn" where
  "InvalidProjectRoot msg projectRoot = ApplicationError 7002 msg projectRoot"

definition WriteFailed :: "jsstring \<Rightarrow> jsstring \<Rightarrow> exn" where
  "WriteFailed msg path = ApplicationError 7003 msg path"

definition ReadFailed :: "jsstring \<Rightarrow> jsstring \<Rightarrow> exn" where
  "ReadFailed msg path = ApplicationError 7004 msg path"

text \<open>\<open>ChatHistoryError.ReadFailed.is(error)\<close>\<close>

fun isReadFailed :: "exn \<Rightarrow> bool" where
  "isReadFailed (ApplicationError c m d) = (c = 7004)"
| "isReadFailed e = False"

section \<open>\<open>chat-encryption.ts\<close>\<close>

definition KEY_LENGTH :: nat where
  "KEY_LENGTH = 32"

definition IV_LENGTH :: nat where
  "IV_LENGTH = 16"

definition SALT_LENGTH :: nat where
  "SALT_LENGTH = 32"

definition ITERATIONS :: nat where
  "ITERATIONS = 100000"

text \<open>\<open>pbkdf2Sync(password, salt, iterations, keylen, 'sha256')\<close> on strings, which it reads as UTF-8.\<close>

definition pbkdf2Sync :: "jsstring \<Rightarrow> jsstring \<Rightarrow> nat \<Rightarrow> nat \<Rightarrow> byte list" where
  "pbkdf2Sync password salt iterations keylen =
     pbkdf2_hmac_sha256 (utf8_encode password) (utf8_encode salt) iterations keylen"

text \<open>\<open>buf.toString('hex')\<close>\<close>

definition toString_hex :: "byte list \<Rightarrow> jsstring" where
  "toString_hex bs =
     concat (map (\<lambda>b. [js ''0123456789abcdef'' ! unat (drop_bit 4 b),
                         js ''0123456789abcdef'' ! unat (b AND 15)]) bs)"

definition deriveKey :: "jsstring \<Rightarrow> byte list" where
  "deriveKey projectRoot =
     (let salt = pbkdf2Sync projectRoot (js ''blinky-chat-encryption-salt'') 1000 SALT_LENGTH
      in pbkdf2Sync projectRoot (toString_hex salt) ITERATIONS KEY_LENGTH)"

text \<open>
  \<open>createCipheriv('aes-256-gcm', key, iv)\<close> and \<open>createDecipheriv\<close> check their arguments:
  the key has 32 bytes and the initialization vector is not empty.
\<close>

definition createCipheriv :: "byte list \<Rightarrow> byte list \<Rightarrow> exn + unit" where
  "createCipheriv key iv =
     (if length key \<noteq> 32 then Inl (Error (js ''Invalid key length''))
      else if iv = [] then Inl (Error (js ''Invalid initialization vector''))
      else Inr ())"

definition createDecipheriv :: "byte list \<Rightarrow> byte list \<Rightarrow> exn + unit" where
  "createDecipheriv key iv = createCipheriv key iv"

text \<open>
  \<open>decipher.setAuthTag(tag)\<close> accepts the tag lengths of GCM, 4, 8 and 12 to 16 bytes, and
  names any other length in its message.
\<close>

definition setAuthTag :: "byte list \<Rightarrow> exn + unit" where
  "setAuthTag tag =
     (if length tag \<in> set [4, 8, 12, 13, 14, 15, 16] then Inr ()
      else Inl (Error (js ''Invalid authentication tag length: '' @ decimal (length tag))))"

text \<open>
  \<open>Buffer.from(s, 'base64')\<close> as the code calls it, inside \<open>try\<close>: the result is a buffer for
  every string.
\<close>

definition Buffer_from_base64 :: "jsstring \<Rightarrow> exn + byte list" where
  "Buffer_from_base64 s = Inr (base64_decode s)"

text \<open>
  With the output encoding \<open>'base64'\<close>, \<open>cipher.update\<close> passes the ciphertext through a
  string decoder that writes the complete groups of three bytes and keeps the rest, and
  \<open>cipher.final\<close> writes what was kept.
\<close>

definition base64_write :: "byte list \<Rightarrow> jsstring \<times> byte list" where
  "base64_write buf =
     (let n = length buf mod 3
      in (base64_encode (take (length buf - n) buf), drop (length buf - n) buf))"

definition base64_end :: "byte list \<Rightarrow> jsstring" where
  "base64_end kept = base64_encode kept"

text \<open>
  \<open>encryptChatData(data, projectRoot)\<close>; \<open>iv\<close> is what \<open>randomBytes(IV_LENGTH)\<close> returned.
  In GCM \<open>cipher.update\<close> returns the whole ciphertext and \<open>cipher.final\<close> no further byte.
\<close>

definition encryptChatData :: "jsstring \<Rightarrow> jsstring \<Rightarrow> byte list \<Rightarrow> exn + jsstring" where
  "encryptChatData data projectRoot iv =
     (let key = deriveKey projectRoot in
      case createCipheriv key iv of
        Inl e \<Rightarrow> Inl e
      | Inr cipher \<Rightarrow>
          let ct = gcm_crypt key iv (utf8_encode data);
              updated = base64_write ct;
              encrypted = fst updated @ base64_end (snd updated);
              tag = gcm_tag key iv ct
          in Inr (base64_encode iv @ js '':'' @ base64_encode tag @ js '':'' @ encrypted))"

text \<open>
  \<open>decryptChatData(encryptedData, projectRoot)\<close>. \<open>decipher.final\<close> compares the tag that was
  set with the leading bytes of the tag it computes and throws when they differ; the text
  \<open>decipher.update\<close> returned is then lost with the exception.
\<close>

definition decryptChatData :: "jsstring \<Rightarrow> jsstring \<Rightarrow> exn + jsstring" where
  "decryptChatData encryptedData projectRoot =
     (let parts = split 0x3A encryptedData in
      if length parts \<noteq> 3 then Inl (Error (js ''Invalid encrypted data format''))
      else
        let iv = base64_decode (parts ! 0);
            tag = base64_decode (parts ! 1);
            encrypted = parts ! 2;
            key = deriveKey projectRoot
        in case createDecipheriv key iv of
             Inl e \<Rightarrow> Inl e
           | Inr decipher \<Rightarrow>
               (case setAuthTag tag of
                  Inl e \<Rightarrow> Inl e
                | Inr u \<Rightarrow>
                    let ct = base64_decode encrypted;
                        decrypted = utf8_decode (gcm_crypt key iv ct)
                    in if take (length tag) (gcm_tag key iv ct) = tag then Inr decrypted
                       else Inl (Error (js ''Unsupported state or unable to authenticate data''))))"

definition isEncrypted :: "jsstring \<Rightarrow> bool" where
  "isEncrypted data =
     (let parts = split 0x3A data
      in length parts = 3 \<and>
         list_all (\<lambda>part. case Buffer_from_base64 part of Inr buf \<Rightarrow> True | Inl e \<Rightarrow> False) parts)"

section \<open>\<open>chat-encoding.ts\<close>\<close>

definition encodeChatData :: "jsstring \<Rightarrow> jsstring" where
  "encodeChatData data = base64_encode (utf8_encode data)"

definition isEncoded :: "jsstring \<Rightarrow> bool" where
  "isEncoded data =
     (let parts = split 0x3A data in
      if length parts = 3 then True
      else if startsWith (trim data) (js ''{'') \<or> startsWith (trim data) (js ''['') then False
      else
        (case Buffer_from_base64 data of
           Inr buf \<Rightarrow>
             let decoded = utf8_decode buf
             in startsWith (trim decoded) (js ''{'') \<or> startsWith (trim decoded) (js ''['')
         | Inl e \<Rightarrow> False))"

definition decodeChatData :: "jsstring \<Rightarrow> exn + jsstring" where
  "decodeChatData encodedData =
     (case Buffer_from_base64 encodedData of
        Inr buf \<Rightarrow> Inr (utf8_decode buf)
      | Inl e \<Rightarrow>
          if isEncoded encodedData
          then Inl (Error (js ''Legacy encrypted format detected. Please recreate your chats.''))
          else Inr encodedData)"

section \<open>\<open>node:path\<close>\<close>

text \<open>
  \<open>path.join\<close> and \<open>path.normalize\<close> of the POSIX flavour of \<open>node:path\<close>: the arguments
  that are not empty are joined by the separator and the result is normalized. Empty
  segments and \<open>.\<close> go away, \<open>..\<close> takes the segment before it away; above the root of an
  absolute path \<open>..\<close> goes away, at the start of a relative path it stays.
\<close>

fun join_with :: "jsstring \<Rightarrow> jsstring list \<Rightarrow> jsstring" where
  "join_with sep [] = []"
| "join_with sep [p] = p"
| "join_with sep (p # q # r) = p @ sep @ join_with sep (q # r)"

fun normalizeString :: "bool \<Rightarrow> jsstring list \<Rightarrow> jsstring list \<Rightarrow> jsstring list" where
  "normalizeString allowAboveRoot res [] = rev res"
| "normalizeString allowAboveRoot res (s # ss) =
     (if s = [] \<or> s = js ''.'' then normalizeString allowAboveRoot res ss
      else if s = js ''..'' then
        (case res of
           [] \<Rightarrow> normalizeString allowAboveRoot (if allowAboveRoot then [s] else []) ss
         | r # rs \<Rightarrow>
             if r = js ''..''
             then normalizeString allowAboveRoot (if allowAboveRoot then s # res else res) ss
             else normalizeString allowAboveRoot rs ss)
      else normalizeString allowAboveRoot (s # res) ss)"

definition normalize :: "jsstring \<Rightarrow> jsstring" where
  "normalize path =
     (if path = [] then js ''.''
      else
        let isAbsolute = (hd path = 0x2F);
            trailingSeparator = (last path = 0x2F);
            p = join_with (js ''/'') (normalizeString (\<not> isAbsolute) [] (split 0x2F path))
        in if p = [] then
             (if isAbsolute then js ''/'' else if trailingSeparator then js ''./'' else js ''.'')
           else (if isAbsolute then js ''/'' else []) @ p
                @ (if trailingSeparator then js ''/'' else []))"

definition path_join :: "jsstring list \<Rightarrow> jsstring" where
  "path_join args =
     (let given = filter (\<lambda>a. a \<noteq> []) args
      in if given = [] then js ''.'' else normalize (join_with (js ''/'') given))"

section \<open>The world of the store\<close>

text \<open>
  The store runs against a file system, a random source, a clock and a logger. A world
  holds the tree of directories and files, the faults the file system will answer with
  beyond what the tree explains (by the time of the call, counted in events, and the call:
  permissions, a full disk, an I/O error, each with its \<open>code\<close> and its message), the
  message of \<open>node:fs\<close> for a path with a null byte, the streams \<open>randomBytes\<close>, \<open>randomUUID\<close>
  and \<open>new Date().toISOString()\<close> read from, and the trace of the file system calls and
  log lines so far. Every call is traced with the method of the store that made it.
\<close>

datatype node = File "byte list" | Dir "jsstring \<Rightarrow> node option"

datatype fs_call = ReadFile jsstring | WriteFile jsstring | Unlink jsstring | Mkdir jsstring

datatype site =
    InEnsureChatHistoryDir
  | InReadThreadsIndex
  | InWriteThreadsIndex
  | InReadThreadFile
  | InWriteThreadFile
  | InDeleteThread

datatype level = LogError | LogWarn

datatype event = Fs site fs_call | Log level jsstring

record world =
  tree :: node
  faults :: "nat \<Rightarrow> fs_call \<Rightarrow> (jsstring \<times> jsstring) option"
  invalid_arg_message :: "jsstring \<Rightarrow> jsstring"
  entropy :: "nat \<Rightarrow> byte"
  uuids :: "nat \<Rightarrow> jsstring"
  clock :: "nat \<Rightarrow> jsstring"
  n_random :: nat
  n_uuid :: nat
  n_clock :: nat
  trace :: "event list"

type_synonym 'a io = "world \<Rightarrow> (exn + 'a) \<times> world"

definition returnIO :: "'a \<Rightarrow> 'a io" where
  "returnIO x w = (Inr x, w)"

definition throwIO :: "exn \<Rightarrow> 'a io" where
  "throwIO e w = (Inl e, w)"

definition bindIO :: "'a io \<Rightarrow> ('a \<Rightarrow> 'b io) \<Rightarrow> 'b io" where
  "bindIO m f w = (case m w of (Inl e, w') \<Rightarrow> (Inl e, w') | (Inr x, w') \<Rightarrow> f x w')"

definition tryCatch :: "'a io \<Rightarrow> (exn \<Rightarrow> 'a io) \<Rightarrow> 'a io" where
  "tryCatch m h w = (case m w of (Inl e, w') \<Rightarrow> h e w' | (Inr x, w') \<Rightarrow> (Inr x, w'))"

definition liftIO :: "exn + 'a \<Rightarrow> 'a io" where
  "liftIO r w = (r, w)"

subsection \<open>The tree\<close>

text \<open>
  The segments of a path the file system walks. The paths of the store are joins onto a
  resolved project root, so they are absolute and hold no \<open>.\<close> or \<open>..\<close>.
\<close>

definition components :: "jsstring \<Rightarrow> jsstring list" where
  "components path = filter (\<lambda>c. c \<noteq> []) (split 0x2F path)"

text \<open>What is at a path; \<open>Inl\<close> is the error code of the walk.\<close>

fun lookup :: "node \<Rightarrow> jsstring list \<Rightarrow> jsstring + node" where
  "lookup n [] = Inr n"
| "lookup n (c # cs) =
     (case n of
        File bs \<Rightarrow> Inl (js ''ENOTDIR'')
      | Dir es \<Rightarrow> (case es c of None \<Rightarrow> Inl (js ''ENOENT'') | Some m \<Rightarrow> lookup m cs))"

text \<open>The tree with a file created or replaced: the directory it is in has to be there.\<close>

fun store_file :: "node \<Rightarrow> jsstring list \<Rightarrow> byte list \<Rightarrow> jsstring + node" where
  "store_file n [] bs = Inl (js ''EISDIR'')"
| "store_file n (c # cs) bs =
     (case n of
        File old \<Rightarrow> Inl (js ''ENOTDIR'')
      | Dir es \<Rightarrow>
          if cs = [] then
            (case es c of
               Some (Dir sub) \<Rightarrow> Inl (js ''EISDIR'')
             | Some (File old) \<Rightarrow> Inr (Dir (es(c \<mapsto> File bs)))
             | None \<Rightarrow> Inr (Dir (es(c \<mapsto> File bs))))
          else
            (case es c of
               None \<Rightarrow> Inl (js ''ENOENT'')
             | Some m \<Rightarrow>
                 (case store_file m cs bs of
                    Inl e \<Rightarrow> Inl e
                  | Inr m' \<Rightarrow> Inr (Dir (es(c \<mapsto> m'))))))"

text \<open>The tree with a file removed; a directory is not removed, as on Linux.\<close>

fun remove_file :: "node \<Rightarrow> jsstring list \<Rightarrow> jsstring + node" where
  "remove_file n [] = Inl (js ''EISDIR'')"
| "remove_file n (c # cs) =
     (case n of
        File old \<Rightarrow> Inl (js ''ENOTDIR'')
      | Dir es \<Rightarrow>
          (case es c of
             None \<Rightarrow> Inl (js ''ENOENT'')
           | Some m \<Rightarrow>
               if cs = [] then
                 (case m of
                    Dir sub \<Rightarrow> Inl (js ''EISDIR'')
                  | File old \<Rightarrow> Inr (Dir (es(c := None))))
               else
                 (case remove_file m cs of
                    Inl e \<Rightarrow> Inl e
                  | Inr m' \<Rightarrow> Inr (Dir (es(c \<mapsto> m'))))))"

text \<open>The tree with a directory and the directories above it created where they are missing.\<close>

fun make_dirs :: "node \<Rightarrow> jsstring list \<Rightarrow> jsstring + node" where
  "make_dirs n [] = (case n of File old \<Rightarrow> Inl (js ''EEXIST'') | Dir es \<Rightarrow> Inr n)"
| "make_dirs n (c # cs) =
     (case n of
        File old \<Rightarrow> Inl (js ''ENOTDIR'')
      | Dir es \<Rightarrow>
          (case make_dirs (case es c of None \<Rightarrow> Dir Map.empty | Some m \<Rightarrow> m) cs of
             Inl e \<Rightarrow> Inl e
           | Inr m' \<Rightarrow> Inr (Dir (es(c \<mapsto> m')))))"

subsection \<open>\<open>node:fs\<close>\<close>

text \<open>The message of an error of the file system: code, description, system call, path.\<close>

definition describe :: "jsstring \<Rightarrow> jsstring" where
  "describe code =
     (if code = js ''ENOENT'' then js ''no such file or directory''
      else if code = js ''ENOTDIR'' then js ''not a directory''
      else if code = js ''EISDIR'' then js ''illegal operation on a directory''
      else js ''file already exists'')"

definition fs_error :: "jsstring \<Rightarrow> jsstring \<Rightarrow> jsstring \<Rightarrow> exn" where
  "fs_error code syscall path =
     ErrnoException code
       (code @ js '': '' @ describe code @ js '', '' @ syscall @ js '' '' @ [0x27] @ path @ [0x27])"

definition traced :: "site \<Rightarrow> fs_call \<Rightarrow> world \<Rightarrow> world" where
  "traced at call w = w\<lparr>trace := trace w @ [Fs at call]\<rparr>"

text \<open>
  What a call answers before it looks at the tree: the fault of the moment, if there is
  one, and the rejection of a path with a null byte.
\<close>

definition refused :: "fs_call \<Rightarrow> jsstring \<Rightarrow> world \<Rightarrow> exn option" where
  "refused call path w =
     (case faults w (length (trace w)) call of
        Some (code, msg) \<Rightarrow> Some (ErrnoException code msg)
      | None \<Rightarrow>
          if 0 \<in> set path
          then Some (ErrnoException (js ''ERR_INVALID_ARG_VALUE'') (invalid_arg_message w path))
          else None)"

text \<open>\<open>fs.readFile(path, 'utf-8')\<close>\<close>

definition readFile :: "site \<Rightarrow> jsstring \<Rightarrow> jsstring io" where
  "readFile at path w =
     (case refused (ReadFile path) path w of
        Some e \<Rightarrow> (Inl e, traced at (ReadFile path) w)
      | None \<Rightarrow>
          (case lookup (tree w) (components path) of
             Inl code \<Rightarrow> (Inl (fs_error code (js ''open'') path), traced at (ReadFile path) w)
           | Inr (Dir es) \<Rightarrow>
               (Inl (ErrnoException (js ''EISDIR'')
                      (js ''EISDIR: illegal operation on a directory, read'')),
                traced at (ReadFile path) w)
           | Inr (File bs) \<Rightarrow> (Inr (utf8_decode bs), traced at (ReadFile path) w)))"

text \<open>\<open>fs.writeFile(path, data, 'utf-8')\<close>\<close>

definition writeFile :: "site \<Rightarrow> jsstring \<Rightarrow> jsstring \<Rightarrow> unit io" where
  "writeFile at path data w =
     (case refused (WriteFile path) path w of
        Some e \<Rightarrow> (Inl e, traced at (WriteFile path) w)
      | None \<Rightarrow>
          (case store_file (tree w) (components path) (utf8_encode data) of
             Inl code \<Rightarrow> (Inl (fs_error code (js ''open'') path), traced at (WriteFile path) w)
           | Inr t \<Rightarrow> (Inr (), traced at (WriteFile path) (w\<lparr>tree := t\<rparr>))))"

text \<open>\<open>fs.unlink(path)\<close>\<close>

definition unlink :: "site \<Rightarrow> jsstring \<Rightarrow> unit io" where
  "unlink at path w =
     (case refused (Unlink path) path w of
        Some e \<Rightarrow> (Inl e, traced at (Unlink path) w)
      | None \<Rightarrow>
          (case remove_file (tree w) (components path) of
             Inl code \<Rightarrow> (Inl (fs_error code (js ''unlink'') path), traced at (Unlink path) w)
           | Inr t \<Rightarrow> (Inr (), traced at (Unlink path) (w\<lparr>tree := t\<rparr>))))"

text \<open>\<open>fs.mkdir(path, { recursive: true })\<close>\<close>

definition mkdir :: "site \<Rightarrow> jsstring \<Rightarrow> unit io" where
  "mkdir at path w =
     (case refused (Mkdir path) path w of
        Some e \<Rightarrow> (Inl e, traced at (Mkdir path) w)
      | None \<Rightarrow>
          (case make_dirs (tree w) (components path) of
             Inl code \<Rightarrow> (Inl (fs_error code (js ''mkdir'') path), traced at (Mkdir path) w)
           | Inr t \<Rightarrow> (Inr (), traced at (Mkdir path) (w\<lparr>tree := t\<rparr>))))"

definition logger :: "level \<Rightarrow> jsstring \<Rightarrow> unit io" where
  "logger l msg w = (Inr (), w\<lparr>trace := trace w @ [Log l msg]\<rparr>)"

definition randomBytes :: "nat \<Rightarrow> byte list io" where
  "randomBytes n w =
     (Inr (map (entropy w) [n_random w..<n_random w + n]), w\<lparr>n_random := n_random w + n\<rparr>)"

definition randomUUID :: "jsstring io" where
  "randomUUID w = (Inr (uuids w (n_uuid w)), w\<lparr>n_uuid := Suc (n_uuid w)\<rparr>)"

text \<open>\<open>new Date().toISOString()\<close>\<close>

definition nowISOString :: "jsstring io" where
  "nowISOString w = (Inr (clock w (n_clock w)), w\<lparr>n_clock := Suc (n_clock w)\<rparr>)"

section \<open>The entities of \<open>chat-history-service.ts\<close>\<close>

datatype role = User | Assistant | System

datatype status = Active | Archived

text \<open>The optional \<open>metadata\<close> and \<open>context\<close> objects are carried as their JSON text.\<close>

record ChatMessage =
  msg_id :: jsstring
  msg_role :: role
  msg_content :: jsstring
  msg_createdAt :: jsstring
  msg_metadata :: "jsstring option"

record ThreadSummary =
  sum_id :: jsstring
  sum_title :: jsstring
  sum_createdAt :: jsstring
  sum_updatedAt :: jsstring
  sum_status :: status
  sum_lastMessagePreview :: "jsstring option"

text \<open>
  A thread as the store holds it. \<open>messages\<close> is \<open>None\<close> in a thread read from a file whose
  JSON object has no array under that name.
\<close>

record Thread =
  thr_projectRoot :: jsstring
  thr_id :: jsstring
  thr_title :: jsstring
  thr_createdAt :: jsstring
  thr_updatedAt :: jsstring
  thr_status :: status
  thr_messages :: "ChatMessage list option"
  thr_context :: "jsstring option"

record ThreadsIndex =
  threads :: "ThreadSummary list"

text \<open>
  \<open>JSON.parse(text) as T\<close> is a cast that checks nothing. What it returns is \<open>Shaped x\<close> when
  the value is an object the store can go on with (for the index an object with an array
  under \<open>threads\<close>; for a thread an object, whose \<open>messages\<close> is \<open>None\<close> when no array is
  there) and \<open>Other v\<close> for any other JSON value, \<open>v\<close> its text: \<open>null\<close>, a number, and for the
  index \<open>{}\<close> as well. On \<open>Other\<close> the first method call or assignment of the store throws
  a \<open>TypeError\<close>, the code being in strict mode. The elements of the arrays and the other
  fields of a thread are taken to have the types of their interfaces.
\<close>

datatype 'a parsed = Shaped 'a | Other jsstring

text \<open>
  What the store takes from the JavaScript runtime and from its collaborators:
  \<open>JSON.parse\<close> (\<open>Inl\<close> is the message of the \<open>SyntaxError\<close>), \<open>JSON.stringify(x, null, 2)\<close>,
  the message of the \<open>TypeError\<close> for a member and the value it is missing on (by its
  text), \<open>path.resolve\<close>, the sketch directory of
  the configuration service as a file system path, \<open>new Date(s).getTime()\<close> (\<open>None\<close> is
  \<open>NaN\<close>) and what \<open>Array.prototype.sort\<close> makes of summaries whose comparison is \<open>NaN\<close>.
\<close>

record runtime =
  parse_index :: "jsstring \<Rightarrow> jsstring + ThreadsIndex parsed"
  parse_thread :: "jsstring \<Rightarrow> jsstring + Thread parsed"
  stringify_index :: "ThreadsIndex \<Rightarrow> jsstring"
  stringify_thread :: "Thread \<Rightarrow> jsstring"
  type_error :: "jsstring \<Rightarrow> jsstring \<Rightarrow> jsstring"
  path_resolve :: "jsstring \<Rightarrow> jsstring"
  sketchDir :: "jsstring option"
  getTime :: "jsstring \<Rightarrow> int option"
  engine_sort :: "ThreadSummary list \<Rightarrow> ThreadSummary list"

definition JSON_parse :: "(jsstring \<Rightarrow> jsstring + 'a) \<Rightarrow> jsstring \<Rightarrow> 'a io" where
  "JSON_parse parse text = liftIO (case parse text of Inl m \<Rightarrow> Inl (SyntaxError m) | Inr x \<Rightarrow> Inr x)"

text \<open>\<open>index.threads\<close> and \<open>thread.messages\<close> as the receiver of the method \<open>name\<close>.\<close>

definition threads_for :: "runtime \<Rightarrow> jsstring \<Rightarrow> ThreadsIndex parsed \<Rightarrow> ThreadsIndex io" where
  "threads_for rt name index =
     (case index of
        Shaped i \<Rightarrow> returnIO i
      | Other v \<Rightarrow> throwIO (TypeError (type_error rt name v)))"

definition messages_for :: "runtime \<Rightarrow> jsstring \<Rightarrow> Thread parsed \<Rightarrow> (Thread \<times> ChatMessage list) io" where
  "messages_for rt name thread =
     (case thread of
        Shaped t \<Rightarrow>
          (case thr_messages t of
             Some ms \<Rightarrow> returnIO (t, ms)
           | None \<Rightarrow> throwIO (TypeError (type_error rt name (stringify_thread rt t))))
      | Other v \<Rightarrow> throwIO (TypeError (type_error rt name v)))"

text \<open>\<open>thread.name = value\<close>, in strict mode: an object takes the property.\<close>

definition assignable :: "runtime \<Rightarrow> jsstring \<Rightarrow> Thread parsed \<Rightarrow> Thread io" where
  "assignable rt name thread =
     (case thread of
        Shaped t \<Rightarrow> returnIO t
      | Other v \<Rightarrow> throwIO (TypeError (type_error rt name v)))"

section \<open>The store\<close>

text \<open>
  The class \<open>ChatHistoryServiceImpl\<close> exists twice in the sources. The one of
  \<^verbatim>\<open>chat-history-service-impl.ts\<close> reads and writes through \<open>chat-encryption.ts\<close>; the one
  inside \<^verbatim>\<open>arduino-ide-electron-main.js\<close> reads and writes through \<open>chat-encoding.ts\<close> and has
  \<open>clearMessages\<close> in addition. The private methods differ and have one equation per class;
  the public methods are the same text and take the class as a parameter.
\<close>

datatype store = EncryptedStore | EncodedStore

fun CHAT_DIR_NAME :: "store \<Rightarrow> jsstring" where
  "CHAT_DIR_NAME EncryptedStore = js ''.blinky''"
| "CHAT_DIR_NAME EncodedStore = js ''.blinkey''"

definition CHAT_HISTORY_DIR :: jsstring where
  "CHAT_HISTORY_DIR = js ''chat''"

definition THREADS_INDEX_FILE :: jsstring where
  "THREADS_INDEX_FILE = js ''threads.json''"

definition THREAD_FILE_PREFIX :: jsstring where
  "THREAD_FILE_PREFIX = js ''thread-''"

definition resolveProjectRoot :: "runtime \<Rightarrow> jsstring option \<Rightarrow> jsstring io" where
  "resolveProjectRoot rt projectRoot =
     (if projectRoot \<noteq> None \<and> projectRoot \<noteq> Some [] then returnIO (path_resolve rt (the projectRoot))
      else
        (case sketchDir rt of
           Some dir \<Rightarrow> returnIO dir
         | None \<Rightarrow>
             throwIO (InvalidProjectRoot
               (js ''Could not determine project root. Please open a sketch or provide a project root.'')
               (js ''unknown''))))"

definition getChatHistoryDir :: "store \<Rightarrow> jsstring \<Rightarrow> jsstring" where
  "getChatHistoryDir st projectRoot = path_join [projectRoot, CHAT_DIR_NAME st, CHAT_HISTORY_DIR]"

definition getThreadsIndexPath :: "store \<Rightarrow> jsstring \<Rightarrow> jsstring" where
  "getThreadsIndexPath st projectRoot =
     path_join [getChatHistoryDir st projectRoot, THREADS_INDEX_FILE]"

definition getThreadFilePath :: "store \<Rightarrow> jsstring \<Rightarrow> jsstring \<Rightarrow> jsstring" where
  "getThreadFilePath st projectRoot threadId =
     path_join [getChatHistoryDir st projectRoot, THREAD_FILE_PREFIX @ threadId @ js ''.json'']"

definition ensureChatHistoryDir :: "store \<Rightarrow> jsstring \<Rightarrow> unit io" where
  "ensureChatHistoryDir st projectRoot =
     (let chatDir = getChatHistoryDir st projectRoot in
      tryCatch (mkdir InEnsureChatHistoryDir chatDir)
        (\<lambda>error.
           bindIO (logger LogError (js ''Failed to create chat history directory: '' @ chatDir)) (\<lambda>u.
           throwIO (WriteFailed
             (js ''Failed to create chat history directory: '' @ message error) chatDir))))"

text \<open>\<open>encryptChatData\<close> with the initialization vector it draws.\<close>

definition encryptChatData_io :: "jsstring \<Rightarrow> jsstring \<Rightarrow> jsstring io" where
  "encryptChatData_io data projectRoot =
     bindIO (randomBytes IV_LENGTH) (\<lambda>iv. liftIO (encryptChatData data projectRoot iv))"

definition emptyIndex :: ThreadsIndex where
  "emptyIndex = \<lparr>threads = []\<rparr>"

fun readThreadsIndex :: "store \<Rightarrow> runtime \<Rightarrow> jsstring \<Rightarrow> ThreadsIndex parsed io" where
  "readThreadsIndex EncryptedStore rt projectRoot =
     (let indexPath = getThreadsIndexPath EncryptedStore projectRoot in
      tryCatch
        (bindIO (readFile InReadThreadsIndex indexPath) (\<lambda>content.
         bindIO
           (if isEncrypted content then
              tryCatch (liftIO (decryptChatData content projectRoot))
                (\<lambda>decryptError.
                   bindIO (logger LogError (js ''Failed to decrypt threads index: '' @ indexPath)) (\<lambda>u.
                   throwIO (ReadFailed
                     (js ''Failed to decrypt threads index: '' @ message decryptError) indexPath)))
            else
              bindIO
                (tryCatch
                   (bindIO (encryptChatData_io content projectRoot) (\<lambda>encrypted.
                    writeFile InReadThreadsIndex indexPath encrypted))
                   (\<lambda>migrateError.
                      logger LogWarn
                        (js ''Failed to migrate threads index to encrypted format: '' @ indexPath)))
                (\<lambda>u. returnIO content))
           (\<lambda>decryptedContent. JSON_parse (parse_index rt) decryptedContent)))
        (\<lambda>error.
           if isENOENT error then returnIO (Shaped emptyIndex)
           else
             bindIO (logger LogError (js ''Failed to read threads index: '' @ indexPath)) (\<lambda>u.
             throwIO (ReadFailed (js ''Failed to read threads index: '' @ message error) indexPath))))"
| "readThreadsIndex EncodedStore rt projectRoot =
     (let indexPath = getThreadsIndexPath EncodedStore projectRoot in
      tryCatch
        (bindIO (readFile InReadThreadsIndex indexPath) (\<lambda>content.
         bindIO
           (if isEncoded content then
              tryCatch (bindIO (liftIO (decodeChatData content)) (\<lambda>decoded. returnIO (Inr decoded)))
                (\<lambda>decodeError.
                   bindIO (logger LogError (js ''Failed to decode threads index: '' @ indexPath)) (\<lambda>u.
                   if includes_str (message decodeError) (js ''Legacy encrypted'') then
                     bindIO (logger LogWarn
                       (js ''Legacy encrypted format detected, starting fresh: '' @ indexPath)) (\<lambda>u.
                     bindIO (tryCatch (unlink InReadThreadsIndex indexPath) (\<lambda>e. returnIO ())) (\<lambda>u.
                     returnIO (Inl (Shaped emptyIndex))))
                   else
                     throwIO (ReadFailed
                       (js ''Failed to decode threads index: '' @ message decodeError) indexPath)))
            else
              bindIO
                (tryCatch (writeFile InReadThreadsIndex indexPath (encodeChatData content))
                   (\<lambda>migrateError.
                      logger LogWarn
                        (js ''Failed to migrate threads index to base64 format: '' @ indexPath)))
                (\<lambda>u. returnIO (Inr content)))
           (\<lambda>r.
              case r of
                Inl early \<Rightarrow> returnIO early
              | Inr decodedContent \<Rightarrow>
                  tryCatch (JSON_parse (parse_index rt) decodedContent)
                    (\<lambda>parseError.
                       bindIO (logger LogError
                         (js ''Failed to parse threads index JSON: '' @ indexPath)) (\<lambda>u.
                       bindIO
                         (tryCatch
                            (bindIO (unlink InReadThreadsIndex indexPath) (\<lambda>u.
                             logger LogWarn
                               (js ''Deleted corrupted threads index, starting fresh: '' @ indexPath)))
                            (\<lambda>unlinkError.
                               logger LogWarn
                                 (js ''Failed to delete corrupted threads index: '' @ indexPath)))
                         (\<lambda>u. returnIO (Shaped emptyIndex)))))))
        (\<lambda>error.
           if isENOENT error then returnIO (Shaped emptyIndex)
           else
             bindIO (logger LogError (js ''Failed to read threads index: '' @ indexPath)) (\<lambda>u.
             if includes_str (message error) (js ''Failed to decode'')
                \<or> includes_str (message error) (js ''Failed to read'')
             then
               bindIO
                 (tryCatch
                    (bindIO (unlink InReadThreadsIndex indexPath) (\<lambda>u.
                     logger LogWarn
                       (js ''Deleted corrupted threads index after error, starting fresh: ''
                          @ indexPath)))
                    (\<lambda>unlinkError. returnIO ()))
                 (\<lambda>u. returnIO (Shaped emptyIndex))
             else
               throwIO (ReadFailed (js ''Failed to read threads index: '' @ message error) indexPath))))"

fun writeThreadsIndex :: "store \<Rightarrow> runtime \<Rightarrow> jsstring \<Rightarrow> ThreadsIndex \<Rightarrow> unit io" where
  "writeThreadsIndex EncryptedStore rt projectRoot index =
     (let indexPath = getThreadsIndexPath EncryptedStore projectRoot in
      tryCatch
        (bindIO (encryptChatData_io (stringify_index rt index) projectRoot) (\<lambda>encrypted.
         writeFile InWriteThreadsIndex indexPath encrypted))
        (\<lambda>error.
           bindIO (logger LogError (js ''Failed to write threads index: '' @ indexPath)) (\<lambda>u.
           throwIO (WriteFailed (js ''Failed to write threads index: '' @ message error) indexPath))))"
| "writeThreadsIndex EncodedStore rt projectRoot index =
     (let indexPath = getThreadsIndexPath EncodedStore projectRoot in
      tryCatch
        (writeFile InWriteThreadsIndex indexPath (encodeChatData (stringify_index rt index)))
        (\<lambda>error.
           bindIO (logger LogError (js ''Failed to write threads index: '' @ indexPath)) (\<lambda>u.
           throwIO (WriteFailed (js ''Failed to write threads index: '' @ message error) indexPath))))"

fun readThreadFile :: "store \<Rightarrow> runtime \<Rightarrow> jsstring \<Rightarrow> jsstring \<Rightarrow> Thread parsed io" where
  "readThreadFile EncryptedStore rt projectRoot threadId =
     (let threadPath = getThreadFilePath EncryptedStore projectRoot threadId in
      tryCatch
        (bindIO (readFile InReadThreadFile threadPath) (\<lambda>content.
         bindIO
           (if isEncrypted content then
              tryCatch (liftIO (decryptChatData content projectRoot))
                (\<lambda>decryptError.
                   bindIO (logger LogError (js ''Failed to decrypt thread file: '' @ threadPath)) (\<lambda>u.
                   throwIO (ReadFailed
                     (js ''Failed to decrypt thread: '' @ message decryptError) threadPath)))
            else
              bindIO
                (tryCatch
                   (bindIO (encryptChatData_io content projectRoot) (\<lambda>encrypted.
                    writeFile InReadThreadFile threadPath encrypted))
                   (\<lambda>migrateError.
                      logger LogWarn
                        (js ''Failed to migrate thread file to encrypted format: '' @ threadPath)))
                (\<lambda>u. returnIO content))
           (\<lambda>decryptedContent. JSON_parse (parse_thread rt) decryptedContent)))
        (\<lambda>error.
           if isENOENT error then
             throwIO (NotFound (js ''Thread not found: '' @ threadId) threadId)
           else if isReadFailed error then throwIO error
           else
             bindIO (logger LogError (js ''Failed to read thread file: '' @ threadPath)) (\<lambda>u.
             throwIO (ReadFailed (js ''Failed to read thread: '' @ message error) threadPath))))"
| "readThreadFile EncodedStore rt projectRoot threadId =
     (let threadPath = getThreadFilePath EncodedStore projectRoot threadId in
      tryCatch
        (bindIO (readFile InReadThreadFile threadPath) (\<lambda>content.
         bindIO
           (if isEncoded content then
              tryCatch (liftIO (decodeChatData content))
                (\<lambda>decodeError.
                   bindIO (logger LogError (js ''Failed to decode thread file: '' @ threadPath)) (\<lambda>u.
                   if includes_str (message decodeError) (js ''Legacy encrypted'') then
                     throwIO (ReadFailed
                       (js ''Legacy encrypted format detected. Please recreate your chats.'') threadPath)
                   else
                     throwIO (ReadFailed
                       (js ''Failed to decode thread: '' @ message decodeError) threadPath)))
            else
              bindIO
                (tryCatch (writeFile InReadThreadFile threadPath (encodeChatData content))
                   (\<lambda>migrateError.
                      logger LogWarn
                        (js ''Failed to migrate thread file to base64 format: '' @ threadPath)))
                (\<lambda>u. returnIO content))
           (\<lambda>decodedContent.
              tryCatch (JSON_parse (parse_thread rt) decodedContent)
                (\<lambda>parseError.
                   bindIO (logger LogError (js ''Failed to parse thread JSON: '' @ threadPath)) (\<lambda>u.
                   bindIO
                     (tryCatch
                        (bindIO (unlink InReadThreadFile threadPath) (\<lambda>u.
                         logger LogWarn (js ''Deleted corrupted thread file: '' @ threadPath)))
                        (\<lambda>unlinkError.
                           logger LogWarn
                             (js ''Failed to delete corrupted thread file: '' @ threadPath)))
                     (\<lambda>u.
                        throwIO (ReadFailed
                          (js ''Failed to parse thread: '' @ message parseError) threadPath)))))))
        (\<lambda>error.
           if isENOENT error then
             throwIO (NotFound (js ''Thread not found: '' @ threadId) threadId)
           else if isReadFailed error then throwIO error
           else
             bindIO (logger LogError (js ''Failed to read thread file: '' @ threadPath)) (\<lambda>u.
             throwIO (ReadFailed (js ''Failed to read thread: '' @ message error) threadPath))))"

fun writeThreadFile :: "store \<Rightarrow> runtime \<Rightarrow> jsstring \<Rightarrow> Thread \<Rightarrow> unit io" where
  "writeThreadFile EncryptedStore rt projectRoot thread =
     (let threadPath = getThreadFilePath EncryptedStore projectRoot (thr_id thread) in
      tryCatch
        (bindIO (encryptChatData_io (stringify_thread rt thread) projectRoot) (\<lambda>encrypted.
         writeFile InWriteThreadFile threadPath encrypted))
        (\<lambda>error.
           bindIO (logger LogError (js ''Failed to write thread file: '' @ threadPath)) (\<lambda>u.
           throwIO (WriteFailed (js ''Failed to write thread: '' @ message error) threadPath))))"
| "writeThreadFile EncodedStore rt projectRoot thread =
     (let threadPath = getThreadFilePath EncodedStore projectRoot (thr_id thread) in
      tryCatch
        (writeFile InWriteThreadFile threadPath (encodeChatData (stringify_thread rt thread)))
        (\<lambda>error.
           bindIO (logger LogError (js ''Failed to write thread file: '' @ threadPath)) (\<lambda>u.
           throwIO (WriteFailed (js ''Failed to write thread: '' @ message error) threadPath))))"

definition generateTitle :: "ChatMessage \<Rightarrow> jsstring" where
  "generateTitle firstMessage =
     (let text = trim (msg_content firstMessage);
          firstSentence = split_sentences text ! 0
      in if length firstSentence \<le> 60 then firstSentence
         else substring text 0 57 @ js ''...'')"

text \<open>
  \<open>index.threads.sort((a, b) => new Date(b.updatedAt).getTime() - new Date(a.updatedAt).getTime())\<close>:
  a stable sort, latest first, when every date has a time. When one has none the
  comparison is \<open>NaN\<close> and the order is what the engine leaves.
\<close>

definition sort_threads :: "runtime \<Rightarrow> ThreadSummary list \<Rightarrow> ThreadSummary list" where
  "sort_threads rt ts =
     (if length ts \<le> 1 then ts
      else if list_all (\<lambda>t. getTime rt (sum_updatedAt t) \<noteq> None) ts
      then sort_key (\<lambda>t. - the (getTime rt (sum_updatedAt t))) ts
      else engine_sort rt ts)"

definition listThreads :: "store \<Rightarrow> runtime \<Rightarrow> jsstring option \<Rightarrow> ThreadSummary list io" where
  "listThreads st rt projectRoot =
     bindIO (resolveProjectRoot rt projectRoot) (\<lambda>resolvedRoot.
     tryCatch
       (bindIO (readThreadsIndex st rt resolvedRoot) (\<lambda>index0.
        bindIO (threads_for rt (js ''sort'') index0) (\<lambda>index.
        returnIO (sort_threads rt (threads index)))))
       (\<lambda>error. if isENOENT error then returnIO [] else throwIO error))"

definition createThread ::
  "store \<Rightarrow> runtime \<Rightarrow> jsstring \<Rightarrow> ChatMessage option \<Rightarrow> Thread io" where
  "createThread st rt projectRoot initialMessage =
     bindIO (resolveProjectRoot rt (Some projectRoot)) (\<lambda>resolvedRoot.
     bindIO (ensureChatHistoryDir st resolvedRoot) (\<lambda>u.
     bindIO randomUUID (\<lambda>threadId.
     bindIO nowISOString (\<lambda>now.
       let title =
             (case initialMessage of
                Some m \<Rightarrow> if msg_role m = User then generateTitle m else js ''New Chat''
              | None \<Rightarrow> js ''New Chat'');
           thread =
             \<lparr>thr_projectRoot = resolvedRoot, thr_id = threadId, thr_title = title,
              thr_createdAt = now, thr_updatedAt = now, thr_status = Active,
              thr_messages = Some (case initialMessage of Some m \<Rightarrow> [m] | None \<Rightarrow> []),
              thr_context = None\<rparr>
       in
       bindIO (writeThreadFile st rt resolvedRoot thread) (\<lambda>u.
       bindIO (readThreadsIndex st rt resolvedRoot) (\<lambda>index0.
         let summary =
               \<lparr>sum_id = threadId, sum_title = title, sum_createdAt = now, sum_updatedAt = now,
                sum_status = Active,
                sum_lastMessagePreview =
                  map_option (\<lambda>m. substring (msg_content m) 0 100) initialMessage\<rparr>
         in
         bindIO (threads_for rt (js ''push'') index0) (\<lambda>index.
         bindIO (writeThreadsIndex st rt resolvedRoot
                   (index\<lparr>threads := threads index @ [summary]\<rparr>)) (\<lambda>u.
         returnIO thread))))))))"

definition getThread :: "store \<Rightarrow> runtime \<Rightarrow> jsstring \<Rightarrow> jsstring \<Rightarrow> Thread parsed io" where
  "getThread st rt projectRoot threadId =
     bindIO (resolveProjectRoot rt (Some projectRoot)) (\<lambda>resolvedRoot.
     readThreadFile st rt resolvedRoot threadId)"

text \<open>
  \<open>const summary = index.threads.find(t => t.id === threadId); if (summary) { ... }\<close>: the
  first summary with the id is changed in place.
\<close>

fun updateSummary ::
  "jsstring \<Rightarrow> (ThreadSummary \<Rightarrow> ThreadSummary) \<Rightarrow> ThreadSummary list \<Rightarrow> ThreadSummary list" where
  "updateSummary threadId f [] = []"
| "updateSummary threadId f (t # ts) =
     (if sum_id t = threadId then f t # ts else t # updateSummary threadId f ts)"

definition appendMessage ::
  "store \<Rightarrow> runtime \<Rightarrow> jsstring \<Rightarrow> jsstring \<Rightarrow> ChatMessage \<Rightarrow> Thread io" where
  "appendMessage st rt projectRoot threadId msg =
     bindIO (resolveProjectRoot rt (Some projectRoot)) (\<lambda>resolvedRoot.
     bindIO (readThreadFile st rt resolvedRoot threadId) (\<lambda>read.
     bindIO (messages_for rt (js ''push'') read) (\<lambda>(thread0, messages).
     bindIO nowISOString (\<lambda>now.
       let thread = thread0\<lparr>thr_messages := Some (messages @ [msg]), thr_updatedAt := now\<rparr>
       in
       bindIO (readThreadsIndex st rt resolvedRoot) (\<lambda>index1.
       bindIO (threads_for rt (js ''find'') index1) (\<lambda>index0.
         let index =
               index0\<lparr>threads :=
                 updateSummary threadId
                   (\<lambda>summary. summary\<lparr>sum_updatedAt := thr_updatedAt thread,
                      sum_lastMessagePreview := Some (substring (msg_content msg) 0 100)\<rparr>)
                   (threads index0)\<rparr>
         in
         bindIO (writeThreadFile st rt resolvedRoot thread) (\<lambda>u.
         bindIO (writeThreadsIndex st rt resolvedRoot index) (\<lambda>u.
         returnIO thread))))))))"

definition renameThread ::
  "store \<Rightarrow> runtime \<Rightarrow> jsstring \<Rightarrow> jsstring \<Rightarrow> jsstring \<Rightarrow> unit io" where
  "renameThread st rt projectRoot threadId title =
     bindIO (resolveProjectRoot rt (Some projectRoot)) (\<lambda>resolvedRoot.
     bindIO (readThreadFile st rt resolvedRoot threadId) (\<lambda>read.
     bindIO (assignable rt (js ''title'') read) (\<lambda>thread0.
     bindIO nowISOString (\<lambda>now.
       let thread = thread0\<lparr>thr_title := title, thr_updatedAt := now\<rparr>
       in
       bindIO (readThreadsIndex st rt resolvedRoot) (\<lambda>index1.
       bindIO (threads_for rt (js ''find'') index1) (\<lambda>index0.
         let index =
               index0\<lparr>threads :=
                 updateSummary threadId
                   (\<lambda>summary. summary\<lparr>sum_title := title, sum_updatedAt := thr_updatedAt thread\<rparr>)
                   (threads index0)\<rparr>
         in
         bindIO (writeThreadFile st rt resolvedRoot thread) (\<lambda>u.
         writeThreadsIndex st rt resolvedRoot index)))))))"

definition archiveThread :: "store \<Rightarrow> runtime \<Rightarrow> jsstring \<Rightarrow> jsstring \<Rightarrow> unit io" where
  "archiveThread st rt projectRoot threadId =
     bindIO (resolveProjectRoot rt (Some projectRoot)) (\<lambda>resolvedRoot.
     bindIO (readThreadFile st rt resolvedRoot threadId) (\<lambda>read.
     bindIO (assignable rt (js ''status'') read) (\<lambda>thread0.
     bindIO nowISOString (\<lambda>now.
       let thread = thread0\<lparr>thr_status := Archived, thr_updatedAt := now\<rparr>
       in
       bindIO (readThreadsIndex st rt resolvedRoot) (\<lambda>index1.
       bindIO (threads_for rt (js ''find'') index1) (\<lambda>index0.
         let index =
               index0\<lparr>threads :=
                 updateSummary threadId
                   (\<lambda>summary. summary\<lparr>sum_status := Archived, sum_updatedAt := thr_updatedAt thread\<rparr>)
                   (threads index0)\<rparr>
         in
         bindIO (writeThreadFile st rt resolvedRoot thread) (\<lambda>u.
         writeThreadsIndex st rt resolvedRoot index)))))))"

definition deleteThread :: "store \<Rightarrow> runtime \<Rightarrow> jsstring \<Rightarrow> jsstring \<Rightarrow> unit io" where
  "deleteThread st rt projectRoot threadId =
     bindIO (resolveProjectRoot rt (Some projectRoot)) (\<lambda>resolvedRoot.
     bindIO (readThreadsIndex st rt resolvedRoot) (\<lambda>index1.
     bindIO (threads_for rt (js ''filter'') index1) (\<lambda>index0.
     bindIO (writeThreadsIndex st rt resolvedRoot
               (index0\<lparr>threads := filter (\<lambda>t. sum_id t \<noteq> threadId) (threads index0)\<rparr>)) (\<lambda>u.
       let threadPath = getThreadFilePath st resolvedRoot threadId
       in
       tryCatch (unlink InDeleteThread threadPath)
         (\<lambda>error.
            if \<not> isENOENT error
            then logger LogWarn (js ''Failed to delete thread file: '' @ threadPath)
            else returnIO ())))))"

text \<open>\<open>clearMessages\<close> is a method of the class in \<^verbatim>\<open>arduino-ide-electron-main.js\<close> only.\<close>

definition clearMessages :: "runtime \<Rightarrow> jsstring \<Rightarrow> jsstring \<Rightarrow> Thread io" where
  "clearMessages rt projectRoot threadId =
     bindIO (resolveProjectRoot rt (Some projectRoot)) (\<lambda>resolvedRoot.
     bindIO (readThreadFile EncodedStore rt resolvedRoot threadId) (\<lambda>read.
     bindIO (assignable rt (js ''messages'') read) (\<lambda>thread0.
     bindIO nowISOString (\<lambda>now.
       let thread = thread0\<lparr>thr_messages := Some [], thr_updatedAt := now\<rparr>
       in
       bindIO (readThreadsIndex EncodedStore rt resolvedRoot) (\<lambda>index1.
       bindIO (threads_for rt (js ''find'') index1) (\<lambda>index0.
         let index =
               index0\<lparr>threads :=
                 updateSummary threadId
                   (\<lambda>summary. summary\<lparr>sum_updatedAt := thr_updatedAt thread,
                      sum_lastMessagePreview := None\<rparr>)
                   (threads index0)\<rparr>
         in
         bindIO (writeThreadFile EncodedStore rt resolvedRoot thread) (\<lambda>u.
         bindIO (writeThreadsIndex EncodedStore rt resolvedRoot index) (\<lambda>u.
         returnIO thread))))))))"

chapter \<open>Notions the properties are stated in\<close>

section \<open>Codec\<close>

text \<open>A code unit of base64 text: ASCII, no white space, no colon, no opening brace or bracket.\<close>

definition plain_ascii :: "code_unit \<Rightarrow> bool" where
  "plain_ascii c = (c < 0x80 \<and> \<not> isWhiteSpace c \<and> c \<noteq> 0x3A \<and> c \<noteq> 0x7B \<and> c \<noteq> 0x5B)"

text \<open>The string \<open>encryptChatData\<close> returns, in one expression.\<close>

definition frame :: "jsstring \<Rightarrow> jsstring \<Rightarrow> byte list \<Rightarrow> jsstring" where
  "frame data projectRoot iv =
     (let key = deriveKey projectRoot; ct = gcm_crypt key iv (utf8_encode data)
      in base64_encode iv @ [0x3A] @ base64_encode (gcm_tag key iv ct) @ [0x3A] @ base64_encode ct)"

text \<open>The initialization vector \<open>randomBytes(IV_LENGTH)\<close> returns in a world.\<close>

definition drawn_iv :: "world \<Rightarrow> byte list" where
  "drawn_iv w = map (entropy w) [n_random w..<n_random w + IV_LENGTH]"

section \<open>Traces\<close>

text \<open>What a computation adds to the trace.\<close>

definition new_events :: "'a io \<Rightarrow> world \<Rightarrow> event list" where
  "new_events m w = drop (length (trace w)) (trace (snd (m w)))"

fun isThreadWrite :: "event \<Rightarrow> bool" where
  "isThreadWrite (Fs InWriteThreadFile (WriteFile p)) = True"
| "isThreadWrite e = False"

fun isIndexWrite :: "event \<Rightarrow> bool" where
  "isIndexWrite (Fs InWriteThreadsIndex (WriteFile p)) = True"
| "isIndexWrite e = False"

text \<open>No write of \<open>writeThreadsIndex\<close> comes before the first write of \<open>writeThreadFile\<close>.\<close>

fun thread_before_index :: "event list \<Rightarrow> bool" where
  "thread_before_index [] = True"
| "thread_before_index (e # es) =
     (if isThreadWrite e then True else if isIndexWrite e then False else thread_before_index es)"

text \<open>A write of \<open>writeThreadFile\<close> is there and a write of \<open>writeThreadsIndex\<close> follows it.\<close>

definition both_written :: "event list \<Rightarrow> bool" where
  "both_written es = list_ex isIndexWrite (dropWhile (\<lambda>e. \<not> isThreadWrite e) es)"

fun isThreadUnlink :: "event \<Rightarrow> bool" where
  "isThreadUnlink (Fs InDeleteThread (Unlink p)) = True"
| "isThreadUnlink e = False"

fun isUnlink :: "event \<Rightarrow> bool" where
  "isUnlink (Fs at (Unlink p)) = True"
| "isUnlink e = False"

text \<open>The log lines, and the calls of the methods that read and of \<open>ensureChatHistoryDir\<close>.\<close>

fun quiet_event :: "event \<Rightarrow> bool" where
  "quiet_event (Fs at c) =
     (at = InEnsureChatHistoryDir \<or> at = InReadThreadsIndex \<or> at = InReadThreadFile)"
| "quiet_event (Log l m) = True"

definition quiet_site :: "site \<Rightarrow> bool" where
  "quiet_site at = (at = InEnsureChatHistoryDir \<or> at = InReadThreadsIndex \<or> at = InReadThreadFile)"

text \<open>
  The computation only appends to the trace, and its result and what it appends satisfy \<open>P\<close>.
\<close>

definition yields :: "(exn + 'a \<Rightarrow> event list \<Rightarrow> bool) \<Rightarrow> 'a io \<Rightarrow> bool" where
  "yields P m = (\<forall>w. \<exists>es. trace (snd (m w)) = trace w @ es \<and> P (fst (m w)) es)"

abbreviation quiet :: "'a io \<Rightarrow> bool" where
  "quiet \<equiv> yields (\<lambda>r es. list_all quiet_event es)"

text \<open>
  The two writes of a mutating operation in their order: no write of \<open>writeThreadsIndex\<close>
  before the write of \<open>writeThreadFile\<close>, and both when the operation returns.
\<close>

definition ordered :: "exn + 'a \<Rightarrow> event list \<Rightarrow> bool" where
  "ordered r es = (thread_before_index es \<and> (\<not> isl r \<longrightarrow> both_written es))"

text \<open>What \<open>writeThreadFile\<close> and \<open>writeThreadsIndex\<close> add to the trace.\<close>

definition thread_written :: "exn + 'a \<Rightarrow> event list \<Rightarrow> bool" where
  "thread_written r es =
     ((\<exists>e rest. es = e # rest \<and> isThreadWrite e) \<or> (isl r \<and> list_all quiet_event es))"

definition index_written :: "exn + 'a \<Rightarrow> event list \<Rightarrow> bool" where
  "index_written r es = (\<not> isl r \<longrightarrow> list_ex isIndexWrite es)"

text \<open>\<open>deleteThread\<close>: the index is written first, the thread file is unlinked after it.\<close>

definition index_then_unlink :: "exn + 'a \<Rightarrow> event list \<Rightarrow> bool" where
  "index_then_unlink r es =
     (\<not> list_ex isThreadWrite es
      \<and> (\<not> isl r \<longrightarrow>
           list_ex isIndexWrite (takeWhile (\<lambda>e. \<not> isThreadUnlink e) es)
           \<and> list_ex isThreadUnlink es))"

section \<open>Reads\<close>



text \<open>The text a read hands to \<open>JSON.parse\<close>.\<close>

fun decoded :: "store \<Rightarrow> jsstring \<Rightarrow> jsstring \<Rightarrow> exn + jsstring" where
  "decoded EncryptedStore content projectRoot =
     (if isEncrypted content then decryptChatData content projectRoot else Inr content)"
| "decoded EncodedStore content projectRoot =
     (if isEncoded content then decodeChatData content else Inr content)"

text \<open>The file a path leads to, if it leads to one.\<close>

definition file_at :: "world \<Rightarrow> jsstring \<Rightarrow> byte list option" where
  "file_at w path =
     (case lookup (tree w) (components path) of Inr (File bs) \<Rightarrow> Some bs | _ \<Rightarrow> None)"

section \<open>A world to run the store in\<close>

definition demo_index_text :: jsstring where
  \<open>demo_index_text = js ''{"threads":[]}''\<close>

definition demo_thread_text :: jsstring where
  \<open>demo_thread_text =
     js ''{"projectRoot":"/p","id":"t1","title":"New Chat","createdAt":"2025-01-01T00:00:00.000Z","updatedAt":"2025-01-01T00:00:00.000Z","status":"active","messages":[]}''\<close>

definition demo_time :: jsstring where
  "demo_time = js ''2025-01-01T00:00:00.000Z''"

definition demo_thread :: Thread where
  "demo_thread =
     \<lparr>thr_projectRoot = js ''/p'', thr_id = js ''t1'', thr_title = js ''New Chat'',
      thr_createdAt = demo_time, thr_updatedAt = demo_time, thr_status = Active,
      thr_messages = Some [], thr_context = None\<rparr>"

text \<open>
  A runtime for the runs below. Its \<open>JSON\<close> knows these two documents and \<open>{}\<close>, which has
  neither shape; the only other text the runs parse is \<open>{\<close>, which is malformed.
\<close>

definition demo_runtime :: runtime where
  \<open>demo_runtime =
     \<lparr>parse_index =
        (\<lambda>s. if s = demo_index_text then Inr (Shaped emptyIndex)
              else if s = js ''{}'' then Inr (Other (js ''{}''))
              else Inl (js ''Unexpected end of JSON input'')),
      parse_thread =
        (\<lambda>s. if s = demo_thread_text then Inr (Shaped demo_thread)
              else Inl (js ''Unexpected end of JSON input'')),
      stringify_index = (\<lambda>i. demo_index_text),
      stringify_thread = (\<lambda>t. demo_thread_text),
      type_error =
        (\<lambda>name v. js ''Cannot read properties of undefined (reading '' @ [0x27] @ name @ [0x27]
           @ js '')''),
      path_resolve = (\<lambda>p. p),
      sketchDir = None,
      getTime = (\<lambda>s. Some 0),
      engine_sort = (\<lambda>ts. ts)\<rparr>\<close>

text \<open>
  A world with the given tree and a file system that fails only as the tree says. No path
  of the runs below has a null byte.
\<close>

definition demo_world :: "node \<Rightarrow> world" where
  "demo_world t =
     \<lparr>tree = t, faults = (\<lambda>n c. None),
      invalid_arg_message = (\<lambda>p. js ''The argument path must be a string without null bytes''),
      entropy = (\<lambda>n. 0), uuids = (\<lambda>n. js ''t1''), clock = (\<lambda>n. demo_time),
      n_random = 0, n_uuid = 0, n_clock = 0, trace = []\<rparr>"

text \<open>The project \<open>/p\<close> before its first chat, and with the chat directory of a class.\<close>

definition new_project :: node where
  "new_project = Dir [js ''p'' \<mapsto> Dir Map.empty]"

definition project :: "store \<Rightarrow> (jsstring \<Rightarrow> node option) \<Rightarrow> node" where
  "project st chat = Dir [js ''p'' \<mapsto> Dir [CHAT_DIR_NAME st \<mapsto> Dir [CHAT_HISTORY_DIR \<mapsto> Dir chat]]]"

definition index_name :: jsstring where
  "index_name = THREADS_INDEX_FILE"

definition thread_name :: jsstring where
  "thread_name = THREAD_FILE_PREFIX @ js ''t1'' @ js ''.json''"

text \<open>The project with the thread \<open>t1\<close>, as the base64 class leaves its files.\<close>

definition demo_files :: node where
  "demo_files =
     project EncodedStore
       [index_name \<mapsto> File (utf8_encode (encodeChatData demo_index_text)),
        thread_name \<mapsto> File (utf8_encode (encodeChatData demo_thread_text))]"

text \<open>The project with the thread \<open>t1\<close>, as the encrypting class leaves its files.\<close>

definition demo_sealed :: node where
  "demo_sealed =
     project EncryptedStore
       [index_name \<mapsto> File (utf8_encode (frame demo_index_text (js ''/p'') (replicate 16 0))),
        thread_name \<mapsto> File (utf8_encode (frame demo_thread_text (js ''/p'') (replicate 16 0)))]"


text \<open>
  The same project with files in the format of the class that hold \<open>{\<close>, which is not
  JSON.
\<close>

fun demo_damaged :: "store \<Rightarrow> node" where
  "demo_damaged EncodedStore =
     project EncodedStore
       [index_name \<mapsto> File (utf8_encode (encodeChatData (js ''{''))),
        thread_name \<mapsto> File (utf8_encode (encodeChatData (js ''{'')))]"
| "demo_damaged EncryptedStore =
     project EncryptedStore
       [index_name \<mapsto> File (utf8_encode (frame (js ''{'') (js ''/p'') (replicate 16 0))),
        thread_name \<mapsto> File (utf8_encode (frame (js ''{'') (js ''/p'') (replicate 16 0)))]"

definition demo_message :: ChatMessage where
  "demo_message =
     \<lparr>msg_id = js ''m1'', msg_role = User,
      msg_content = js ''Fix my blink sketch, it never stops blinking'',
      msg_createdAt = demo_time, msg_metadata = None\<rparr>"

chapter \<open>Properties\<close>

section \<open>Splitting\<close>

lemma split_not_Nil: "split sep s \<noteq> []"
  by (induction s) (auto split: list.splits)

lemma length_split: "length (split sep s) = Suc (count_list s sep)"
  by (induction s) (auto split: list.splits simp: split_not_Nil)

lemma split_no_sep: "sep \<notin> set s \<Longrightarrow> split sep s = [s]"
  by (induction s) auto

lemma split_append_sep: "sep \<notin> set s \<Longrightarrow> split sep (s @ sep # r) = s # split sep r"
  by (induction s) auto

section \<open>UTF-8 decodes what it encoded\<close>

lemma unat8: "n < 256 \<Longrightarrow> unat (of_nat n :: byte) = n"
  by (simp add: unat_of_nat)

lemma dec1: "unat b0 < 0x80 \<Longrightarrow> utf8_code_points (b0 # rest) = unat b0 # utf8_code_points rest"
  by (simp add: utf8_step_def)

lemma dec2:
  "unat b0 = 0xC0 + q \<Longrightarrow> unat b1 = 0x80 + r \<Longrightarrow> 2 \<le> q \<Longrightarrow> q < 32 \<Longrightarrow> r < 64 \<Longrightarrow>
   utf8_code_points (b0 # b1 # rest) = (q * 64 + r) # utf8_code_points rest"
  by (simp add: utf8_step_def inRange_def tail6_def)

lemma dec3:
  "unat b0 = 0xE0 + a \<Longrightarrow> unat b1 = 0x80 + b \<Longrightarrow> unat b2 = 0x80 + c \<Longrightarrow>
   a < 16 \<Longrightarrow> b < 64 \<Longrightarrow> c < 64 \<Longrightarrow> (a = 0 \<Longrightarrow> 32 \<le> b) \<Longrightarrow> (a = 13 \<Longrightarrow> b < 32) \<Longrightarrow>
   utf8_code_points (b0 # b1 # b2 # rest) = (a * 4096 + b * 64 + c) # utf8_code_points rest"
  by (auto simp add: utf8_step_def inRange_def tail6_def)

lemma dec4:
  "unat b0 = 0xF0 + a \<Longrightarrow> unat b1 = 0x80 + b \<Longrightarrow> unat b2 = 0x80 + c \<Longrightarrow> unat b3 = 0x80 + d \<Longrightarrow>
   a < 5 \<Longrightarrow> b < 64 \<Longrightarrow> c < 64 \<Longrightarrow> d < 64 \<Longrightarrow> (a = 0 \<Longrightarrow> 16 \<le> b) \<Longrightarrow> (a = 4 \<Longrightarrow> b < 16) \<Longrightarrow>
   utf8_code_points (b0 # b1 # b2 # b3 # rest)
     = (a * 262144 + b * 4096 + c * 64 + d) # utf8_code_points rest"
  by (auto simp add: utf8_step_def inRange_def tail6_def)

lemma split64: "(n::nat) div 64 * 64 + n mod 64 = n"
  by simp

lemma split4096: "(n::nat) div 4096 * 4096 + n div 64 mod 64 * 64 + n mod 64 = n"
proof -
  have "n div 4096 = n div 64 div 64" by (simp add: div_mult2_eq)
  then have "n div 4096 * 64 + n div 64 mod 64 = n div 64" by simp
  then have "(n div 4096 * 64 + n div 64 mod 64) * 64 + n mod 64 = n" by simp
  then show ?thesis by (simp add: algebra_simps)
qed

lemma split262144:
  "(n::nat) div 262144 * 262144 + n div 4096 mod 64 * 4096 + n div 64 mod 64 * 64 + n mod 64 = n"
proof -
  have "n div 262144 = n div 4096 div 64" by (simp add: div_mult2_eq)
  then have "n div 262144 * 64 + n div 4096 mod 64 = n div 4096" by simp
  then have "(n div 262144 * 64 + n div 4096 mod 64) * 4096 + n div 64 mod 64 * 64 + n mod 64 = n"
    using split4096 [of n] by simp
  then show ?thesis by (simp add: algebra_simps)
qed

lemma utf8_code_points_bytes:
  assumes "isScalar n"
  shows "utf8_code_points (utf8_bytes n @ rest) = n # utf8_code_points rest"
proof -
  from assms have n: "n < 0x110000" and ns: "\<not> (0xD800 \<le> n \<and> n \<le> 0xDFFF)"
    by (simp_all add: isScalar_def)
  consider "n < 0x80" | "0x80 \<le> n" "n < 0x800" | "0x800 \<le> n" "n < 0x10000" | "0x10000 \<le> n"
    by linarith
  then show ?thesis
  proof cases
    case 1
    then have "unat (of_nat n :: byte) = n" by (simp add: unat8)
    with 1 dec1 [of "of_nat n" rest] show ?thesis by (simp add: utf8_bytes_def)
  next
    case 2
    define q where "q = n div 64"
    define r where "r = n mod 64"
    have r: "r < 64" by (simp add: r_def)
    have q: "2 \<le> q" "q < 32" using 2 by (simp_all add: q_def less_mult_imp_div_less le_div_geq)
    have e: "q * 64 + r = n" by (simp add: q_def r_def)
    have "unat (of_nat (0xC0 + q) :: byte) = 0xC0 + q" "unat (of_nat (0x80 + r) :: byte) = 0x80 + r"
      using q r by (simp_all add: unat8 del: of_nat_add)
    from dec2 [OF this q r, of rest] e 2 show ?thesis
      by (simp add: utf8_bytes_def q_def r_def del: of_nat_add)
  next
    case 3
    define a where "a = n div 4096"
    define b where "b = n div 64 mod 64"
    define c where "c = n mod 64"
    have bc: "b < 64" "c < 64" by (simp_all add: b_def c_def)
    have a: "a < 16" using 3 by (simp add: a_def less_mult_imp_div_less)
    have e: "a * 4096 + b * 64 + c = n" using split4096 [of n] by (simp add: a_def b_def c_def)
    have a0: "a = 0 \<Longrightarrow> 32 \<le> b" using e 3 bc by linarith
    have a13: "a = 13 \<Longrightarrow> b < 32" using e ns bc by linarith
    have "unat (of_nat (0xE0 + a) :: byte) = 0xE0 + a" "unat (of_nat (0x80 + b) :: byte) = 0x80 + b"
      "unat (of_nat (0x80 + c) :: byte) = 0x80 + c"
      using a bc by (simp_all add: unat8 del: of_nat_add)
    from dec3 [OF this a bc a0 a13, of rest] e 3 show ?thesis
      by (simp add: utf8_bytes_def a_def b_def c_def del: of_nat_add)
  next
    case 4
    define a where "a = n div 262144"
    define b where "b = n div 4096 mod 64"
    define c where "c = n div 64 mod 64"
    define d where "d = n mod 64"
    have bcd: "b < 64" "c < 64" "d < 64" by (simp_all add: b_def c_def d_def)
    have a: "a < 5" using n by (simp add: a_def less_mult_imp_div_less)
    have e: "a * 262144 + b * 4096 + c * 64 + d = n"
      using split262144 [of n] by (simp add: a_def b_def c_def d_def)
    have a0: "a = 0 \<Longrightarrow> 16 \<le> b" using e 4 bcd by linarith
    have a4: "a = 4 \<Longrightarrow> b < 16" using e n bcd by linarith
    have "unat (of_nat (0xF0 + a) :: byte) = 0xF0 + a" "unat (of_nat (0x80 + b) :: byte) = 0x80 + b"
      "unat (of_nat (0x80 + c) :: byte) = 0x80 + c" "unat (of_nat (0x80 + d) :: byte) = 0x80 + d"
      using a bcd by (simp_all add: unat8 del: of_nat_add)
    from dec4 [OF this a bcd a0 a4, of rest] e 4 show ?thesis
      by (simp add: utf8_bytes_def a_def b_def c_def d_def del: of_nat_add)
  qed
qed

lemma utf8_code_points_concat:
  "list_all isScalar ns \<Longrightarrow> utf8_code_points (concat (map utf8_bytes ns)) = ns"
  by (induction ns) (simp_all add: utf8_code_points_bytes)

lemma isHighSurrogate_unat: "isHighSurrogate c = (0xD800 \<le> unat c \<and> unat c \<le> 0xDBFF)"
  by (simp add: isHighSurrogate_def word_le_nat_alt)

lemma isLowSurrogate_unat: "isLowSurrogate c = (0xDC00 \<le> unat c \<and> unat c \<le> 0xDFFF)"
  by (simp add: isLowSurrogate_def word_le_nat_alt)

lemma unat16_bound: "unat (c :: code_unit) < 65536"
  using unsigned_less [of c, where ?'a = nat] by simp

lemma scalar_unit:
  "\<not> isHighSurrogate c \<Longrightarrow> \<not> isLowSurrogate c \<Longrightarrow>
   isScalar (loneUnit c) \<and> utf16_units (loneUnit c) = [c]"
  using unat16_bound [of c]
  by (auto simp add: isScalar_def loneUnit_def utf16_units_def isHighSurrogate_unat isLowSurrogate_unat)

lemma scalar_pair:
  assumes "isHighSurrogate c" "isLowSurrogate d"
  shows "isScalar (pairPoint c d) \<and> utf16_units (pairPoint c d) = [c, d]"
proof -
  define x where "x = unat c - 0xD800"
  define y where "y = unat d - 0xDC00"
  have x: "x < 0x400" "unat c = 0xD800 + x" using assms(1) by (auto simp add: x_def isHighSurrogate_unat)
  have y: "y < 0x400" "unat d = 0xDC00 + y" using assms(2) by (auto simp add: y_def isLowSurrogate_unat)
  have p: "pairPoint c d = 0x10000 + (x * 0x400 + y)" by (simp add: pairPoint_def x_def y_def)
  have "(x * 0x400 + y) div 0x400 = x" "(x * 0x400 + y) mod 0x400 = y" using y(1) by simp_all
  moreover have "of_nat (0xD800 + x) = c" "of_nat (0xDC00 + y) = d"
    using x(2) [symmetric] y(2) [symmetric] by (simp_all del: of_nat_add)
  moreover have "x * 0x400 + y < 0x100000" using x(1) y(1) by linarith
  ultimately show ?thesis
    by (simp add: p isScalar_def utf16_units_def del: of_nat_add)
qed

lemma code_points_wellFormed:
  "isWellFormed s \<Longrightarrow>
   list_all isScalar (code_points s) \<and> concat (map utf16_units (code_points s)) = s"
proof (induction s rule: code_points.induct)
  case 1
  then show ?case by simp
next
  case (2 c)
  then show ?case using scalar_unit [of c] by simp
next
  case (3 c d r)
  show ?case
  proof (cases "isHighSurrogate c")
    case True
    with 3 scalar_pair [of c d] show ?thesis by simp
  next
    case False
    with 3 scalar_unit [of c] show ?thesis by simp
  qed
qed

lemma utf8_roundtrip: "isWellFormed s \<Longrightarrow> utf8_decode (utf8_encode s) = s"
  by (simp add: utf8_decode_def utf8_encode_def utf8_code_points_concat code_points_wellFormed)

section \<open>Base64 decodes what it encoded\<close>

lemma byte_masks:
  "(63::byte) = mask 6" "(3::byte) = mask 2" "(15::byte) = mask 4"
  "(48::byte) = push_bit 4 (mask 2)" "(60::byte) = push_bit 2 (mask 4)"
  by (simp_all add: mask_eq_exp_minus_1)

lemma bit_index_cases: "n < 8 \<Longrightarrow> n \<in> {0, 1, 2, 3, 4, 5, 6, 7::nat}"
  by auto

lemma regroup_first:
  "push_bit 2 (drop_bit 2 a AND 63) OR drop_bit 4 ((push_bit 4 (a AND 3) OR drop_bit 4 b) AND 48)
     = (a :: byte)"
  unfolding byte_masks
  apply (rule bit_word_eqI)
  subgoal for n
    using bit_index_cases [of n]
    by (auto simp add: bit_simps numeral_2_eq_2 [symmetric] numeral_3_eq_3 [symmetric])
  done

lemma regroup_second:
  "push_bit 4 ((push_bit 4 (a AND 3) OR drop_bit 4 b) AND 15)
     OR drop_bit 2 ((push_bit 2 (b AND 15) OR drop_bit 6 c) AND 60) = (b :: byte)"
  unfolding byte_masks
  apply (rule bit_word_eqI)
  subgoal for n
    using bit_index_cases [of n] by (auto simp add: bit_simps)
  done

lemma regroup_third:
  "push_bit 6 ((push_bit 2 (b AND 15) OR drop_bit 6 c) AND 3) OR ((c AND 63) AND 63) = (c :: byte)"
  unfolding byte_masks
  by (rule bit_word_eqI) (auto simp add: bit_simps)

lemma sextetI: "w AND mask 6 = w \<Longrightarrow> (w::byte) < 64"
  using mask_eq_iff_w2p [of 6 w] by (simp add: word_size)

lemma sextet_first: "drop_bit 2 (a::byte) < 64"
  by (rule sextetI, rule bit_word_eqI) (auto simp add: bit_simps dest: bit_imp_le_length)

lemma sextet_second: "push_bit 4 ((a::byte) AND 3) OR drop_bit 4 b < 64"
  unfolding byte_masks
  by (rule sextetI, rule bit_word_eqI) (auto simp add: bit_simps dest: bit_imp_le_length)

lemma sextet_third: "push_bit 2 ((b::byte) AND 15) OR drop_bit 6 c < 64"
  unfolding byte_masks
  by (rule sextetI, rule bit_word_eqI) (auto simp add: bit_simps dest: bit_imp_le_length)

lemma sextet_fourth: "(c::byte) AND 63 < 64"
  unfolding byte_masks
  by (rule sextetI, rule bit_word_eqI) (auto simp add: bit_simps dest: bit_imp_le_length)

lemma sextet_second_last: "push_bit 4 ((a::byte) AND 3) < 64"
  using sextet_second [of a 0] by simp

lemma sextet_third_last: "push_bit 2 ((b::byte) AND 15) < 64"
  using sextet_third [of b 0] by simp

lemma alphabet_table:
  "list_all (\<lambda>n. unbase64 (ucast (base64_char (of_nat n))) = Some (of_nat n)
               \<and> base64_char (of_nat n) \<noteq> 0x3A) [0..<64]"
  by code_simp

lemma alphabet_entry:
  assumes "s < 64"
  shows "unbase64 (ucast (base64_char s)) = Some s" and "base64_char s \<noteq> 0x3A"
proof -
  from assms have "unat s \<in> set [0..<64]" by (simp add: word_less_nat_alt)
  with alphabet_table
  have "unbase64 (ucast (base64_char (of_nat (unat s)))) = Some (of_nat (unat s))
        \<and> base64_char (of_nat (unat s)) \<noteq> 0x3A"
    unfolding list_all_iff by blast
  then show "unbase64 (ucast (base64_char s)) = Some s" and "base64_char s \<noteq> 0x3A"
    by simp_all
qed

lemmas sextets = sextet_first sextet_second sextet_third sextet_fourth
  sextet_second_last sextet_third_last

lemma base64_sextets_char:
  "s < 64 \<Longrightarrow> base64_sextets (base64_char s # rest) = s # base64_sextets rest"
  by (simp add: alphabet_entry)

lemma base64_sextets_pad: "base64_sextets (0x3D # rest) = []"
  by (simp add: unbase64_def)

lemma base64_decode_encode: "base64_decode (base64_encode bs) = bs"
proof (induction bs rule: base64_encode.induct)
  case (1 a b c r)
  have "base64_sextets (base64_encode (a # b # c # r))
        = drop_bit 2 a # (push_bit 4 (a AND 3) OR drop_bit 4 b)
            # (push_bit 2 (b AND 15) OR drop_bit 6 c) # (c AND 63)
            # base64_sextets (base64_encode r)"
    by (simp only: base64_encode.simps append_Cons append_Nil base64_sextets_char sextets)
  with 1 show ?case
    by (simp only: base64_decode_def base64_groups.simps regroup_first regroup_second
        regroup_third append_Cons append_Nil)
next
  case (2 a b)
  have "base64_sextets (base64_encode [a, b])
        = [drop_bit 2 a, push_bit 4 (a AND 3) OR drop_bit 4 b, push_bit 2 (b AND 15)]"
    by (simp only: base64_encode.simps base64_sextets_char base64_sextets_pad sextets)
  then show ?case
    using regroup_first [of a b] regroup_second [of a b 0]
    by (simp only: base64_decode_def base64_groups.simps drop_bit_of_0 or.right_neutral)
next
  case (3 a)
  have "base64_sextets (base64_encode [a]) = [drop_bit 2 a, push_bit 4 (a AND 3)]"
    by (simp only: base64_encode.simps base64_sextets_char base64_sextets_pad sextets)
  then show ?case
    using regroup_first [of a 0]
    by (simp only: base64_decode_def base64_groups.simps drop_bit_of_0 or.right_neutral)
next
  case 4
  show ?case by (simp add: base64_decode_def)
qed

lemma base64_encode_no_colon: "0x3A \<notin> set (base64_encode bs)"
proof (induction bs rule: base64_encode.induct)
  case (1 a b c r)
  then show ?case
    using alphabet_entry(2) [OF sextet_first [of a]] alphabet_entry(2) [OF sextet_second [of a b]]
      alphabet_entry(2) [OF sextet_third [of b c]] alphabet_entry(2) [OF sextet_fourth [of c]]
    by (simp only: base64_encode.simps set_append set_simps Un_iff insert_iff empty_iff) auto
next
  case (2 a b)
  show ?case
    using alphabet_entry(2) [OF sextet_first [of a]] alphabet_entry(2) [OF sextet_second [of a b]]
      alphabet_entry(2) [OF sextet_third_last [of b]]
    by (simp only: base64_encode.simps set_simps insert_iff empty_iff) simp
next
  case (3 a)
  show ?case
    using alphabet_entry(2) [OF sextet_first [of a]] alphabet_entry(2) [OF sextet_second_last [of a]]
    by (simp only: base64_encode.simps set_simps insert_iff empty_iff) simp
next
  case 4
  show ?case by simp
qed

lemma base64_encode_append:
  "length xs mod 3 = 0 \<Longrightarrow> base64_encode (xs @ ys) = base64_encode xs @ base64_encode ys"
  by (induction xs rule: base64_encode.induct) simp_all

lemma base64_write_end: "fst (base64_write ct) @ base64_end (snd (base64_write ct)) = base64_encode ct"
proof -
  define n where "n = length ct mod 3"
  have "length (take (length ct - n) ct) mod 3 = 0"
    by (simp add: n_def)
  from base64_encode_append [OF this, of "drop (length ct - n) ct"] show ?thesis
    by (simp add: base64_write_def base64_end_def n_def Let_def)
qed

section \<open>The primitives of \<open>node:crypto\<close>\<close>

subsection \<open>Lengths of the primitives\<close>

lemma length_be_bytes: "length (be_bytes n w) = n"
  by (simp add: be_bytes_def)

lemma length_sha256: "length (sha256 m) = 32"
  by (simp add: sha256_def length_be_bytes split: prod.splits)

lemma length_hmac_sha256: "length (hmac_sha256 k m) = 32"
  by (simp add: hmac_sha256_def length_sha256)

lemma length_pbkdf2_iter:
  "length u = 32 \<Longrightarrow> length acc = 32 \<Longrightarrow> length (pbkdf2_iter p n u acc) = 32"
  by (induction n arbitrary: u acc) (simp_all add: Let_def xor_bytes_def length_hmac_sha256)

lemma length_pbkdf2_F: "length (pbkdf2_F p s c i) = 32"
  by (simp add: pbkdf2_F_def Let_def length_pbkdf2_iter length_hmac_sha256)

lemma length_pbkdf2_32: "length (pbkdf2_hmac_sha256 p s c 32) = 32"
  by (simp add: pbkdf2_hmac_sha256_def length_pbkdf2_F)

lemma length_deriveKey: "length (deriveKey r) = 32"
  by (simp add: deriveKey_def pbkdf2Sync_def KEY_LENGTH_def Let_def length_pbkdf2_32)

lemma length_ShiftRows: "length (ShiftRows st) = 16"
  by (simp add: ShiftRows_def)

lemma length_round_key: "length (round_key w r) = 16"
  by (simp add: round_key_def)

lemma length_aes256_encrypt_block: "length (aes256_encrypt_block key blk) = 16"
  by (simp add: aes256_encrypt_block_def Let_def AddRoundKey_def xor_bytes_def
      length_ShiftRows length_round_key)

subsection \<open>Counter mode\<close>

lemma xor_bytes_cancel:
  "length xs \<le> length ks \<Longrightarrow> xor_bytes (xor_bytes xs ks) ks = xs"
proof (induction xs arbitrary: ks)
  case Nil
  then show ?case by (simp add: xor_bytes_def)
next
  case (Cons x xs)
  then obtain k ks' where "ks = k # ks'" by (cases ks) auto
  with Cons show ?case by (simp add: xor_bytes_def xor.assoc)
qed

lemma length_xor_bytes: "length (xor_bytes xs ys) = min (length xs) (length ys)"
  by (simp add: xor_bytes_def)

lemma gctr_Nil: "gctr key cb [] = []"
  by (subst gctr.simps) simp

lemma length_gctr: "length (gctr key cb xs) = length xs"
proof (induction key cb xs rule: gctr.induct)
  case (1 key cb xs)
  show ?case
  proof (cases "xs = []")
    case True
    then show ?thesis by (simp add: gctr_Nil)
  next
    case False
    with 1 show ?thesis
      by (subst gctr.simps) (simp add: length_xor_bytes length_aes256_encrypt_block)
  qed
qed

lemma gctr_involution: "gctr key cb (gctr key cb xs) = xs"
proof (induction key cb xs rule: gctr.induct)
  case (1 key cb xs)
  show ?case
  proof (cases "xs = []")
    case True
    then show ?thesis by (simp add: gctr_Nil)
  next
    case False
    define ks where "ks = aes256_encrypt_block key (be_bytes 16 cb)"
    define hd16 where "hd16 = xor_bytes (take 16 xs) ks"
    define tl16 where "tl16 = gctr key (inc32 cb) (drop 16 xs)"
    have lk: "length ks = 16" by (simp add: ks_def length_aes256_encrypt_block)
    have lh: "length hd16 = min (length xs) 16" by (simp add: hd16_def length_xor_bytes lk)
    have e: "gctr key cb xs = hd16 @ tl16"
      using False by (subst gctr.simps) (simp add: hd16_def tl16_def ks_def)
    have ne: "hd16 @ tl16 \<noteq> []" using False lh by (cases xs) auto
    have t: "take 16 (hd16 @ tl16) = hd16"
    proof (cases "16 \<le> length xs")
      case True
      then show ?thesis using lh by simp
    next
      case False
      then have "drop 16 xs = []" by simp
      then have "tl16 = []" by (simp add: tl16_def gctr_Nil)
      then show ?thesis using lh by simp
    qed
    have d: "drop 16 (hd16 @ tl16) = tl16"
    proof (cases "16 \<le> length xs")
      case True
      then show ?thesis using lh by simp
    next
      case False
      then have "drop 16 xs = []" by simp
      then have "tl16 = []" by (simp add: tl16_def gctr_Nil)
      then show ?thesis using lh by simp
    qed
    have "gctr key cb (hd16 @ tl16)
          = xor_bytes (take 16 (hd16 @ tl16)) ks @ gctr key (inc32 cb) (drop 16 (hd16 @ tl16))"
      by (subst gctr.simps) (simp only: ne if_False ks_def)
    also have "\<dots> = xor_bytes hd16 ks @ gctr key (inc32 cb) tl16" by (simp only: t d)
    also have "xor_bytes hd16 ks = take 16 xs"
      unfolding hd16_def by (rule xor_bytes_cancel) (simp add: lk)
    also have "gctr key (inc32 cb) tl16 = drop 16 xs"
      unfolding tl16_def using 1 False by simp
    finally show ?thesis by (simp add: e)
  qed
qed

lemma gcm_crypt_involution: "gcm_crypt key iv (gcm_crypt key iv xs) = xs"
  by (simp add: gcm_crypt_def gctr_involution)

lemma length_gcm_tag: "length (gcm_tag key iv ct) = 16"
  by (simp add: gcm_tag_def Let_def length_gctr length_be_bytes)

subsection \<open>The HMAC key\<close>





section \<open>What base64 text looks like\<close>

lemma alphabet_plain: "list_all (\<lambda>n. plain_ascii (base64_char (of_nat n))) [0..<64]"
  by code_simp

lemma base64_char_plain:
  assumes "s < 64"
  shows "plain_ascii (base64_char s)"
proof -
  from assms have "unat s \<in> set [0..<64]" by (simp add: word_less_nat_alt)
  with alphabet_plain have "plain_ascii (base64_char (of_nat (unat s)))"
    unfolding list_all_iff by blast
  then show ?thesis by simp
qed

lemma pad_plain: "plain_ascii 0x3D"
  by (simp add: plain_ascii_def isWhiteSpace_def)

lemma base64_encode_plain: "list_all plain_ascii (base64_encode bs)"
  by (induction bs rule: base64_encode.induct)
    (simp_all only: base64_encode.simps list.pred_inject list_all_append base64_char_plain
      sextets pad_plain simp_thms)

lemma isWellFormed_plain: "list_all plain_ascii s \<Longrightarrow> isWellFormed s"
proof (induction s rule: isWellFormed.induct)
  case 1
  then show ?case by simp
next
  case (2 c)
  then show ?case
    by (auto simp add: plain_ascii_def isHighSurrogate_def isLowSurrogate_def word_le_nat_alt
        word_less_nat_alt)
next
  case (3 c d r)
  then show ?case
    by (auto simp add: plain_ascii_def isHighSurrogate_def isLowSurrogate_def word_le_nat_alt
        word_less_nat_alt)
qed

lemma trim_plain: "list_all plain_ascii s \<Longrightarrow> trim s = s"
proof -
  assume a: "list_all plain_ascii s"
  then have "dropWhile isWhiteSpace s = s"
    by (cases s) (auto simp add: plain_ascii_def)
  moreover from a have "dropWhile isWhiteSpace (rev s) = rev s"
    by (cases "rev s") (auto simp add: plain_ascii_def list_all_iff dest: arg_cong [where f = set])
  ultimately show ?thesis by (simp add: trim_def)
qed

lemma not_json_plain:
  "list_all plain_ascii s \<Longrightarrow> \<not> startsWith s (js ''{'') \<and> \<not> startsWith s (js ''['')"
  by (cases s) (auto simp add: startsWith_def js_def plain_ascii_def)

lemma no_colon_plain: "list_all plain_ascii s \<Longrightarrow> 0x3A \<notin> set s"
  by (auto simp add: list_all_iff plain_ascii_def)

section \<open>The classifiers\<close>

lemma isEncrypted_iff: "isEncrypted s = (length (split 0x3A s) = 3)"
  by (simp add: isEncrypted_def Buffer_from_base64_def list_all_iff)

lemma isEncoded_eq:
  "isEncoded s =
     (if length (split 0x3A s) = 3 then True
      else if startsWith (trim s) (js ''{'') \<or> startsWith (trim s) (js ''['') then False
      else startsWith (trim (utf8_decode (base64_decode s))) (js ''{'')
           \<or> startsWith (trim (utf8_decode (base64_decode s))) (js ''[''))"
  by (simp add: isEncoded_def Buffer_from_base64_def Let_def)

lemma decodeChatData_eq: "decodeChatData s = Inr (utf8_decode (base64_decode s))"
  by (simp add: decodeChatData_def Buffer_from_base64_def)

lemma isEncoded_encodeChatData:
  assumes "isWellFormed s"
  shows "isEncoded (encodeChatData s)
         = (startsWith (trim s) (js ''{'') \<or> startsWith (trim s) (js ''[''))"
proof -
  let ?e = "base64_encode (utf8_encode s)"
  have p: "list_all plain_ascii ?e" by (rule base64_encode_plain)
  have "split 0x3A ?e = [?e]" by (rule split_no_sep) (rule no_colon_plain [OF p])
  moreover have "trim ?e = ?e" by (rule trim_plain [OF p])
  moreover note not_json_plain [OF p]
  moreover have "utf8_decode (base64_decode ?e) = s"
    by (simp add: base64_decode_encode utf8_roundtrip assms)
  ultimately show ?thesis by (simp add: isEncoded_eq encodeChatData_def)
qed

lemma decodeChatData_encodeChatData:
  "isWellFormed s \<Longrightarrow> decodeChatData (encodeChatData s) = Inr s"
  by (simp add: decodeChatData_eq encodeChatData_def base64_decode_encode utf8_roundtrip)

lemma json_example: \<open>js ''{"a":1}'' = [0x7B, 0x22, 0x61, 0x22, 0x3A, 0x31, 0x7D]\<close>
  by (simp add: js_def)

lemma json_example_wellFormed: \<open>isWellFormed (js ''{"a":1}'')\<close>
  unfolding json_example by (simp add: isHighSurrogate_def isLowSurrogate_def)

lemma json_example_plain: \<open>\<not> isEncoded (js ''{"a":1}'')\<close>
  unfolding json_example
  by (simp add: isEncoded_eq js_def startsWith_def trim_def isWhiteSpace_def)

lemma json_example_encoded: \<open>isEncoded (encodeChatData (js ''{"a":1}''))\<close>
proof -
  have "startsWith (trim [0x7B, 0x22, 0x61, 0x22, 0x3A, 0x31, 0x7D]) (js ''{'')"
    by (simp add: js_def startsWith_def trim_def isWhiteSpace_def)
  moreover have "isWellFormed [0x7B, 0x22, 0x61, 0x22, 0x3A, 0x31, 0x7D]"
    using json_example_wellFormed unfolding json_example .
  ultimately show ?thesis
    unfolding json_example by (simp add: isEncoded_encodeChatData)
qed

text \<open>
  Claim C4. \<open>isEncoded\<close> is true of a string with exactly three segments between colons,
  the strings \<open>isEncrypted\<close> is true of; otherwise false of a string whose trimmed content
  starts with \<open>{\<close> or \<open>[\<close>; otherwise true exactly when the trimmed text of its base64
  decoding starts with \<open>{\<close> or \<open>[\<close>. It is true of the base64 encoding of \<open>{"a":1}\<close> and
  false of \<open>{"a":1}\<close> itself.
\<close>

theorem C4_classification:
  \<open>isEncoded s =
     (if length (split 0x3A s) = 3 then True
      else if startsWith (trim s) (js ''{'') \<or> startsWith (trim s) (js ''['') then False
      else startsWith (trim (utf8_decode (base64_decode s))) (js ''{'')
           \<or> startsWith (trim (utf8_decode (base64_decode s))) (js ''[''))
   \<and> isEncrypted s = (length (split 0x3A s) = 3)
   \<and> isEncoded (encodeChatData (js ''{"a":1}''))
   \<and> \<not> isEncoded (js ''{"a":1}'')\<close>
  using isEncoded_eq [of s] isEncrypted_iff [of s] json_example_encoded json_example_plain
  by blast

text \<open>
  Claim C9. \<open>isEncrypted\<close> is true of a string exactly when splitting it at the colons
  gives three segments, that is when it has exactly two colons: the base64 check accepts
  every segment, since \<open>Buffer.from(part, 'base64')\<close> returns a buffer for every string.
\<close>

theorem C9_isEncrypted_three_segments:
  "isEncrypted s = (length (split 0x3A s) = 3)
   \<and> (length (split 0x3A s) = 3) = (count_list s 0x3A = 2)
   \<and> list_all (\<lambda>part. \<exists>buf. Buffer_from_base64 part = Inr buf) (split 0x3A s)"
  by (simp add: isEncrypted_iff length_split Buffer_from_base64_def list_all_iff)

section \<open>The frame of \<open>encryptChatData\<close>\<close>

lemma js_colon: "js '':'' = [0x3A]"
  by (simp add: js_def)

lemma encryptChatData_frame:
  "iv \<noteq> [] \<Longrightarrow> encryptChatData data projectRoot iv = Inr (frame data projectRoot iv)"
  by (simp add: encryptChatData_def frame_def createCipheriv_def length_deriveKey Let_def
      base64_write_end js_colon)

lemma split_frame:
  "split 0x3A (frame data projectRoot iv) =
     [base64_encode iv,
      base64_encode (gcm_tag (deriveKey projectRoot) iv
        (gcm_crypt (deriveKey projectRoot) iv (utf8_encode data))),
      base64_encode (gcm_crypt (deriveKey projectRoot) iv (utf8_encode data))]"
  by (simp add: frame_def Let_def split_append_sep split_no_sep base64_encode_no_colon)

lemma setAuthTag_16: "length t = 16 \<Longrightarrow> setAuthTag t = Inr ()"
  by (simp add: setAuthTag_def)

lemma decryptChatData_frame:
  assumes "iv \<noteq> []"
  shows "decryptChatData (frame data r1 iv) r2 =
     (let ct = gcm_crypt (deriveKey r1) iv (utf8_encode data) in
      if gcm_tag (deriveKey r2) iv ct = gcm_tag (deriveKey r1) iv ct
      then Inr (utf8_decode (gcm_crypt (deriveKey r2) iv ct))
      else Inl (Error (js ''Unsupported state or unable to authenticate data'')))"
  using assms
  by (simp add: decryptChatData_def split_frame base64_decode_encode createDecipheriv_def
      createCipheriv_def length_deriveKey setAuthTag_16 length_gcm_tag Let_def)

lemma decrypt_encrypt:
  assumes "isWellFormed s" "iv \<noteq> []"
  shows "decryptChatData (frame s r iv) r = Inr s"
  using assms by (simp add: decryptChatData_frame gcm_crypt_involution utf8_roundtrip)

lemma encryptChatData_io_eq:
  "encryptChatData_io s r w =
     (encryptChatData s r (map (entropy w) [n_random w..<n_random w + IV_LENGTH]),
      w\<lparr>n_random := n_random w + IV_LENGTH\<rparr>)"
  by (simp add: encryptChatData_io_def bindIO_def randomBytes_def liftIO_def)

text \<open>
  Claim C1. For every well-formed string \<open>s\<close> (the strings UTF-8 carries), every project
  root \<open>r\<close> and every initialization vector \<open>randomBytes(IV_LENGTH)\<close> can return,
  \<open>encryptChatData(s, r)\<close> returns a string that \<open>decryptChatData(_, r)\<close> decrypts to \<open>s\<close>. The
  key is \<open>deriveKey r\<close>, a function of the root alone: encrypting takes sixteen random bytes
  from the world and leaves everything else of it, the files included, as it was.
\<close>

theorem C1_decrypt_encrypt_roundtrip:
  assumes "isWellFormed s" and "length iv = IV_LENGTH"
  shows "(\<exists>e. encryptChatData s r iv = Inr e \<and> decryptChatData e r = Inr s)
         \<and> snd (encryptChatData_io s r w) = w\<lparr>n_random := n_random w + IV_LENGTH\<rparr>
         \<and> fst (encryptChatData_io s r w)
             = encryptChatData s r (map (entropy w) [n_random w..<n_random w + IV_LENGTH])"
proof -
  from assms(2) have iv: "iv \<noteq> []" by (auto simp add: IV_LENGTH_def)
  from encryptChatData_frame [OF iv] decrypt_encrypt [OF assms(1) iv]
  show ?thesis by (simp add: encryptChatData_io_eq)
qed

lemma wellFormed_hi: "isWellFormed (js ''hi'')"
  by (simp add: js_def isHighSurrogate_def isLowSurrogate_def)

theorem C1_witness:
  "isWellFormed (js ''hi'') \<and> length (replicate 16 (0::byte)) = IV_LENGTH
   \<and> (\<exists>e. encryptChatData (js ''hi'') (js ''/p'') (replicate 16 0) = Inr e
          \<and> decryptChatData e (js ''/p'') = Inr (js ''hi''))"
proof -
  have l: "length (replicate 16 (0::byte)) = IV_LENGTH" by (simp add: IV_LENGTH_def)
  from C1_decrypt_encrypt_roundtrip [OF wellFormed_hi l] wellFormed_hi l show ?thesis by blast
qed

section \<open>Keys of distinct roots\<close>








chapter \<open>The store\<close>

section \<open>Traces\<close>

lemma quiet_event_not_write:
  "quiet_event e \<Longrightarrow> \<not> isThreadWrite e \<and> \<not> isIndexWrite e \<and> \<not> isThreadUnlink e"
  by (cases e rule: isThreadWrite.cases; cases e rule: isIndexWrite.cases;
      cases e rule: isThreadUnlink.cases) auto

lemma yieldsD:
  "yields P m \<Longrightarrow>
   trace (snd (m w)) = trace w @ new_events m w \<and> P (fst (m w)) (new_events m w)"
  unfolding yields_def new_events_def
  by (metis append_eq_conv_conj)

lemma yieldsI:
  "(\<And>w. \<exists>es. trace (snd (m w)) = trace w @ es \<and> P (fst (m w)) es) \<Longrightarrow> yields P m"
  by (simp add: yields_def)

lemma quiet_returnIO: "quiet (returnIO x)"
  by (simp add: yields_def returnIO_def)

lemma quiet_throwIO: "quiet (throwIO e)"
  by (simp add: yields_def throwIO_def)

lemma quiet_liftIO: "quiet (liftIO r)"
  by (simp add: yields_def liftIO_def)

lemma quiet_bindIO:
  assumes "quiet m" and "\<And>x. quiet (f x)"
  shows "quiet (bindIO m f)"
proof (rule yieldsI)
  fix w
  obtain r w' where mw: "m w = (r, w')" by (cases "m w")
  from yieldsD [OF assms(1), of w] mw
  have 1: "trace w' = trace w @ new_events m w" "list_all quiet_event (new_events m w)" by simp_all
  show "\<exists>es. trace (snd (bindIO m f w)) = trace w @ es \<and> list_all quiet_event es"
  proof (cases r)
    case (Inl e)
    with mw 1 show ?thesis by (simp add: bindIO_def)
  next
    case (Inr x)
    from yieldsD [OF assms(2), of x w']
    have "trace (snd (f x w')) = trace w' @ new_events (f x) w'"
      "list_all quiet_event (new_events (f x) w')" by simp_all
    with Inr mw 1 show ?thesis by (simp add: bindIO_def)
  qed
qed

lemma quiet_tryCatch:
  assumes "quiet m" and "\<And>e. quiet (h e)"
  shows "quiet (tryCatch m h)"
proof (rule yieldsI)
  fix w
  obtain r w' where mw: "m w = (r, w')" by (cases "m w")
  from yieldsD [OF assms(1), of w] mw
  have 1: "trace w' = trace w @ new_events m w" "list_all quiet_event (new_events m w)" by simp_all
  show "\<exists>es. trace (snd (tryCatch m h w)) = trace w @ es \<and> list_all quiet_event es"
  proof (cases r)
    case (Inr x)
    with mw 1 show ?thesis by (simp add: tryCatch_def)
  next
    case (Inl e)
    from yieldsD [OF assms(2), of e w']
    have "trace (snd (h e w')) = trace w' @ new_events (h e) w'"
      "list_all quiet_event (new_events (h e) w')" by simp_all
    with Inl mw 1 show ?thesis by (simp add: tryCatch_def)
  qed
qed

lemma quiet_logger: "quiet (logger l msg)"
  by (simp add: yields_def logger_def)

lemma quiet_randomBytes: "quiet (randomBytes n)"
  by (simp add: yields_def randomBytes_def)

lemma quiet_randomUUID: "quiet randomUUID"
  by (simp add: yields_def randomUUID_def)

lemma quiet_nowISOString: "quiet nowISOString"
  by (simp add: yields_def nowISOString_def)

lemma quiet_readFile: "quiet_site at \<Longrightarrow> quiet (readFile at p)"
  by (auto simp add: yields_def readFile_def traced_def quiet_site_def
      split: option.splits sum.splits node.splits)

lemma quiet_unlink: "quiet_site at \<Longrightarrow> quiet (unlink at p)"
  by (auto simp add: yields_def unlink_def traced_def quiet_site_def
      split: option.splits sum.splits node.splits)

lemma quiet_mkdir: "quiet_site at \<Longrightarrow> quiet (mkdir at p)"
  by (auto simp add: yields_def mkdir_def traced_def quiet_site_def
      split: option.splits sum.splits node.splits)

lemma quiet_writeFile: "quiet_site at \<Longrightarrow> quiet (writeFile at p d)"
  by (auto simp add: yields_def writeFile_def traced_def quiet_site_def
      split: option.splits sum.splits node.splits)

lemma quiet_sites:
  "quiet_site InEnsureChatHistoryDir" "quiet_site InReadThreadsIndex" "quiet_site InReadThreadFile"
  by (simp_all add: quiet_site_def)

lemmas quiet_intros =
  quiet_returnIO quiet_throwIO quiet_liftIO quiet_bindIO quiet_tryCatch quiet_logger
  quiet_randomBytes quiet_randomUUID quiet_nowISOString quiet_readFile quiet_unlink quiet_mkdir
  quiet_writeFile quiet_sites

lemma quiet_encryptChatData_io: "quiet (encryptChatData_io d r)"
  unfolding encryptChatData_io_def by (intro quiet_intros)

lemma quiet_JSON_parse: "quiet (JSON_parse p t)"
  unfolding JSON_parse_def by (intro quiet_intros)

lemma quiet_threads_for: "quiet (threads_for rt name i)"
  unfolding threads_for_def by (auto intro!: quiet_intros split: parsed.splits)

lemma quiet_messages_for: "quiet (messages_for rt name t)"
  unfolding messages_for_def by (auto intro!: quiet_intros split: parsed.splits option.splits)

lemma quiet_assignable: "quiet (assignable rt name t)"
  unfolding assignable_def by (auto intro!: quiet_intros split: parsed.splits)

lemma yields_case_prod: "(\<And>a b. yields P (g a b)) \<Longrightarrow> yields P (case x of (a, b) \<Rightarrow> g a b)"
  by (cases x) simp

lemma quiet_resolveProjectRoot: "quiet (resolveProjectRoot rt r)"
  unfolding resolveProjectRoot_def by (auto intro!: quiet_intros split: option.splits)

lemma quiet_ensureChatHistoryDir: "quiet (ensureChatHistoryDir st r)"
  unfolding ensureChatHistoryDir_def Let_def by (intro quiet_intros)

lemma quiet_readThreadsIndex: "quiet (readThreadsIndex st rt r)"
  by (cases st)
    (auto simp add: Let_def intro!: quiet_intros quiet_encryptChatData_io quiet_JSON_parse
      split: sum.splits)

lemma quiet_readThreadFile: "quiet (readThreadFile st rt r t)"
  by (cases st)
    (auto simp add: Let_def intro!: quiet_intros quiet_encryptChatData_io quiet_JSON_parse
      split: sum.splits)

section \<open>The order of the two writes\<close>

lemma thread_before_index_quiet:
  "list_all quiet_event qs \<Longrightarrow> thread_before_index (qs @ es) = thread_before_index es"
  by (induction qs) (auto dest: quiet_event_not_write)

lemma both_written_quiet:
  "list_all quiet_event qs \<Longrightarrow> both_written (qs @ es) = both_written es"
  by (induction qs) (auto simp add: both_written_def dest: quiet_event_not_write)

lemma ordered_quiet: "list_all quiet_event qs \<Longrightarrow> ordered r (qs @ es) = ordered r es"
  by (simp add: ordered_def thread_before_index_quiet both_written_quiet)

text \<open>A property that quiet events in front do not change holds after a quiet computation.\<close>

lemma after_quiet:
  assumes "quiet m" and "\<And>x. yields P (f x)"
    and fail: "\<And>qs e. list_all quiet_event qs \<Longrightarrow> P (Inl e) qs"
    and pre: "\<And>qs r es. list_all quiet_event qs \<Longrightarrow> P r es \<Longrightarrow> P r (qs @ es)"
  shows "yields P (bindIO m f)"
proof (rule yieldsI)
  fix w
  obtain r w' where mw: "m w = (r, w')" by (cases "m w")
  from yieldsD [OF assms(1), of w] mw
  have 1: "trace w' = trace w @ new_events m w" "list_all quiet_event (new_events m w)" by simp_all
  show "\<exists>es. trace (snd (bindIO m f w)) = trace w @ es \<and> P (fst (bindIO m f w)) es"
  proof (cases r)
    case (Inl e)
    with mw 1 fail [OF 1(2), of e] show ?thesis by (auto simp add: bindIO_def)
  next
    case (Inr x)
    from yieldsD [OF assms(2), of x w']
    have 2: "trace (snd (f x w')) = trace w' @ new_events (f x) w'"
      "P (fst (f x w')) (new_events (f x) w')" by simp_all
    with Inr mw 1 pre [OF 1(2) 2(2)] show ?thesis by (auto simp add: bindIO_def)
  qed
qed

lemma ordered_after_quiet:
  assumes "quiet m" and "\<And>x. yields ordered (f x)"
  shows "yields ordered (bindIO m f)"
proof (rule after_quiet [OF assms])
  fix qs :: "event list" and e
  assume "list_all quiet_event qs"
  from ordered_quiet [OF this, of "Inl e" "[]"] show "ordered (Inl e) qs"
    by (simp add: ordered_def)
next
  fix qs es :: "event list" and r :: "exn + 'b"
  assume "list_all quiet_event qs" "ordered r es"
  then show "ordered r (qs @ es)" by (simp add: ordered_quiet)
qed

lemma yields_writeThreadFile: "yields thread_written (writeThreadFile st rt r t)"
proof (rule yieldsI)
  fix w
  show "\<exists>es. trace (snd (writeThreadFile st rt r t w)) = trace w @ es
          \<and> thread_written (fst (writeThreadFile st rt r t w)) es"
    by (cases st)
      (auto simp add: Let_def tryCatch_def bindIO_def logger_def throwIO_def thread_written_def
        encryptChatData_io_def randomBytes_def liftIO_def writeFile_def traced_def
        split: prod.splits sum.splits option.splits)
qed

lemma yields_writeThreadsIndex: "yields index_written (writeThreadsIndex st rt r i)"
proof (rule yieldsI)
  fix w
  show "\<exists>es. trace (snd (writeThreadsIndex st rt r i w)) = trace w @ es
          \<and> index_written (fst (writeThreadsIndex st rt r i w)) es"
    by (cases st)
      (auto simp add: Let_def tryCatch_def bindIO_def logger_def throwIO_def index_written_def
        encryptChatData_io_def randomBytes_def liftIO_def writeFile_def traced_def
        split: prod.splits sum.splits option.splits)
qed

lemma index_written_return:
  assumes "yields index_written m"
  shows "yields index_written (bindIO m (\<lambda>u. returnIO x))"
proof (rule yieldsI)
  fix w
  from yieldsD [OF assms, of w]
  show "\<exists>es. trace (snd (bindIO m (\<lambda>u. returnIO x) w)) = trace w @ es
          \<and> index_written (fst (bindIO m (\<lambda>u. returnIO x) w)) es"
    by (cases "m w") (auto simp add: bindIO_def returnIO_def index_written_def split: sum.splits)
qed

lemma ordered_writes:
  assumes "yields thread_written m" and "\<And>x. yields index_written (f x)"
  shows "yields ordered (bindIO m f)"
proof (rule yieldsI)
  fix w
  obtain r w' where mw: "m w = (r, w')" by (cases "m w")
  from yieldsD [OF assms(1), of w] mw
  have 1: "trace w' = trace w @ new_events m w" "thread_written r (new_events m w)" by simp_all
  show "\<exists>es. trace (snd (bindIO m f w)) = trace w @ es \<and> ordered (fst (bindIO m f w)) es"
  proof (cases r)
    case (Inl e)
    from 1(2) have "thread_before_index (new_events m w)"
      unfolding thread_written_def
      using thread_before_index_quiet [of "new_events m w" "[]"] by auto
    with Inl mw 1 show ?thesis by (auto simp add: bindIO_def ordered_def)
  next
    case (Inr x)
    with 1(2) obtain e rest where es: "new_events m w = e # rest" "isThreadWrite e"
      by (auto simp add: thread_written_def)
    from yieldsD [OF assms(2), of x w']
    have 2: "trace (snd (f x w')) = trace w' @ new_events (f x) w'"
      "index_written (fst (f x w')) (new_events (f x) w')" by simp_all
    have "ordered (fst (f x w')) ((e # rest) @ new_events (f x) w')"
      using es(2) 2(2) by (auto simp add: ordered_def both_written_def index_written_def)
    with Inr mw 1 2 es show ?thesis by (auto simp add: bindIO_def)
  qed
qed

lemmas ordered_intros =
  ordered_after_quiet [OF quiet_resolveProjectRoot]
  ordered_after_quiet [OF quiet_readThreadFile]
  ordered_after_quiet [OF quiet_readThreadsIndex]
  ordered_after_quiet [OF quiet_nowISOString]
  ordered_after_quiet [OF quiet_randomUUID]
  ordered_after_quiet [OF quiet_ensureChatHistoryDir]
  ordered_after_quiet [OF quiet_threads_for]
  ordered_after_quiet [OF quiet_messages_for]
  ordered_after_quiet [OF quiet_assignable]
  yields_case_prod

lemma ordered_appendMessage: "yields ordered (appendMessage st rt root threadId msg)"
  unfolding appendMessage_def Let_def
  by (intro ordered_intros ordered_writes yields_writeThreadFile index_written_return
      yields_writeThreadsIndex)

lemma ordered_renameThread: "yields ordered (renameThread st rt root threadId title)"
  unfolding renameThread_def Let_def
  by (intro ordered_intros ordered_writes yields_writeThreadFile yields_writeThreadsIndex)

lemma ordered_archiveThread: "yields ordered (archiveThread st rt root threadId)"
  unfolding archiveThread_def Let_def
  by (intro ordered_intros ordered_writes yields_writeThreadFile yields_writeThreadsIndex)

lemma ordered_clearMessages: "yields ordered (clearMessages rt root threadId)"
  unfolding clearMessages_def Let_def
  by (intro ordered_intros ordered_writes yields_writeThreadFile index_written_return
      yields_writeThreadsIndex)

lemma index_written_after_quiet:
  assumes "quiet m" and "\<And>x. yields index_written (f x)"
  shows "yields index_written (bindIO m f)"
  by (rule after_quiet [OF assms]) (auto simp add: index_written_def)

lemma ordered_createThread: "yields ordered (createThread st rt root initialMessage)"
  unfolding createThread_def Let_def
  by (intro ordered_intros ordered_writes yields_writeThreadFile index_written_return
      yields_writeThreadsIndex index_written_after_quiet [OF quiet_readThreadsIndex]
      index_written_after_quiet [OF quiet_threads_for])

lemma index_then_unlink_quiet:
  "list_all quiet_event qs \<Longrightarrow> index_then_unlink r (qs @ es) = index_then_unlink r es"
  by (induction qs) (auto simp add: index_then_unlink_def dest: quiet_event_not_write)

lemma index_then_unlink_after_quiet:
  assumes "quiet m" and "\<And>x. yields index_then_unlink (f x)"
  shows "yields index_then_unlink (bindIO m f)"
proof (rule after_quiet [OF assms])
  fix qs :: "event list" and e
  assume "list_all quiet_event qs"
  from index_then_unlink_quiet [OF this, of "Inl e" "[]"] show "index_then_unlink (Inl e) qs"
    by (simp add: index_then_unlink_def)
next
  fix qs es :: "event list" and r :: "exn + 'b"
  assume "list_all quiet_event qs" "index_then_unlink r es"
  then show "index_then_unlink r (qs @ es)" by (simp add: index_then_unlink_quiet)
qed

lemma deleteThread_tail:
  "yields index_then_unlink
     (bindIO (writeThreadsIndex st rt r i) (\<lambda>u.
        tryCatch (unlink InDeleteThread p)
          (\<lambda>error. if \<not> isENOENT error then logger LogWarn msg else returnIO ())))"
proof (rule yieldsI)
  fix w
  show "\<exists>es. trace (snd (bindIO (writeThreadsIndex st rt r i) (\<lambda>u.
        tryCatch (unlink InDeleteThread p)
          (\<lambda>error. if \<not> isENOENT error then logger LogWarn msg else returnIO ())) w))
        = trace w @ es
     \<and> index_then_unlink (fst (bindIO (writeThreadsIndex st rt r i) (\<lambda>u.
        tryCatch (unlink InDeleteThread p)
          (\<lambda>error. if \<not> isENOENT error then logger LogWarn msg else returnIO ())) w)) es"
    by (cases st)
      (auto simp add: Let_def tryCatch_def bindIO_def logger_def throwIO_def returnIO_def
        index_then_unlink_def encryptChatData_io_def randomBytes_def liftIO_def writeFile_def
        unlink_def traced_def fs_error_def
        split: prod.splits sum.splits option.splits)
qed

lemma index_then_unlink_deleteThread:
  "yields index_then_unlink (deleteThread st rt root threadId)"
  unfolding deleteThread_def Let_def
  by (intro index_then_unlink_after_quiet [OF quiet_resolveProjectRoot]
      index_then_unlink_after_quiet [OF quiet_readThreadsIndex]
      index_then_unlink_after_quiet [OF quiet_threads_for] deleteThread_tail)

section \<open>Titles\<close>






section \<open>Runs of the store\<close>

declare CHAT_DIR_NAME.simps [simp del]

lemmas io_defs =
  returnIO_def throwIO_def bindIO_def tryCatch_def liftIO_def logger_def readFile_def
  writeFile_def unlink_def mkdir_def refused_def traced_def randomBytes_def randomUUID_def
  nowISOString_def JSON_parse_def threads_for_def messages_for_def assignable_def

lemma resolveProjectRoot_Some:
  "root \<noteq> [] \<Longrightarrow> resolveProjectRoot rt (Some root) = returnIO (path_resolve rt root)"
  by (simp add: resolveProjectRoot_def)

lemma bindIO_returnIO: "bindIO (returnIO x) f = f x"
  by (rule ext) (simp add: bindIO_def returnIO_def)

lemma demo_root: "js ''/p'' \<noteq> []" "path_resolve demo_runtime r = r"
  by (simp_all add: js_def demo_runtime_def)

text \<open>The paths of the project \<open>/p\<close>, segment by segment.\<close>

lemma demo_dir:
  "getChatHistoryDir st (js ''/p'') = js ''/p/'' @ CHAT_DIR_NAME st @ js ''/chat''"
  by (cases st)
    (simp_all add: getChatHistoryDir_def path_join_def normalize_def CHAT_HISTORY_DIR_def js_def
      CHAT_DIR_NAME.simps)

lemma demo_index_path:
  "getThreadsIndexPath st (js ''/p'') = js ''/p/'' @ CHAT_DIR_NAME st @ js ''/chat/threads.json''"
  unfolding getThreadsIndexPath_def demo_dir
  by (cases st)
    (simp_all add: path_join_def normalize_def THREADS_INDEX_FILE_def js_def CHAT_DIR_NAME.simps)

lemma demo_thread_path:
  "getThreadFilePath st (js ''/p'') (js ''t1'')
     = js ''/p/'' @ CHAT_DIR_NAME st @ js ''/chat/thread-t1.json''"
  unfolding getThreadFilePath_def demo_dir
  by (cases st)
    (simp_all add: path_join_def normalize_def THREAD_FILE_PREFIX_def js_def CHAT_DIR_NAME.simps)

lemma demo_components:
  "components (getChatHistoryDir st (js ''/p'')) = [js ''p'', CHAT_DIR_NAME st, CHAT_HISTORY_DIR]"
  "components (getThreadsIndexPath st (js ''/p''))
     = [js ''p'', CHAT_DIR_NAME st, CHAT_HISTORY_DIR, index_name]"
  "components (getThreadFilePath st (js ''/p'') (js ''t1''))
     = [js ''p'', CHAT_DIR_NAME st, CHAT_HISTORY_DIR, thread_name]"
  unfolding demo_dir demo_index_path demo_thread_path
  by (cases st; simp add: components_def CHAT_HISTORY_DIR_def index_name_def thread_name_def
      THREADS_INDEX_FILE_def THREAD_FILE_PREFIX_def js_def CHAT_DIR_NAME.simps)+

lemma demo_no_NUL:
  "0 \<notin> set (getChatHistoryDir st (js ''/p''))"
  "0 \<notin> set (getThreadsIndexPath st (js ''/p''))"
  "0 \<notin> set (getThreadFilePath st (js ''/p'') (js ''t1''))"
  unfolding demo_dir demo_index_path demo_thread_path
  by (cases st; simp add: js_def CHAT_DIR_NAME.simps)+

lemma demo_names: "index_name \<noteq> thread_name" "thread_name \<noteq> index_name"
  by (simp_all add: index_name_def thread_name_def THREADS_INDEX_FILE_def THREAD_FILE_PREFIX_def
      js_def)

text \<open>The tree of the project under the calls of the store.\<close>

lemma lookup_project:
  "lookup (project st chat) [js ''p'', CHAT_DIR_NAME st, CHAT_HISTORY_DIR, name]
     = (case chat name of None \<Rightarrow> Inl (js ''ENOENT'') | Some m \<Rightarrow> Inr m)"
  by (simp add: project_def split: option.splits)

lemma store_file_project:
  "store_file (project st chat) [js ''p'', CHAT_DIR_NAME st, CHAT_HISTORY_DIR, name] bs
     = (case chat name of
          Some (Dir sub) \<Rightarrow> Inl (js ''EISDIR'')
        | Some (File old) \<Rightarrow> Inr (project st (chat(name \<mapsto> File bs)))
        | None \<Rightarrow> Inr (project st (chat(name \<mapsto> File bs))))"
  by (simp add: project_def split: option.splits node.splits)

lemma remove_file_project:
  "remove_file (project st chat) [js ''p'', CHAT_DIR_NAME st, CHAT_HISTORY_DIR, name]
     = (case chat name of
          None \<Rightarrow> Inl (js ''ENOENT'')
        | Some (Dir sub) \<Rightarrow> Inl (js ''EISDIR'')
        | Some (File old) \<Rightarrow> Inr (project st (chat(name := None))))"
  by (simp add: project_def split: option.splits node.splits)

lemma make_dirs_project:
  "make_dirs (project st chat) [js ''p'', CHAT_DIR_NAME st, CHAT_HISTORY_DIR] = Inr (project st chat)"
  "make_dirs new_project [js ''p'', CHAT_DIR_NAME st, CHAT_HISTORY_DIR] = Inr (project st Map.empty)"
  by (simp_all add: project_def new_project_def)

declare lookup.simps [simp del] store_file.simps [simp del] remove_file.simps [simp del]
  make_dirs.simps [simp del]

lemma isENOENT_fs_error: "isENOENT (fs_error code syscall path) = (code = js ''ENOENT'')"
  by (simp add: fs_error_def)

lemmas demo_fs =
  demo_components demo_no_NUL demo_names lookup_project store_file_project remove_file_project
  make_dirs_project isENOENT_fs_error






section \<open>Files after a call\<close>

lemma lookup_store_file:
  "store_file n p bs = Inr n' \<Longrightarrow> lookup n' p = Inr (File bs)"
proof (induction n p bs arbitrary: n' rule: store_file.induct)
  case (1 n bs)
  then show ?case by (simp add: store_file.simps)
next
  case (2 n c cs bs)
  then show ?case
    by (auto simp add: store_file.simps lookup.simps split: node.splits option.splits sum.splits
        if_splits)
qed

lemma lookup_remove_file:
  "remove_file n p = Inr n' \<Longrightarrow> lookup n' p = Inl (js ''ENOENT'')"
proof (induction n p arbitrary: n' rule: remove_file.induct)
  case (1 n)
  then show ?case by (simp add: remove_file.simps)
next
  case (2 n c cs)
  then show ?case
    by (auto simp add: remove_file.simps lookup.simps split: node.splits option.splits sum.splits
        if_splits)
qed

lemma file_at_traced [simp]: "file_at (traced at c w) p = file_at w p"
  by (simp add: file_at_def traced_def)

lemma writeFile_file_at:
  assumes "writeFile at p d w = (Inr u, w')"
  shows "file_at w' p = Some (utf8_encode d)"
  using assms
  by (auto simp add: writeFile_def file_at_def traced_def lookup_store_file
      split: option.splits sum.splits)

lemma writeFile_failed:
  assumes "writeFile at p d w = (Inl e, w')"
  shows "tree w' = tree w"
  using assms by (auto simp add: writeFile_def traced_def split: option.splits sum.splits)

lemma unlink_file_at:
  assumes "unlink at p w = (Inr u, w')"
  shows "file_at w' p = None" and "lookup (tree w') (components p) = Inl (js ''ENOENT'')"
  using assms
  by (auto simp add: unlink_def file_at_def traced_def lookup_remove_file
      split: option.splits sum.splits)

lemma readFile_file_at:
  assumes "readFile at p w = (Inr content, w')"
  shows "\<exists>bs. file_at w p = Some bs \<and> content = utf8_decode bs" and "w' = traced at (ReadFile p) w"
  using assms
  by (auto simp add: readFile_def file_at_def split: option.splits sum.splits node.splits)

section \<open>What the encrypting store writes\<close>

lemma drawn_iv_not_Nil: "drawn_iv w \<noteq> []"
  by (simp add: drawn_iv_def IV_LENGTH_def)

lemma encryptChatData_io_frame:
  "encryptChatData_io s r w = (Inr (frame s r (drawn_iv w)), w\<lparr>n_random := n_random w + IV_LENGTH\<rparr>)"
  using encryptChatData_frame [OF drawn_iv_not_Nil, of s r w]
  by (simp add: encryptChatData_io_eq drawn_iv_def)

lemma isEncrypted_frame: "isEncrypted (frame s r iv)"
  by (simp add: isEncrypted_iff split_frame)

lemma isWellFormed_colon: "isWellFormed s \<Longrightarrow> isWellFormed (0x3A # s)"
  by (cases s) (simp_all add: isHighSurrogate_def isLowSurrogate_def)

lemma isWellFormed_plain_append:
  "list_all plain_ascii s \<Longrightarrow> isWellFormed t \<Longrightarrow> isWellFormed (s @ t)"
proof (induction s)
  case Nil
  then show ?case by simp
next
  case (Cons c s)
  then have "isWellFormed (s @ t)" by simp
  moreover from Cons.prems have "\<not> isHighSurrogate c" "\<not> isLowSurrogate c"
    by (auto simp add: plain_ascii_def isHighSurrogate_def isLowSurrogate_def word_le_nat_alt
        word_less_nat_alt)
  ultimately show ?case by (cases "s @ t") simp_all
qed

lemma isWellFormed_frame: "isWellFormed (frame s r iv)"
  by (simp add: frame_def Let_def isWellFormed_plain_append isWellFormed_colon
      base64_encode_plain isWellFormed_plain)

lemma read_back_frame: "utf8_decode (utf8_encode (frame s r iv)) = frame s r iv"
  by (rule utf8_roundtrip) (rule isWellFormed_frame)

lemma writeThreadsIndex_Encrypted:
  "writeThreadsIndex EncryptedStore rt r index w =
     (let indexPath = getThreadsIndexPath EncryptedStore r in
      case writeFile InWriteThreadsIndex indexPath
             (frame (stringify_index rt index) r (drawn_iv w))
             (w\<lparr>n_random := n_random w + IV_LENGTH\<rparr>) of
        (Inr u, w') \<Rightarrow> (Inr (), w')
      | (Inl e, w') \<Rightarrow>
          (Inl (WriteFailed (js ''Failed to write threads index: '' @ message e) indexPath),
           w'\<lparr>trace := trace w' @ [Log LogError (js ''Failed to write threads index: '' @ indexPath)]\<rparr>))"
  by (simp add: Let_def tryCatch_def bindIO_def encryptChatData_io_frame logger_def throwIO_def
      split: prod.splits sum.splits)

lemma writeThreadFile_Encrypted:
  "writeThreadFile EncryptedStore rt r thread w =
     (let threadPath = getThreadFilePath EncryptedStore r (thr_id thread) in
      case writeFile InWriteThreadFile threadPath
             (frame (stringify_thread rt thread) r (drawn_iv w))
             (w\<lparr>n_random := n_random w + IV_LENGTH\<rparr>) of
        (Inr u, w') \<Rightarrow> (Inr (), w')
      | (Inl e, w') \<Rightarrow>
          (Inl (WriteFailed (js ''Failed to write thread: '' @ message e) threadPath),
           w'\<lparr>trace := trace w' @ [Log LogError (js ''Failed to write thread file: '' @ threadPath)]\<rparr>))"
  by (simp add: Let_def tryCatch_def bindIO_def encryptChatData_io_frame logger_def throwIO_def
      split: prod.splits sum.splits)

lemma written_index_encrypted:
  assumes "writeThreadsIndex EncryptedStore rt r index w = (Inr u, w')"
  shows "\<exists>bs. file_at w' (getThreadsIndexPath EncryptedStore r) = Some bs
              \<and> isEncrypted (utf8_decode bs)"
  using assms unfolding writeThreadsIndex_Encrypted
  by (auto simp add: Let_def read_back_frame isEncrypted_frame dest!: writeFile_file_at
      split: prod.splits sum.splits)

lemma written_thread_encrypted:
  assumes "writeThreadFile EncryptedStore rt r thread w = (Inr u, w')"
  shows "\<exists>bs. file_at w' (getThreadFilePath EncryptedStore r (thr_id thread)) = Some bs
              \<and> isEncrypted (utf8_decode bs)"
  using assms unfolding writeThreadFile_Encrypted
  by (auto simp add: Let_def read_back_frame isEncrypted_frame dest!: writeFile_file_at
      split: prod.splits sum.splits)

lemma encrypt_output_segments:
  "\<exists>e. fst (encryptChatData_io s r w) = Inr e \<and> isEncrypted e
       \<and> length (split 0x3A e) = 3
       \<and> list_all (\<lambda>part. 0x3A \<notin> set part \<and> (\<exists>bs. part = base64_encode bs)) (split 0x3A e)"
  by (auto simp add: encryptChatData_io_frame isEncrypted_frame split_frame
      base64_encode_no_colon)

text \<open>
  Claim C10. \<open>encryptChatData(s, r)\<close> returns, for every plaintext, root and state of the
  random source, a string \<open>isEncrypted\<close> is true of: it splits at the colons into exactly
  three segments, each the base64 text of a buffer and free of colons. So the file that a
  successful \<open>writeThreadsIndex\<close> or \<open>writeThreadFile\<close> of the encrypting class leaves behind
  holds a string \<open>isEncrypted\<close> is true of.
\<close>

theorem C10_isEncrypted_encryptChatData:
  "(\<exists>e. fst (encryptChatData_io s r w) = Inr e \<and> isEncrypted e
        \<and> length (split 0x3A e) = 3
        \<and> list_all (\<lambda>part. 0x3A \<notin> set part \<and> (\<exists>bs. part = base64_encode bs))
             (split 0x3A e))
   \<and> (\<forall>w'. writeThreadsIndex EncryptedStore rt r index w = (Inr (), w') \<longrightarrow>
         (\<exists>bs. file_at w' (getThreadsIndexPath EncryptedStore r) = Some bs
               \<and> isEncrypted (utf8_decode bs)))
   \<and> (\<forall>w'. writeThreadFile EncryptedStore rt r thread w = (Inr (), w') \<longrightarrow>
         (\<exists>bs. file_at w' (getThreadFilePath EncryptedStore r (thr_id thread)) = Some bs
               \<and> isEncrypted (utf8_decode bs)))"
  using encrypt_output_segments [of s r w] written_index_encrypted [of rt r index w]
    written_thread_encrypted [of rt r thread w]
  by blast

lemma demo_thread_id: "thr_id demo_thread = js ''t1''"
  by (simp add: demo_thread_def)

theorem C10_witness:
  "\<exists>w' w''.
     writeThreadsIndex EncryptedStore demo_runtime (js ''/p'') emptyIndex
         (demo_world (project EncryptedStore Map.empty))
       = (Inr (), w')
     \<and> (\<exists>bs. file_at w' (getThreadsIndexPath EncryptedStore (js ''/p'')) = Some bs
            \<and> isEncrypted (utf8_decode bs))
     \<and> writeThreadFile EncryptedStore demo_runtime (js ''/p'') demo_thread
         (demo_world (project EncryptedStore Map.empty))
       = (Inr (), w'')
     \<and> (\<exists>bs. file_at w'' (getThreadFilePath EncryptedStore (js ''/p'') (thr_id demo_thread)) = Some bs
            \<and> isEncrypted (utf8_decode bs))"
proof -
  obtain w' where 1: "writeThreadsIndex EncryptedStore demo_runtime (js ''/p'') emptyIndex
      (demo_world (project EncryptedStore Map.empty)) = (Inr (), w')"
    unfolding writeThreadsIndex_Encrypted
    by (simp add: Let_def demo_world_def writeFile_def refused_def demo_fs)
  obtain w'' where 2: "writeThreadFile EncryptedStore demo_runtime (js ''/p'') demo_thread
      (demo_world (project EncryptedStore Map.empty)) = (Inr (), w'')"
    unfolding writeThreadFile_Encrypted demo_thread_id
    by (simp add: Let_def demo_world_def writeFile_def refused_def demo_fs)
  from 1 2 C10_isEncrypted_encryptChatData [of "js ''x''" "js ''/p''"
      "demo_world (project EncryptedStore Map.empty)" demo_runtime emptyIndex demo_thread]
  show ?thesis by blast
qed

section \<open>The operations on the demo project\<close>

lemma read_back_encoded: "utf8_decode (utf8_encode (encodeChatData s)) = encodeChatData s"
  unfolding encodeChatData_def
  by (rule utf8_roundtrip) (rule isWellFormed_plain [OF base64_encode_plain])

lemma demo_texts_wellFormed: "isWellFormed demo_index_text" "isWellFormed demo_thread_text"
  by (simp_all add: demo_index_text_def demo_thread_text_def js_def isHighSurrogate_def
      isLowSurrogate_def)

lemma demo_texts_json:
  "startsWith (trim demo_index_text) (js ''{'')" "startsWith (trim demo_thread_text) (js ''{'')"
  by (simp_all add: demo_index_text_def demo_thread_text_def js_def startsWith_def trim_def
      isWhiteSpace_def)

lemma demo_texts_encoded:
  "isEncoded (encodeChatData demo_index_text)" "isEncoded (encodeChatData demo_thread_text)"
  "decodeChatData (encodeChatData demo_index_text) = Inr demo_index_text"
  "decodeChatData (encodeChatData demo_thread_text) = Inr demo_thread_text"
  by (simp_all add: isEncoded_encodeChatData decodeChatData_encodeChatData demo_texts_wellFormed
      demo_texts_json)

lemma demo_parse:
  "parse_index demo_runtime demo_index_text = Inr (Shaped emptyIndex)"
  "parse_thread demo_runtime demo_thread_text = Inr (Shaped demo_thread)"
  "stringify_index demo_runtime i = demo_index_text"
  "stringify_thread demo_runtime t = demo_thread_text"
  by (simp_all add: demo_runtime_def)

lemmas demo_simps =
  demo_fs demo_files_def read_back_encoded demo_texts_encoded demo_parse demo_thread_def
  thread_name_def [symmetric]

lemma run_deleteThread_demo:
  "fst (deleteThread EncodedStore demo_runtime (js ''/p'') (js ''t1'') (demo_world demo_files))
     = Inr ()"
  "trace (snd (deleteThread EncodedStore demo_runtime (js ''/p'') (js ''t1'')
      (demo_world demo_files)))
     = [Fs InReadThreadsIndex (ReadFile (getThreadsIndexPath EncodedStore (js ''/p''))),
        Fs InWriteThreadsIndex (WriteFile (getThreadsIndexPath EncodedStore (js ''/p''))),
        Fs InDeleteThread (Unlink (getThreadFilePath EncodedStore (js ''/p'') (js ''t1'')))]"
  "file_at (snd (deleteThread EncodedStore demo_runtime (js ''/p'') (js ''t1'')
      (demo_world demo_files))) (getThreadFilePath EncodedStore (js ''/p'') (js ''t1'')) = None"
  unfolding deleteThread_def resolveProjectRoot_Some [OF demo_root(1)] bindIO_returnIO demo_root(2)
  by (simp_all add: io_defs Let_def demo_world_def demo_simps file_at_def)

lemma run_appendMessage_demo:
  "\<not> isl (fst (appendMessage EncodedStore demo_runtime (js ''/p'') (js ''t1'') msg
      (demo_world demo_files)))"
  unfolding appendMessage_def resolveProjectRoot_Some [OF demo_root(1)] bindIO_returnIO demo_root(2)
  by (simp add: io_defs Let_def demo_world_def demo_simps)

lemma run_renameThread_demo:
  "\<not> isl (fst (renameThread EncodedStore demo_runtime (js ''/p'') (js ''t1'') title
      (demo_world demo_files)))"
  unfolding renameThread_def resolveProjectRoot_Some [OF demo_root(1)] bindIO_returnIO demo_root(2)
  by (simp add: io_defs Let_def demo_world_def demo_simps)

lemma run_archiveThread_demo:
  "\<not> isl (fst (archiveThread EncodedStore demo_runtime (js ''/p'') (js ''t1'')
      (demo_world demo_files)))"
  unfolding archiveThread_def resolveProjectRoot_Some [OF demo_root(1)] bindIO_returnIO demo_root(2)
  by (simp add: io_defs Let_def demo_world_def demo_simps)

lemma run_clearMessages_demo:
  "\<not> isl (fst (clearMessages demo_runtime (js ''/p'') (js ''t1'') (demo_world demo_files)))"
  unfolding clearMessages_def resolveProjectRoot_Some [OF demo_root(1)] bindIO_returnIO demo_root(2)
  by (simp add: io_defs Let_def demo_world_def demo_simps)

lemma run_createThread_demo_files:
  "\<not> isl (fst (createThread EncodedStore demo_runtime (js ''/p'') init (demo_world demo_files)))"
  unfolding createThread_def resolveProjectRoot_Some [OF demo_root(1)] bindIO_returnIO demo_root(2)
  by (simp add: io_defs Let_def ensureChatHistoryDir_def demo_world_def demo_simps)

lemma demo_sealed_texts:
  "decryptChatData (frame demo_index_text r (replicate 16 0)) r = Inr demo_index_text"
  "decryptChatData (frame demo_thread_text r (replicate 16 0)) r = Inr demo_thread_text"
  by (simp_all add: decrypt_encrypt demo_texts_wellFormed)

lemma run_deleteThread_sealed:
  "fst (deleteThread EncryptedStore demo_runtime (js ''/p'') (js ''t1'') (demo_world demo_sealed))
     = Inr ()"
  "trace (snd (deleteThread EncryptedStore demo_runtime (js ''/p'') (js ''t1'')
      (demo_world demo_sealed)))
     = [Fs InReadThreadsIndex (ReadFile (getThreadsIndexPath EncryptedStore (js ''/p''))),
        Fs InWriteThreadsIndex (WriteFile (getThreadsIndexPath EncryptedStore (js ''/p''))),
        Fs InDeleteThread (Unlink (getThreadFilePath EncryptedStore (js ''/p'') (js ''t1'')))]"
  unfolding deleteThread_def resolveProjectRoot_Some [OF demo_root(1)] bindIO_returnIO demo_root(2)
  by (simp_all add: io_defs Let_def demo_world_def demo_fs demo_sealed_def read_back_frame
      isEncrypted_frame demo_sealed_texts demo_parse encryptChatData_io_frame)

text \<open>
  Claim C6, \<open>deleteThread\<close>. Deleting the thread \<open>t1\<close> of a project that has it reads the
  index, writes the index and then unlinks the thread file: the thread file is not written
  at all, and it is changed after the index, not before it.
\<close>

theorem C6_deleteThread_counterexample:
  "fst (deleteThread EncryptedStore demo_runtime (js ''/p'') (js ''t1'') (demo_world demo_sealed))
     = Inr ()
   \<and> new_events (deleteThread EncryptedStore demo_runtime (js ''/p'') (js ''t1''))
       (demo_world demo_sealed)
     = [Fs InReadThreadsIndex (ReadFile (getThreadsIndexPath EncryptedStore (js ''/p''))),
        Fs InWriteThreadsIndex (WriteFile (getThreadsIndexPath EncryptedStore (js ''/p''))),
        Fs InDeleteThread (Unlink (getThreadFilePath EncryptedStore (js ''/p'') (js ''t1'')))]
   \<and> \<not> thread_before_index
         (new_events (deleteThread EncryptedStore demo_runtime (js ''/p'') (js ''t1''))
            (demo_world demo_sealed))"
proof -
  have "trace (demo_world demo_sealed) = []" by (simp add: demo_world_def)
  then show ?thesis by (simp add: new_events_def run_deleteThread_sealed)
qed

text \<open>
  Claim C6. In \<open>createThread\<close>, \<open>appendMessage\<close>, \<open>renameThread\<close>, \<open>archiveThread\<close> and
  \<open>clearMessages\<close> no write of \<open>writeThreadsIndex\<close> comes before the write of
  \<open>writeThreadFile\<close>, and when the operation returns both writes were made, the one of the
  thread file first. (The write-back of a migrating read is a write of \<open>readThreadsIndex\<close> or
  \<open>readThreadFile\<close> and is not one of the two.) \<open>deleteThread\<close> never writes the thread file:
  when it returns it has written the index and, after that, tried to unlink the thread file.
\<close>

theorem C6_write_order:
  "ordered (fst (createThread st rt root initialMessage w))
     (new_events (createThread st rt root initialMessage) w)
   \<and> ordered (fst (appendMessage st rt root threadId msg w))
       (new_events (appendMessage st rt root threadId msg) w)
   \<and> ordered (fst (renameThread st rt root threadId title w))
       (new_events (renameThread st rt root threadId title) w)
   \<and> ordered (fst (archiveThread st rt root threadId w))
       (new_events (archiveThread st rt root threadId) w)
   \<and> ordered (fst (clearMessages rt root threadId w))
       (new_events (clearMessages rt root threadId) w)
   \<and> index_then_unlink (fst (deleteThread st rt root threadId w))
       (new_events (deleteThread st rt root threadId) w)"
  using yieldsD [OF ordered_createThread, of st rt root initialMessage w]
    yieldsD [OF ordered_appendMessage, of st rt root threadId msg w]
    yieldsD [OF ordered_renameThread, of st rt root threadId title w]
    yieldsD [OF ordered_archiveThread, of st rt root threadId w]
    yieldsD [OF ordered_clearMessages, of rt root threadId w]
    yieldsD [OF index_then_unlink_deleteThread, of st rt root threadId w]
  by blast

theorem C6_witness:
  "(\<not> isl (fst (createThread EncodedStore demo_runtime (js ''/p'') None (demo_world demo_files)))
    \<and> thread_before_index
        (new_events (createThread EncodedStore demo_runtime (js ''/p'') None) (demo_world demo_files))
    \<and> both_written
        (new_events (createThread EncodedStore demo_runtime (js ''/p'') None) (demo_world demo_files)))
   \<and> (\<not> isl (fst (appendMessage EncodedStore demo_runtime (js ''/p'') (js ''t1'') demo_message
          (demo_world demo_files)))
    \<and> both_written
        (new_events (appendMessage EncodedStore demo_runtime (js ''/p'') (js ''t1'') demo_message)
           (demo_world demo_files)))
   \<and> (\<not> isl (fst (renameThread EncodedStore demo_runtime (js ''/p'') (js ''t1'') (js ''Blink'')
          (demo_world demo_files)))
    \<and> both_written
        (new_events (renameThread EncodedStore demo_runtime (js ''/p'') (js ''t1'') (js ''Blink''))
           (demo_world demo_files)))
   \<and> (\<not> isl (fst (archiveThread EncodedStore demo_runtime (js ''/p'') (js ''t1'')
          (demo_world demo_files)))
    \<and> both_written
        (new_events (archiveThread EncodedStore demo_runtime (js ''/p'') (js ''t1''))
           (demo_world demo_files)))
   \<and> (\<not> isl (fst (clearMessages demo_runtime (js ''/p'') (js ''t1'') (demo_world demo_files)))
    \<and> both_written
        (new_events (clearMessages demo_runtime (js ''/p'') (js ''t1'')) (demo_world demo_files)))
   \<and> (\<not> isl (fst (deleteThread EncodedStore demo_runtime (js ''/p'') (js ''t1'')
          (demo_world demo_files)))
    \<and> list_ex isIndexWrite (takeWhile (\<lambda>e. \<not> isThreadUnlink e)
        (new_events (deleteThread EncodedStore demo_runtime (js ''/p'') (js ''t1''))
           (demo_world demo_files)))
    \<and> list_ex isThreadUnlink
        (new_events (deleteThread EncodedStore demo_runtime (js ''/p'') (js ''t1''))
           (demo_world demo_files)))"
proof -
  have "\<not> isl (fst (deleteThread EncodedStore demo_runtime (js ''/p'') (js ''t1'')
      (demo_world demo_files)))"
    by (simp add: run_deleteThread_demo)
  with C6_write_order [where st = EncodedStore and rt = demo_runtime and root = "js ''/p''"
      and initialMessage = None and w = "demo_world demo_files" and threadId = "js ''t1''"
      and msg = demo_message and title = "js ''Blink''"]
    run_createThread_demo_files [of None] run_appendMessage_demo [of demo_message]
    run_renameThread_demo [of "js ''Blink''"] run_archiveThread_demo run_clearMessages_demo
  show ?thesis by (simp add: ordered_def index_then_unlink_def)
qed

section \<open>What \<open>listThreads\<close> returns\<close>

lemma brace_facts:
  "isWellFormed (js ''{'')" "\<not> isEncrypted (js ''{'')" "\<not> isEncoded (js ''{'')"
  "parse_index demo_runtime (js ''{'') = Inl (js ''Unexpected end of JSON input'')"
  "parse_thread demo_runtime (js ''{'') = Inl (js ''Unexpected end of JSON input'')"
  by (simp_all add: js_def isHighSurrogate_def isLowSurrogate_def isEncrypted_iff isEncoded_eq
      startsWith_def trim_def isWhiteSpace_def demo_runtime_def demo_index_text_def
      demo_thread_text_def)

lemma read_back_brace: "utf8_decode (utf8_encode (js ''{'')) = js ''{''"
  by (rule utf8_roundtrip) (rule brace_facts)

lemma not_ENOENT_ReadFailed: "\<not> isENOENT (ReadFailed m p)"
  by (simp add: ReadFailed_def)

lemmas monad_defs =
  returnIO_def throwIO_def bindIO_def tryCatch_def liftIO_def logger_def randomBytes_def
  JSON_parse_def threads_for_def messages_for_def assignable_def

lemma readThreadsIndex_Encoded_fst:
  "fst (readThreadsIndex EncodedStore rt r w) =
     (case fst (readFile InReadThreadsIndex (getThreadsIndexPath EncodedStore r) w) of
        Inl e \<Rightarrow>
          if isENOENT e then Inr (Shaped emptyIndex)
          else if includes_str (message e) (js ''Failed to decode'')
                  \<or> includes_str (message e) (js ''Failed to read'')
          then Inr (Shaped emptyIndex)
          else Inl (ReadFailed (js ''Failed to read threads index: '' @ message e)
                      (getThreadsIndexPath EncodedStore r))
      | Inr content \<Rightarrow>
          (case parse_index rt
                  (if isEncoded content then utf8_decode (base64_decode content) else content) of
             Inl m \<Rightarrow> Inr (Shaped emptyIndex)
           | Inr x \<Rightarrow> Inr x))"
proof -
  obtain r0 w0 where rf: "readFile InReadThreadsIndex (getThreadsIndexPath EncodedStore r) w = (r0, w0)"
    by (cases "readFile InReadThreadsIndex (getThreadsIndexPath EncodedStore r) w")
  show ?thesis
  proof (cases r0)
    case (Inl e)
    with rf show ?thesis
      by (simp add: monad_defs Let_def ReadFailed_def split: prod.splits sum.splits)
  next
    case (Inr content)
    show ?thesis
    proof (cases "isEncoded content")
      case True
      with rf Inr show ?thesis
        by (simp add: monad_defs Let_def decodeChatData_eq split: prod.splits sum.splits)
    next
      case False
      with rf Inr show ?thesis
        by (simp add: monad_defs Let_def split: prod.splits sum.splits)
    qed
  qed
qed

lemma readThreadsIndex_Encrypted_fst:
  "fst (readThreadsIndex EncryptedStore rt r w) =
     (case fst (readFile InReadThreadsIndex (getThreadsIndexPath EncryptedStore r) w) of
        Inl e \<Rightarrow>
          if isENOENT e then Inr (Shaped emptyIndex)
          else Inl (ReadFailed (js ''Failed to read threads index: '' @ message e)
                      (getThreadsIndexPath EncryptedStore r))
      | Inr content \<Rightarrow>
          (case (if isEncrypted content then decryptChatData content r else Inr content) of
             Inl e \<Rightarrow>
               Inl (ReadFailed (js ''Failed to read threads index: ''
                      @ js ''Failed to decrypt threads index: '' @ message e)
                      (getThreadsIndexPath EncryptedStore r))
           | Inr text \<Rightarrow>
               (case parse_index rt text of
                  Inl m \<Rightarrow> Inl (ReadFailed (js ''Failed to read threads index: '' @ m)
                               (getThreadsIndexPath EncryptedStore r))
                | Inr x \<Rightarrow> Inr x)))"
proof -
  obtain r0 w0 where rf: "readFile InReadThreadsIndex (getThreadsIndexPath EncryptedStore r) w = (r0, w0)"
    by (cases "readFile InReadThreadsIndex (getThreadsIndexPath EncryptedStore r) w")
  show ?thesis
  proof (cases r0)
    case (Inl e)
    with rf show ?thesis
      by (simp add: monad_defs Let_def ReadFailed_def split: prod.splits sum.splits)
  next
    case (Inr content)
    show ?thesis
    proof (cases "isEncrypted content")
      case True
      with rf Inr show ?thesis
        by (simp add: monad_defs Let_def ReadFailed_def split: prod.splits sum.splits)
    next
      case False
      with rf Inr show ?thesis
        by (simp add: monad_defs Let_def ReadFailed_def encryptChatData_io_frame
            split: prod.splits sum.splits)
    qed
  qed
qed

lemma listThreads_fst:
  assumes "root \<noteq> []"
  shows "fst (listThreads st rt (Some root) w) =
     (case fst (readThreadsIndex st rt (path_resolve rt root) w) of
        Inl e \<Rightarrow> if isENOENT e then Inr [] else Inl e
      | Inr (Other v) \<Rightarrow> Inl (TypeError (type_error rt (js ''sort'') v))
      | Inr (Shaped index) \<Rightarrow> Inr (sort_threads rt (threads index)))"
  unfolding listThreads_def resolveProjectRoot_Some [OF assms] bindIO_returnIO
  by (cases "readThreadsIndex st rt (path_resolve rt root) w")
    (simp add: monad_defs split: sum.splits parsed.splits)

lemma sort_threads_Nil: "sort_threads rt [] = []"
  by (simp add: sort_threads_def)

lemma codes_distinct: "js ''EISDIR'' \<noteq> js ''ENOENT''" "js ''ENOTDIR'' \<noteq> js ''ENOENT''"
  by (simp_all add: js_def)

lemma no_recovery_text:
  "\<not> includes_str (js ''EISDIR: illegal operation on a directory, read'') (js ''Failed to decode'')"
  "\<not> includes_str (js ''EISDIR: illegal operation on a directory, read'') (js ''Failed to read'')"
  by (simp_all add: js_def startsWith_def)

text \<open>
  Claim C2, the class of \<^verbatim>\<open>chat-history-service-impl.ts\<close>. The index file holds the one
  byte \<open>{\<close>, which is not JSON: \<open>listThreads\<close> throws \<open>ReadFailed\<close>. And the class of
  \<^verbatim>\<open>arduino-ide-electron-main.js\<close>, when the index file cannot be read because a directory
  is in its place: \<open>listThreads\<close> throws \<open>ReadFailed\<close> as well.
\<close>

theorem C2_listThreads_throws_counterexample:
  "fst (listThreads EncryptedStore demo_runtime (Some (js ''/p''))
          (demo_world (project EncryptedStore [index_name \<mapsto> File (utf8_encode (js ''{''))])))
     = Inl (ReadFailed (js ''Failed to read threads index: '' @ js ''Unexpected end of JSON input'')
              (getThreadsIndexPath EncryptedStore (js ''/p'')))
   \<and> fst (listThreads EncodedStore demo_runtime (Some (js ''/p''))
          (demo_world (project EncodedStore [index_name \<mapsto> Dir Map.empty])))
     = Inl (ReadFailed (js ''Failed to read threads index: ''
              @ js ''EISDIR: illegal operation on a directory, read'')
              (getThreadsIndexPath EncodedStore (js ''/p'')))"
proof (rule conjI)
  show "fst (listThreads EncryptedStore demo_runtime (Some (js ''/p''))
          (demo_world (project EncryptedStore [index_name \<mapsto> File (utf8_encode (js ''{''))])))
     = Inl (ReadFailed (js ''Failed to read threads index: '' @ js ''Unexpected end of JSON input'')
              (getThreadsIndexPath EncryptedStore (js ''/p'')))"
    unfolding listThreads_def resolveProjectRoot_Some [OF demo_root(1)] bindIO_returnIO demo_root(2)
    by (simp add: io_defs Let_def demo_world_def demo_fs read_back_brace brace_facts
        encryptChatData_io_frame ReadFailed_def)
next
  show "fst (listThreads EncodedStore demo_runtime (Some (js ''/p''))
          (demo_world (project EncodedStore [index_name \<mapsto> Dir Map.empty])))
     = Inl (ReadFailed (js ''Failed to read threads index: ''
              @ js ''EISDIR: illegal operation on a directory, read'')
              (getThreadsIndexPath EncodedStore (js ''/p'')))"
    unfolding listThreads_def resolveProjectRoot_Some [OF demo_root(1)] bindIO_returnIO demo_root(2)
    by (simp add: io_defs Let_def demo_world_def demo_fs no_recovery_text ReadFailed_def
        codes_distinct)
qed

text \<open>
  Claim C2. What \<open>listThreads\<close> returns for a project root, in either class, by what reading
  the index file gives. In both classes a missing index file gives the empty list, a read
  that fails otherwise gives \<open>ReadFailed\<close> (in the class of \<^verbatim>\<open>arduino-ide-electron-main.js\<close>
  unless the message of the failure contains \<open>Failed to decode\<close> or \<open>Failed to read\<close>), and
  JSON of another shape than the index gives the \<open>TypeError\<close> of \<open>sort\<close>. Content that is
  read but does not parse gives the empty list in the class of
  \<^verbatim>\<open>arduino-ide-electron-main.js\<close>, and \<open>ReadFailed\<close> in the class of
  \<^verbatim>\<open>chat-history-service-impl.ts\<close>, where content that does not decrypt gives \<open>ReadFailed\<close> too.
\<close>

theorem C2_listThreads_by_index_state:
  assumes "root \<noteq> []"
  shows "fst (listThreads EncodedStore rt (Some root) w) =
     (let indexPath = getThreadsIndexPath EncodedStore (path_resolve rt root) in
      case fst (readFile InReadThreadsIndex indexPath w) of
        Inl e \<Rightarrow>
          if isENOENT e then Inr []
          else if includes_str (message e) (js ''Failed to decode'')
                  \<or> includes_str (message e) (js ''Failed to read'')
          then Inr []
          else Inl (ReadFailed (js ''Failed to read threads index: '' @ message e) indexPath)
      | Inr content \<Rightarrow>
          (case parse_index rt
                  (if isEncoded content then utf8_decode (base64_decode content) else content) of
             Inl m \<Rightarrow> Inr []
           | Inr (Other v) \<Rightarrow> Inl (TypeError (type_error rt (js ''sort'') v))
           | Inr (Shaped index) \<Rightarrow> Inr (sort_threads rt (threads index))))
   \<and> fst (listThreads EncryptedStore rt (Some root) w) =
     (let resolvedRoot = path_resolve rt root;
          indexPath = getThreadsIndexPath EncryptedStore resolvedRoot in
      case fst (readFile InReadThreadsIndex indexPath w) of
        Inl e \<Rightarrow>
          if isENOENT e then Inr []
          else Inl (ReadFailed (js ''Failed to read threads index: '' @ message e) indexPath)
      | Inr content \<Rightarrow>
          (case (if isEncrypted content then decryptChatData content resolvedRoot
                 else Inr content) of
             Inl e \<Rightarrow>
               Inl (ReadFailed (js ''Failed to read threads index: ''
                      @ js ''Failed to decrypt threads index: '' @ message e) indexPath)
           | Inr text \<Rightarrow>
               (case parse_index rt text of
                  Inl m \<Rightarrow> Inl (ReadFailed (js ''Failed to read threads index: '' @ m) indexPath)
                | Inr (Other v) \<Rightarrow> Inl (TypeError (type_error rt (js ''sort'') v))
                | Inr (Shaped index) \<Rightarrow> Inr (sort_threads rt (threads index)))))"
    (is "?encoded \<and> ?encrypted")
proof (rule conjI)
  show ?encoded
    unfolding listThreads_fst [OF assms] readThreadsIndex_Encoded_fst
    by (simp add: Let_def emptyIndex_def sort_threads_Nil not_ENOENT_ReadFailed
        split: sum.splits parsed.splits)
next
  show ?encrypted
    unfolding listThreads_fst [OF assms] readThreadsIndex_Encrypted_fst
    by (simp add: Let_def emptyIndex_def sort_threads_Nil not_ENOENT_ReadFailed
        split: sum.splits parsed.splits)
qed

theorem C2_witness:
  "js ''/p'' \<noteq> []
   \<and> fst (listThreads EncodedStore demo_runtime (Some (js ''/p''))
          (demo_world (project EncodedStore [index_name \<mapsto> File (utf8_encode (js ''{''))])))
       = Inr []
   \<and> fst (listThreads EncodedStore demo_runtime (Some (js ''/p'')) (demo_world new_project)) = Inr []
   \<and> fst (listThreads EncryptedStore demo_runtime (Some (js ''/p'')) (demo_world new_project)) = Inr []"
proof -
  have "lookup new_project (components (getThreadsIndexPath st (js ''/p''))) = Inl (js ''ENOENT'')"
    for st
    by (simp add: demo_fs new_project_def lookup.simps)
  with C2_listThreads_by_index_state [OF demo_root(1), where rt = demo_runtime
      and w = "demo_world (project EncodedStore [index_name \<mapsto> File (utf8_encode (js ''{''))])"]
    C2_listThreads_by_index_state [OF demo_root(1), where rt = demo_runtime
      and w = "demo_world new_project"]
  show ?thesis
    by (simp add: demo_root Let_def demo_world_def readFile_def refused_def traced_def demo_fs
        read_back_brace brace_facts)
qed

section \<open>The write-back of a migrating read\<close>

lemma readFile_Inr:
  assumes "fst (readFile at p w) = Inr content"
  shows "readFile at p w = (Inr content, traced at (ReadFile p) w)"
    and "\<exists>bs. file_at w p = Some bs"
  using assms
  by (auto simp add: readFile_def file_at_def split: option.splits sum.splits node.splits)

lemma writeFile_trace: "trace (snd (writeFile at p d w)) = trace w @ [Fs at (WriteFile p)]"
  by (simp add: writeFile_def traced_def split: option.splits sum.splits)

lemma unlink_trace: "trace (snd (unlink at p w)) = trace w @ [Fs at (Unlink p)]"
  by (simp add: unlink_def traced_def split: option.splits sum.splits)

lemma writeFile_n_random:
  "writeFile at p d (w\<lparr>n_random := k\<rparr>)
     = (fst (writeFile at p d w), (snd (writeFile at p d w))\<lparr>n_random := k\<rparr>)"
  by (simp add: writeFile_def refused_def traced_def split: option.splits sum.splits)

lemma file_at_tree: "tree w' = tree w \<Longrightarrow> file_at w' p = file_at w p"
  by (simp add: file_at_def)


lemma drawn_iv_traced [simp]: "drawn_iv (traced at c w) = drawn_iv w"
  by (simp add: drawn_iv_def traced_def)

lemma trace_traced [simp]: "trace (traced at c w) = trace w @ [Fs at c]"
  by (simp add: traced_def)

lemma tree_traced [simp]: "tree (traced at c w) = tree w"
  by (simp add: traced_def)










section \<open>Content that does not parse\<close>

lemma unlink_cases:
  obtains w2 where "unlink at p w = (Inr (), w2)" and "trace w2 = trace w @ [Fs at (Unlink p)]"
      and "file_at w2 p = None"
  | e w2 where "unlink at p w = (Inl e, w2)" and "trace w2 = trace w @ [Fs at (Unlink p)]"
      and "tree w2 = tree w"
proof (cases "unlink at p w")
  case (Pair rw w2)
  from unlink_trace [of at p w] Pair have t: "trace w2 = trace w @ [Fs at (Unlink p)]" by simp
  show thesis
  proof (cases rw)
    case (Inr u)
    with Pair unlink_file_at(1) [of at p w u w2] t that(1) show thesis by simp
  next
    case (Inl e)
    with Pair have "tree w2 = tree w"
      by (auto simp add: unlink_def traced_def split: option.splits sum.splits)
    with Pair Inl t that(2) show thesis by simp
  qed
qed

lemma writeFile_cases:
  obtains w2 where "writeFile at p d w = (Inr (), w2)"
      and "trace w2 = trace w @ [Fs at (WriteFile p)]" and "file_at w2 p = Some (utf8_encode d)"
  | e w2 where "writeFile at p d w = (Inl e, w2)"
      and "trace w2 = trace w @ [Fs at (WriteFile p)]" and "tree w2 = tree w"
proof (cases "writeFile at p d w")
  case (Pair rw w2)
  from writeFile_trace [of at p d w] Pair have t: "trace w2 = trace w @ [Fs at (WriteFile p)]"
    by simp
  show thesis
  proof (cases rw)
    case (Inr u)
    with Pair writeFile_file_at [of at p d w u w2] t that(1) show thesis by simp
  next
    case (Inl e)
    with Pair writeFile_failed [of at p d w e w2] t that(2) show thesis by simp
  qed
qed

lemma file_at_update [simp]:
  "file_at (w\<lparr>trace := es\<rparr>) p = file_at w p" "file_at (w\<lparr>n_random := k\<rparr>) p = file_at w p"
  by (simp_all add: file_at_def)

lemma parse_failure_index_Encoded:
  assumes "fst (readFile InReadThreadsIndex (getThreadsIndexPath EncodedStore r) w) = Inr content"
      and "decoded EncodedStore content r = Inr text"
      and "parse_index rt text = Inl m"
  shows "fst (readThreadsIndex EncodedStore rt r w) = Inr (Shaped emptyIndex)
     \<and> list_ex isUnlink (new_events (readThreadsIndex EncodedStore rt r) w)
     \<and> (file_at (snd (readThreadsIndex EncodedStore rt r w)) (getThreadsIndexPath EncodedStore r)
          = None
        \<or> Log LogWarn (js ''Failed to delete corrupted threads index: ''
              @ getThreadsIndexPath EncodedStore r)
            \<in> set (new_events (readThreadsIndex EncodedStore rt r) w))"
proof -
  let ?p = "getThreadsIndexPath EncodedStore r"
  let ?w1 = "traced InReadThreadsIndex (ReadFile ?p) w"
  let ?err = "Log LogError (js ''Failed to parse threads index JSON: '' @ ?p)"
  note rf = readFile_Inr(1) [OF assms(1)]
  show ?thesis
  proof (cases "isEncoded content")
    case True
    show ?thesis
    proof (cases rule: unlink_cases [of InReadThreadsIndex ?p "?w1\<lparr>trace := trace ?w1 @ [?err]\<rparr>"])
      case (1 w3)
      with True assms(2,3) rf show ?thesis
        by (simp add: monad_defs Let_def new_events_def)
    next
      case (2 e w3)
      with True assms(2,3) rf show ?thesis
        by (simp add: monad_defs Let_def new_events_def)
    qed
  next
    case False
    show ?thesis
    proof (cases rule: writeFile_cases [of InReadThreadsIndex ?p "encodeChatData content" ?w1])
      case (1 w2)
      show ?thesis
      proof (cases rule: unlink_cases [of InReadThreadsIndex ?p "w2\<lparr>trace := trace w2 @ [?err]\<rparr>"])
        case (1 w3)
        with False assms(2,3) rf \<open>writeFile InReadThreadsIndex ?p (encodeChatData content) ?w1 = (Inr (), w2)\<close>
          \<open>trace w2 = trace ?w1 @ [Fs InReadThreadsIndex (WriteFile ?p)]\<close>
        show ?thesis by (simp add: monad_defs Let_def new_events_def)
      next
        case (2 e w3)
        with False assms(2,3) rf \<open>writeFile InReadThreadsIndex ?p (encodeChatData content) ?w1 = (Inr (), w2)\<close>
          \<open>trace w2 = trace ?w1 @ [Fs InReadThreadsIndex (WriteFile ?p)]\<close>
        show ?thesis by (simp add: monad_defs Let_def new_events_def)
      qed
    next
      case (2 e2 w2)
      let ?warn = "Log LogWarn (js ''Failed to migrate threads index to base64 format: '' @ ?p)"
      show ?thesis
      proof (cases rule: unlink_cases [of InReadThreadsIndex ?p
            "w2\<lparr>trace := trace w2 @ [?warn, ?err]\<rparr>"])
        case (1 w3)
        with False assms(2,3) rf \<open>writeFile InReadThreadsIndex ?p (encodeChatData content) ?w1 = (Inl e2, w2)\<close>
          \<open>trace w2 = trace ?w1 @ [Fs InReadThreadsIndex (WriteFile ?p)]\<close>
        show ?thesis by (simp add: monad_defs Let_def new_events_def)
      next
        case (2 e w3)
        with False assms(2,3) rf \<open>writeFile InReadThreadsIndex ?p (encodeChatData content) ?w1 = (Inl e2, w2)\<close>
          \<open>trace w2 = trace ?w1 @ [Fs InReadThreadsIndex (WriteFile ?p)]\<close>
        show ?thesis by (simp add: monad_defs Let_def new_events_def)
      qed
    qed
  qed
qed

lemma parse_failure_thread_Encoded:
  assumes "fst (readFile InReadThreadFile (getThreadFilePath EncodedStore r t) w) = Inr content"
      and "decoded EncodedStore content r = Inr text"
      and "parse_thread rt text = Inl m"
  shows "fst (readThreadFile EncodedStore rt r t w)
       = Inl (ReadFailed (js ''Failed to parse thread: '' @ m) (getThreadFilePath EncodedStore r t))
     \<and> list_ex isUnlink (new_events (readThreadFile EncodedStore rt r t) w)
     \<and> (file_at (snd (readThreadFile EncodedStore rt r t w)) (getThreadFilePath EncodedStore r t)
          = None
        \<or> Log LogWarn (js ''Failed to delete corrupted thread file: ''
              @ getThreadFilePath EncodedStore r t)
            \<in> set (new_events (readThreadFile EncodedStore rt r t) w))"
proof -
  let ?p = "getThreadFilePath EncodedStore r t"
  let ?w1 = "traced InReadThreadFile (ReadFile ?p) w"
  let ?err = "Log LogError (js ''Failed to parse thread JSON: '' @ ?p)"
  note rf = readFile_Inr(1) [OF assms(1)]
  show ?thesis
  proof (cases "isEncoded content")
    case True
    show ?thesis
    proof (cases rule: unlink_cases [of InReadThreadFile ?p "?w1\<lparr>trace := trace ?w1 @ [?err]\<rparr>"])
      case (1 w3)
      with True assms(2,3) rf show ?thesis
        by (simp add: monad_defs Let_def new_events_def ReadFailed_def)
    next
      case (2 e w3)
      with True assms(2,3) rf show ?thesis
        by (simp add: monad_defs Let_def new_events_def ReadFailed_def)
    qed
  next
    case False
    show ?thesis
    proof (cases rule: writeFile_cases [of InReadThreadFile ?p "encodeChatData content" ?w1])
      case (1 w2)
      show ?thesis
      proof (cases rule: unlink_cases [of InReadThreadFile ?p "w2\<lparr>trace := trace w2 @ [?err]\<rparr>"])
        case (1 w3)
        with False assms(2,3) rf \<open>writeFile InReadThreadFile ?p (encodeChatData content) ?w1 = (Inr (), w2)\<close>
          \<open>trace w2 = trace ?w1 @ [Fs InReadThreadFile (WriteFile ?p)]\<close>
        show ?thesis by (simp add: monad_defs Let_def new_events_def ReadFailed_def)
      next
        case (2 e w3)
        with False assms(2,3) rf \<open>writeFile InReadThreadFile ?p (encodeChatData content) ?w1 = (Inr (), w2)\<close>
          \<open>trace w2 = trace ?w1 @ [Fs InReadThreadFile (WriteFile ?p)]\<close>
        show ?thesis by (simp add: monad_defs Let_def new_events_def ReadFailed_def)
      qed
    next
      case (2 e2 w2)
      let ?warn = "Log LogWarn (js ''Failed to migrate thread file to base64 format: '' @ ?p)"
      show ?thesis
      proof (cases rule: unlink_cases [of InReadThreadFile ?p
            "w2\<lparr>trace := trace w2 @ [?warn, ?err]\<rparr>"])
        case (1 w3)
        with False assms(2,3) rf \<open>writeFile InReadThreadFile ?p (encodeChatData content) ?w1 = (Inl e2, w2)\<close>
          \<open>trace w2 = trace ?w1 @ [Fs InReadThreadFile (WriteFile ?p)]\<close>
        show ?thesis by (simp add: monad_defs Let_def new_events_def ReadFailed_def)
      next
        case (2 e w3)
        with False assms(2,3) rf \<open>writeFile InReadThreadFile ?p (encodeChatData content) ?w1 = (Inl e2, w2)\<close>
          \<open>trace w2 = trace ?w1 @ [Fs InReadThreadFile (WriteFile ?p)]\<close>
        show ?thesis by (simp add: monad_defs Let_def new_events_def ReadFailed_def)
      qed
    qed
  qed
qed

lemma parse_failure_index_Encrypted:
  assumes "fst (readFile InReadThreadsIndex (getThreadsIndexPath EncryptedStore r) w) = Inr content"
      and "decoded EncryptedStore content r = Inr text"
      and "parse_index rt text = Inl m"
  shows "fst (readThreadsIndex EncryptedStore rt r w)
       = Inl (ReadFailed (js ''Failed to read threads index: '' @ m)
                (getThreadsIndexPath EncryptedStore r))
     \<and> \<not> list_ex isUnlink (new_events (readThreadsIndex EncryptedStore rt r) w)
     \<and> file_at (snd (readThreadsIndex EncryptedStore rt r w)) (getThreadsIndexPath EncryptedStore r)
         \<noteq> None"
proof -
  let ?p = "getThreadsIndexPath EncryptedStore r"
  let ?w1 = "traced InReadThreadsIndex (ReadFile ?p) w"
  note rf = readFile_Inr(1) [OF assms(1)]
  from readFile_Inr(2) [OF assms(1)] obtain bs where bs: "file_at w ?p = Some bs" by blast
  show ?thesis
  proof (cases "isEncrypted content")
    case True
    with assms(2,3) rf bs show ?thesis
      by (simp add: monad_defs Let_def new_events_def ReadFailed_def)
  next
    case False
    show ?thesis
    proof (cases rule: writeFile_cases [of InReadThreadsIndex ?p
          "frame content r (drawn_iv ?w1)" ?w1])
      case (1 w2)
      with False assms(2,3) rf bs show ?thesis
        by (simp add: monad_defs Let_def new_events_def ReadFailed_def encryptChatData_io_frame
            writeFile_n_random)
    next
      case (2 e w2)
      with False assms(2,3) rf bs file_at_tree [of w2 w ?p] show ?thesis
        by (simp add: monad_defs Let_def new_events_def ReadFailed_def encryptChatData_io_frame
            writeFile_n_random)
    qed
  qed
qed

lemma parse_failure_thread_Encrypted:
  assumes "fst (readFile InReadThreadFile (getThreadFilePath EncryptedStore r t) w) = Inr content"
      and "decoded EncryptedStore content r = Inr text"
      and "parse_thread rt text = Inl m"
  shows "fst (readThreadFile EncryptedStore rt r t w)
       = Inl (ReadFailed (js ''Failed to read thread: '' @ m)
                (getThreadFilePath EncryptedStore r t))
     \<and> \<not> list_ex isUnlink (new_events (readThreadFile EncryptedStore rt r t) w)
     \<and> file_at (snd (readThreadFile EncryptedStore rt r t w)) (getThreadFilePath EncryptedStore r t)
         \<noteq> None"
proof -
  let ?p = "getThreadFilePath EncryptedStore r t"
  let ?w1 = "traced InReadThreadFile (ReadFile ?p) w"
  note rf = readFile_Inr(1) [OF assms(1)]
  from readFile_Inr(2) [OF assms(1)] obtain bs where bs: "file_at w ?p = Some bs" by blast
  show ?thesis
  proof (cases "isEncrypted content")
    case True
    with assms(2,3) rf bs show ?thesis
      by (simp add: monad_defs Let_def new_events_def ReadFailed_def)
  next
    case False
    show ?thesis
    proof (cases rule: writeFile_cases [of InReadThreadFile ?p
          "frame content r (drawn_iv ?w1)" ?w1])
      case (1 w2)
      with False assms(2,3) rf bs show ?thesis
        by (simp add: monad_defs Let_def new_events_def ReadFailed_def encryptChatData_io_frame
            writeFile_n_random)
    next
      case (2 e w2)
      with False assms(2,3) rf bs file_at_tree [of w2 w ?p] show ?thesis
        by (simp add: monad_defs Let_def new_events_def ReadFailed_def encryptChatData_io_frame
            writeFile_n_random)
    qed
  qed
qed

lemma brace_json: "startsWith (trim (js ''{'')) (js ''{'')"
  by (simp add: js_def startsWith_def trim_def isWhiteSpace_def)

lemma demo_damaged_reads:
  "readFile at (getThreadsIndexPath EncodedStore (js ''/p'')) (demo_world (demo_damaged EncodedStore))
     = (Inr (encodeChatData (js ''{'')),
        traced at (ReadFile (getThreadsIndexPath EncodedStore (js ''/p'')))
          (demo_world (demo_damaged EncodedStore)))"
  "readFile at (getThreadFilePath EncodedStore (js ''/p'') (js ''t1''))
      (demo_world (demo_damaged EncodedStore))
     = (Inr (encodeChatData (js ''{'')),
        traced at (ReadFile (getThreadFilePath EncodedStore (js ''/p'') (js ''t1'')))
          (demo_world (demo_damaged EncodedStore)))"
  "readFile at (getThreadsIndexPath EncryptedStore (js ''/p''))
      (demo_world (demo_damaged EncryptedStore))
     = (Inr (frame (js ''{'') (js ''/p'') (replicate 16 0)),
        traced at (ReadFile (getThreadsIndexPath EncryptedStore (js ''/p'')))
          (demo_world (demo_damaged EncryptedStore)))"
  "readFile at (getThreadFilePath EncryptedStore (js ''/p'') (js ''t1''))
      (demo_world (demo_damaged EncryptedStore))
     = (Inr (frame (js ''{'') (js ''/p'') (replicate 16 0)),
        traced at (ReadFile (getThreadFilePath EncryptedStore (js ''/p'') (js ''t1'')))
          (demo_world (demo_damaged EncryptedStore)))"
  by (simp_all add: readFile_def refused_def demo_world_def demo_fs read_back_encoded
      read_back_frame)

lemma demo_damaged_decoded:
  "decoded EncodedStore (encodeChatData (js ''{'')) r = Inr (js ''{'')"
  "decoded EncryptedStore (frame (js ''{'') r (replicate 16 0)) r = Inr (js ''{'')"
  by (simp_all add: isEncoded_encodeChatData decodeChatData_encodeChatData brace_facts brace_json
      isEncrypted_frame decrypt_encrypt)

text \<open>
  Claim C7, the class of \<^verbatim>\<open>chat-history-service-impl.ts\<close>. The index file holds the
  encryption of \<open>{\<close> under the key of the project: it decrypts and does not parse.
  \<open>readThreadsIndex\<close> throws \<open>ReadFailed\<close> where the claim has it return the empty index, and
  the file stays as it was.
\<close>

theorem C7_file_kept_counterexample:
  "decryptChatData (frame (js ''{'') (js ''/p'') (replicate 16 0)) (js ''/p'') = Inr (js ''{'')
   \<and> parse_index demo_runtime (js ''{'') = Inl (js ''Unexpected end of JSON input'')
   \<and> file_at (demo_world (demo_damaged EncryptedStore)) (getThreadsIndexPath EncryptedStore (js ''/p''))
       = Some (utf8_encode (frame (js ''{'') (js ''/p'') (replicate 16 0)))
   \<and> fst (readThreadsIndex EncryptedStore demo_runtime (js ''/p'')
          (demo_world (demo_damaged EncryptedStore)))
       = Inl (ReadFailed (js ''Failed to read threads index: '' @ js ''Unexpected end of JSON input'')
                (getThreadsIndexPath EncryptedStore (js ''/p'')))
   \<and> file_at (snd (readThreadsIndex EncryptedStore demo_runtime (js ''/p'')
          (demo_world (demo_damaged EncryptedStore)))) (getThreadsIndexPath EncryptedStore (js ''/p''))
       = Some (utf8_encode (frame (js ''{'') (js ''/p'') (replicate 16 0)))"
proof -
  have "file_at (demo_world (demo_damaged EncryptedStore)) (getThreadsIndexPath EncryptedStore (js ''/p''))
      = Some (utf8_encode (frame (js ''{'') (js ''/p'') (replicate 16 0)))"
    by (simp add: file_at_def demo_world_def demo_fs)
  then show ?thesis
    by (simp add: demo_damaged_reads monad_defs Let_def isEncrypted_frame decrypt_encrypt
        brace_facts ReadFailed_def del: demo_damaged.simps)
qed

text \<open>
  Claim C7. Content that the codec of the class decodes and \<open>JSON.parse\<close> rejects: in the
  class of \<^verbatim>\<open>arduino-ide-electron-main.js\<close> the read of the index returns the empty index and
  the read of a thread file throws \<open>ReadFailed\<close>, and both try to unlink the file, after
  which the file is gone or the failure to delete it is in the log. In the class of
  \<^verbatim>\<open>chat-history-service-impl.ts\<close> both reads throw \<open>ReadFailed\<close>, neither unlinks, and the
  file is still there.
\<close>

theorem C7_content_that_does_not_parse:
  "(fst (readFile InReadThreadsIndex (getThreadsIndexPath EncodedStore r) w) = Inr content
    \<and> decoded EncodedStore content r = Inr decodedContent \<and> parse_index rt decodedContent = Inl m
    \<longrightarrow>
      fst (readThreadsIndex EncodedStore rt r w) = Inr (Shaped emptyIndex)
      \<and> list_ex isUnlink (new_events (readThreadsIndex EncodedStore rt r) w)
      \<and> (file_at (snd (readThreadsIndex EncodedStore rt r w)) (getThreadsIndexPath EncodedStore r)
           = None
         \<or> Log LogWarn (js ''Failed to delete corrupted threads index: ''
               @ getThreadsIndexPath EncodedStore r)
             \<in> set (new_events (readThreadsIndex EncodedStore rt r) w)))
   \<and> (fst (readFile InReadThreadFile (getThreadFilePath EncodedStore r t) w) = Inr content
    \<and> decoded EncodedStore content r = Inr decodedContent \<and> parse_thread rt decodedContent = Inl m
    \<longrightarrow>
      fst (readThreadFile EncodedStore rt r t w)
        = Inl (ReadFailed (js ''Failed to parse thread: '' @ m) (getThreadFilePath EncodedStore r t))
      \<and> list_ex isUnlink (new_events (readThreadFile EncodedStore rt r t) w)
      \<and> (file_at (snd (readThreadFile EncodedStore rt r t w)) (getThreadFilePath EncodedStore r t)
           = None
         \<or> Log LogWarn (js ''Failed to delete corrupted thread file: ''
               @ getThreadFilePath EncodedStore r t)
             \<in> set (new_events (readThreadFile EncodedStore rt r t) w)))
   \<and> (fst (readFile InReadThreadsIndex (getThreadsIndexPath EncryptedStore r) w) = Inr content
    \<and> decoded EncryptedStore content r = Inr decodedContent \<and> parse_index rt decodedContent = Inl m
    \<longrightarrow>
      fst (readThreadsIndex EncryptedStore rt r w)
        = Inl (ReadFailed (js ''Failed to read threads index: '' @ m)
                 (getThreadsIndexPath EncryptedStore r))
      \<and> \<not> list_ex isUnlink (new_events (readThreadsIndex EncryptedStore rt r) w)
      \<and> file_at (snd (readThreadsIndex EncryptedStore rt r w)) (getThreadsIndexPath EncryptedStore r)
          \<noteq> None)
   \<and> (fst (readFile InReadThreadFile (getThreadFilePath EncryptedStore r t) w) = Inr content
    \<and> decoded EncryptedStore content r = Inr decodedContent \<and> parse_thread rt decodedContent = Inl m
    \<longrightarrow>
      fst (readThreadFile EncryptedStore rt r t w)
        = Inl (ReadFailed (js ''Failed to read thread: '' @ m)
                 (getThreadFilePath EncryptedStore r t))
      \<and> \<not> list_ex isUnlink (new_events (readThreadFile EncryptedStore rt r t) w)
      \<and> file_at (snd (readThreadFile EncryptedStore rt r t w)) (getThreadFilePath EncryptedStore r t)
          \<noteq> None)"
  using parse_failure_index_Encoded [of r w content decodedContent rt m]
    parse_failure_thread_Encoded [of r t w content decodedContent rt m]
    parse_failure_index_Encrypted [of r w content decodedContent rt m]
    parse_failure_thread_Encrypted [of r t w content decodedContent rt m]
  by blast

theorem C7_witness:
  "(fst (readThreadsIndex EncodedStore demo_runtime (js ''/p'') (demo_world (demo_damaged EncodedStore)))
      = Inr (Shaped emptyIndex)
    \<and> list_ex isUnlink (new_events (readThreadsIndex EncodedStore demo_runtime (js ''/p''))
        (demo_world (demo_damaged EncodedStore))))
   \<and> (fst (readThreadFile EncodedStore demo_runtime (js ''/p'') (js ''t1'')
          (demo_world (demo_damaged EncodedStore)))
      = Inl (ReadFailed (js ''Failed to parse thread: '' @ js ''Unexpected end of JSON input'')
               (getThreadFilePath EncodedStore (js ''/p'') (js ''t1'')))
    \<and> list_ex isUnlink (new_events (readThreadFile EncodedStore demo_runtime (js ''/p'') (js ''t1''))
        (demo_world (demo_damaged EncodedStore))))
   \<and> (fst (readThreadsIndex EncryptedStore demo_runtime (js ''/p'')
          (demo_world (demo_damaged EncryptedStore)))
      = Inl (ReadFailed (js ''Failed to read threads index: '' @ js ''Unexpected end of JSON input'')
               (getThreadsIndexPath EncryptedStore (js ''/p'')))
    \<and> file_at (snd (readThreadsIndex EncryptedStore demo_runtime (js ''/p'')
          (demo_world (demo_damaged EncryptedStore)))) (getThreadsIndexPath EncryptedStore (js ''/p''))
        \<noteq> None)
   \<and> (fst (readThreadFile EncryptedStore demo_runtime (js ''/p'') (js ''t1'')
          (demo_world (demo_damaged EncryptedStore)))
      = Inl (ReadFailed (js ''Failed to read thread: '' @ js ''Unexpected end of JSON input'')
               (getThreadFilePath EncryptedStore (js ''/p'') (js ''t1'')))
    \<and> file_at (snd (readThreadFile EncryptedStore demo_runtime (js ''/p'') (js ''t1'')
          (demo_world (demo_damaged EncryptedStore))))
          (getThreadFilePath EncryptedStore (js ''/p'') (js ''t1''))
        \<noteq> None)"
proof -
  from C7_content_that_does_not_parse [where r = "js ''/p''" and rt = demo_runtime
      and w = "demo_world (demo_damaged EncodedStore)" and content = "encodeChatData (js ''{'')"
      and decodedContent = "js ''{''" and m = "js ''Unexpected end of JSON input''" and t = "js ''t1''"]
    C7_content_that_does_not_parse [where r = "js ''/p''" and rt = demo_runtime
      and w = "demo_world (demo_damaged EncryptedStore)"
      and content = "frame (js ''{'') (js ''/p'') (replicate 16 0)"
      and decodedContent = "js ''{''" and m = "js ''Unexpected end of JSON input''" and t = "js ''t1''"]
  show ?thesis
    by (simp add: demo_damaged_reads demo_damaged_decoded brace_facts
        del: readThreadsIndex.simps readThreadFile.simps decoded.simps demo_damaged.simps)
qed

end
